theory Spec2Isabelle
  imports Main
begin

section \<open>Python values used by the converter\<close>

text \<open>
  The two source modules are Python. Strings are modelled as \<open>string\<close>, a \<open>dict\<close> as an
  association list in insertion order (Python dictionaries keep that order), a \<open>set\<close> of
  strings as \<open>string set\<close>, and every exception the source can raise as a value of
  \<open>exn\<close>. A method that mutates the parser and may raise is a function from the parser
  state to a result (\<open>Inl\<close> the exception) paired with the state reached: what was written
  before a \<open>raise\<close> stays written, as in Python.
\<close>

datatype exn =
    KeyError string
  | NameError string
  | TypeError string
  | ValueError string
  | AttributeError string
  | UnboundLocalError string
  | TLPMarkingDefinitionError string

text \<open>\<open>s.startswith(p)\<close>.\<close>

definition startswith :: "string \<Rightarrow> string \<Rightarrow> bool" where
  "startswith s p = (take (length p) s = p)"

text \<open>\<open>s.split(c)\<close> for a one-character separator: never the empty list.\<close>

fun split_chr :: "char \<Rightarrow> string \<Rightarrow> string list" where
  "split_chr c [] = [[]]"
| "split_chr c (x # xs) =
     (if x = c then [] # split_chr c xs
      else (case split_chr c xs of
              [] \<Rightarrow> [[x]]
            | y # ys \<Rightarrow> (x # y) # ys))"

text \<open>\<open>s.upper()\<close> on ASCII letters; every other character is kept.\<close>

definition upper_chr :: "char \<Rightarrow> char" where
  "upper_chr c =
     (case map_of (zip ''abcdefghijklmnopqrstuvwxyz'' ''ABCDEFGHIJKLMNOPQRSTUVWXYZ'') c of
        None \<Rightarrow> c
      | Some u \<Rightarrow> u)"

definition upper :: "string \<Rightarrow> string" where
  "upper s = map upper_chr s"

text \<open>Dictionary operations on an association list: \<open>k in d\<close>, \<open>d[k]\<close>, \<open>d[k] = v\<close>
  (an existing key keeps its position), \<open>d.values()\<close>.\<close>

definition dict_in :: "'k \<Rightarrow> ('k \<times> 'v) list \<Rightarrow> bool" where
  "dict_in k d = (k \<in> set (map fst d))"

definition dict_get :: "('k \<times> 'v) list \<Rightarrow> 'k \<Rightarrow> 'v option" where
  "dict_get d k = map_of d k"

fun dict_set :: "'k \<Rightarrow> 'v \<Rightarrow> ('k \<times> 'v) list \<Rightarrow> ('k \<times> 'v) list" where
  "dict_set k v [] = [(k, v)]"
| "dict_set k v ((k', v') # d) =
     (if k' = k then (k, v) # d else (k', v') # dict_set k v d)"

definition dict_values :: "('k \<times> 'v) list \<Rightarrow> 'v list" where
  "dict_values d = map snd d"

section \<open>STIX 1 export: handling structures (\<open>misp_to_stix1.py\<close>)\<close>

text \<open>
  \<open>stix1_mapping\<close> is imported by the module but is not among the sources; the tables
  read from it are parameters of the model. \<open>TLP_order\<close> is \<open>stix1_mapping.TLP_order\<close>, a
  dictionary from an upper-case colour name to its rank.
\<close>

datatype marking_structure =
    TLPMarkingStructure string
  | SimpleMarkingStructure string

text \<open>A \<open>Marking\<close> holds its \<open>MarkingSpecification\<close>s, each the list of its marking
  structures.\<close>

type_synonym marking_specification = "marking_structure list"
type_synonym marking = "marking_specification list"

text \<open>\<open>_fetch_colors\<close>: the last colon-separated piece of each tag, upper-cased.\<close>

definition fetch_colors :: "string list \<Rightarrow> string list" where
  "fetch_colors tags = map (\<lambda>tag. upper (last (split_chr CHR '':'' tag))) tags"

text \<open>
  The loop of \<open>_set_color\<close>, with \<open>tlp_color\<close> and \<open>color_value\<close> as accumulators;
  \<open>color_value\<close> is unbound (\<open>None\<close>) until a rank above the running maximum is seen.
  \<open>TLP_order[color]\<close> raises \<open>KeyError\<close> on a colour the table does not have.
\<close>

fun set_color_loop ::
  "(string \<rightharpoonup> int) \<Rightarrow> string list \<Rightarrow> int \<Rightarrow> string option \<Rightarrow> exn + string option" where
  "set_color_loop TLP_order [] tlp_color color_value = Inr color_value"
| "set_color_loop TLP_order (color # colors) tlp_color color_value =
     (case TLP_order color of
        None \<Rightarrow> Inl (KeyError color)
      | Some color_num \<Rightarrow>
          if color_num > tlp_color
          then set_color_loop TLP_order colors color_num (Some color)
          else set_color_loop TLP_order colors tlp_color color_value)"

definition set_color :: "(string \<rightharpoonup> int) \<Rightarrow> string list \<Rightarrow> exn + string" where
  "set_color TLP_order colors =
     (case set_color_loop TLP_order colors 0 None of
        Inl e \<Rightarrow> Inl e
      | Inr None \<Rightarrow> Inl (UnboundLocalError ''color_value'')
      | Inr (Some color_value) \<Rightarrow> Inr color_value)"

text \<open>\<open>_set_handling\<close>: the tags are sorted into \<open>sorted_tags['tlp_tags']\<close> and
  \<open>sorted_tags['simple_tags']\<close>, each in the order of the input; the key \<open>'tlp_tags'\<close> is
  in the dictionary exactly when one tag starts with \<open>tlp:\<close>. The TLP structure, when
  there is one, comes first.\<close>

definition tlp_tags :: "string list \<Rightarrow> string list" where
  "tlp_tags tags = filter (\<lambda>tag. startswith tag ''tlp:'') tags"

definition simple_tags :: "string list \<Rightarrow> string list" where
  "simple_tags tags = filter (\<lambda>tag. \<not> startswith tag ''tlp:'') tags"

definition set_handling :: "(string \<rightharpoonup> int) \<Rightarrow> string list \<Rightarrow> exn + marking" where
  "set_handling TLP_order tags =
     (if tlp_tags tags \<noteq> []
      then (case set_color TLP_order (fetch_colors (tlp_tags tags)) of
              Inl e \<Rightarrow> Inl e
            | Inr color \<Rightarrow>
                Inr [TLPMarkingStructure color #
                     map SimpleMarkingStructure (simple_tags tags)])
      else Inr [map SimpleMarkingStructure (simple_tags tags)])"

text \<open>
  Modelled from the spec: the table \<open>stix1_mapping.TLP_order\<close> is not among the sources;
  the spec speaks of a fixed small vocabulary of four ordered sensitivity levels. This
  instance is the argument of the worked examples only: every general statement takes
  the table as a parameter.
\<close>

definition four_levels :: "string \<rightharpoonup> int" where
  "four_levels = [''RED'' \<mapsto> 4, ''AMBER'' \<mapsto> 3, ''GREEN'' \<mapsto> 2, ''WHITE'' \<mapsto> 1]"

section \<open>STIX 1 export: the input event\<close>

text \<open>
  The event is a \<open>pymisp\<close> \<open>MISPEvent\<close> filled by \<open>from_dict\<close> (a library outside the
  sources); the model takes the loaded event as its input. Only the fields the parser
  reads are kept. A key \<open>get\<close> may miss is an \<open>option\<close>; \<open>attribute.get('Galaxy')\<close> is
  false for a missing key and for the empty list alike, so \<open>Galaxy\<close> is a list. A tag is
  its \<open>name\<close>.
\<close>

record galaxy_cluster =
  cluster_uuid :: string
  cluster_value :: string
  cluster_description :: "string option"
  cluster_meta :: "(string \<times> string list) list option"

record galaxy =
  galaxy_type :: string
  galaxy_name :: string
  GalaxyCluster :: "galaxy_cluster list"

record misp_attribute =
  attr_uuid :: string
  attr_type :: string
  attr_category :: string
  attr_value :: string
  attr_comment :: "string option"
  attr_timestamp :: string
  attr_to_ids :: bool
  attr_object_relation :: string
  attr_tags :: "string list"
  attr_Galaxy :: "galaxy list"

record misp_object =
  obj_uuid :: string
  obj_name :: string
  obj_meta_category :: "string option"
  obj_description :: "string option"
  obj_comment :: "string option"
  obj_timestamp :: string
  obj_attributes :: "misp_attribute list"

record misp_event =
  ev_uuid :: string
  ev_info :: string
  ev_timestamp :: string
  ev_threat_level_id :: "string option"
  ev_id :: "string option"
  ev_analysis :: "string option"
  ev_orgc_name :: "string option"
  ev_org_name :: "string option"
  ev_Attribute :: "misp_attribute list"
  ev_Object :: "misp_object list"
  ev_Galaxy :: "galaxy list"
  ev_tags :: "string list"

section \<open>STIX 1 export: the output entities\<close>

text \<open>
  The \<open>cybox\<close> and \<open>stix\<close> classes are libraries outside the sources. An entity is modelled
  by the fields the parser sets on it. Of the cybox objects only the three the modelled
  producers build are kept.
\<close>

record custom =
  custom_name :: "string option"
  custom_description :: "string option"
  custom_properties :: "(string \<times> string) list"

record autonomous_system =
  as_handle :: "string option"
  as_number :: "string option"
  as_name :: "string option"
  as_custom_properties :: "(string \<times> string) list option"

datatype cybox_object =
    Custom custom
  | AutonomousSystem autonomous_system

text \<open>\<open>_create_observable\<close> gives the object (\<open>parent.id_\<close>) and the observable their
  identifiers.\<close>

record observable =
  observable_id :: string
  object_id :: string
  object_properties :: cybox_object

record related_ttp =
  rttp_idref :: string
  rttp_relationship :: string

record related_coa =
  rcoa_idref :: string
  rcoa_relationship :: string

record related_threat_actor =
  rta_idref :: string
  rta_relationship :: string

record indicator =
  indicator_id :: string
  indicator_timestamp :: string
  indicator_producer :: string
  indicator_title :: string
  indicator_description :: string
  indicator_types :: "string list"
  indicator_observables :: "observable list"
  indicated_ttps :: "related_ttp list"
  suggested_coas :: "related_coa list"
  indicator_handling :: "marking option"

record attack_pattern =
  ap_id :: string
  ap_title :: string
  ap_description :: string
  ap_capec_id :: "string option"

record malware_instance =
  mw_id :: string
  mw_title :: string
  mw_description :: "string option"
  mw_names :: "string list"

record tool_information =
  tool_id :: string
  tool_name :: string
  tool_description :: "string option"

record vulnerability =
  vuln_id :: "string option"
  vuln_title :: "string option"
  vuln_description :: "string option"
  vuln_cve_id :: "string option"
  vuln_references :: "string list"

record exploit_target =
  et_id :: string
  et_timestamp :: "string option"
  et_title :: "string option"
  et_vulnerability :: vulnerability

datatype ttp_content =
    Behavior_attack_pattern attack_pattern
  | Behavior_malware malware_instance
  | Resource_tools tool_information
  | Exploit_target exploit_target

record ttp =
  ttp_id :: string
  ttp_timestamp :: "string option"
  ttp_title :: string
  ttp_handling :: "marking option"
  ttp_content :: "ttp_content option"

record course_of_action =
  coa_id :: string
  coa_title :: string
  coa_description :: string

record threat_actor =
  ta_id :: string
  ta_title :: string
  ta_description :: "string option"
  ta_intended_effects :: "string list"

text \<open>The incident: a related indicator or observable carries its \<open>relationship\<close>
  (\<open>None\<close> when \<open>misp_object.get('meta-category')\<close> misses); a \<open>COATaken\<close> is the \<open>idref\<close> of
  its course of action.\<close>

record incident =
  incident_id :: string
  incident_title :: string
  incident_timestamp :: string
  history :: "string list"
  incident_handling :: "marking option"
  external_ids :: "(string \<times> string) list"
  incident_status :: "string option"
  information_source :: "string option"
  reporter :: "string option"
  related_indicators :: "(indicator \<times> string option) list"
  related_observables :: "(observable \<times> string option) list"
  coa_taken :: "string list"
  attributed_threat_actors :: "related_threat_actor list option"
  leveraged_ttps :: "related_ttp list"

record stix_package =
  package_id :: string
  package_timestamp :: string
  package_version :: string
  package_courses_of_action :: "course_of_action list"
  package_threat_actors :: "threat_actor list"
  package_ttps :: "ttp list"
  package_incidents :: "incident list"
  package_title :: "string option"
  package_description :: "string option"

section \<open>STIX 1 export: the parser\<close>

text \<open>
  \<open>MISPtoSTIX1Parser.__init__\<close> assigns the fields of \<open>stix1_instance\<close>;
  \<open>parse_misp_event\<close> adds \<open>_stix_package\<close> and \<open>incident\<close>, and
  \<open>_generate_stix_objects\<close> assigns \<open>orgc_name\<close> (\<open>None\<close> until then). The fields of
  \<open>__init__\<close> are never reset: they carry over from one event to the next on the same
  instance. \<open>contextualised_data\<close> is a \<open>defaultdict(dict)\<close>: each of its three keys is
  \<open>None\<close> until the first subscript creates it. The fields \<open>misp_event\<close>,
  \<open>objects_to_parse\<close> and \<open>ttp_references\<close> are left out: the event is an argument of the
  functions that read it, the other two are never read.
\<close>

record stix1_instance =
  namespace :: string
  orgname :: string
  errors :: "string list"
  warnings :: "string set"
  header_comment :: "string list"
  ctx_course_of_action :: "(string \<times> string) list option"
  ctx_threat_actor :: "(string \<times> related_threat_actor) list option"
  ctx_ttp :: "(string \<times> related_ttp) list option"
  courses_of_action :: "(string \<times> course_of_action) list"
  threat_actors :: "(string \<times> threat_actor) list"
  ttps :: "(string \<times> ttp) list"

record stix1_parser = stix1_instance +
  the_stix_package :: stix_package
  the_incident :: incident
  orgc_name :: "string option"

definition init_stix1 :: "string \<Rightarrow> string \<Rightarrow> stix1_instance" where
  "init_stix1 ns org =
     \<lparr>namespace = ns, orgname = org, errors = [], warnings = {}, header_comment = [],
      ctx_course_of_action = None, ctx_threat_actor = None, ctx_ttp = None,
      courses_of_action = [], threat_actors = [], ttps = []\<rparr>"

text \<open>A method of the parser: the result, or the exception raised, and the parser as the
  call left it.\<close>

type_synonym 'a bound_method = "stix1_parser \<Rightarrow> (exn + 'a) \<times> stix1_parser"

text \<open>
  The tables of \<open>stix1_mapping\<close> (not among the sources) are parameters.
  \<^item> \<open>attribute_types_mapping\<close> maps an attribute type to a method name, which
    \<open>_resolve_attributes\<close> resolves with \<open>getattr(self, name)\<close>; the model takes the table
    composed with that lookup, so an entry is the bound method itself (a name that is no
    method of the class is the method that raises \<open>AttributeError\<close>).
  \<^item> \<open>galaxy_types_mapping\<close> maps a galaxy type to a format string for a method name,
    with or without one \<open>{}\<close> placeholder.
  \<^item> \<open>objects_mapping\<close> maps an object name to a method name.
  \<^item> \<open>TLP_order\<close>, \<open>misp_indicator_type\<close>, \<open>threat_level_mapping\<close> and \<open>status_mapping\<close>
    are dictionaries.
\<close>

datatype to_call = Plain string | Placeholder string string

fun format_to_call :: "to_call \<Rightarrow> string \<Rightarrow> string" where
  "format_to_call (Plain name) scope = name"
| "format_to_call (Placeholder before after) scope = before @ scope @ after"

record stix1_mapping =
  attribute_types_mapping :: "string \<rightharpoonup> (misp_attribute \<Rightarrow> unit bound_method)"
  galaxy_types_mapping :: "string \<rightharpoonup> to_call"
  objects_mapping :: "string \<rightharpoonup> string"
  TLP_order :: "string \<rightharpoonup> int"
  misp_indicator_type :: "string \<rightharpoonup> string"
  threat_level_mapping :: "string \<rightharpoonup> string"
  status_mapping :: "string \<rightharpoonup> string"

subsection \<open>Object creation helpers\<close>

definition create_observable ::
  "stix1_parser \<Rightarrow> cybox_object \<Rightarrow> string \<Rightarrow> string \<Rightarrow> observable" where
  "create_observable p stix_object attribute_uuid feature =
     \<lparr>observable_id = namespace p @ '':Observable-'' @ attribute_uuid,
      object_id = namespace p @ '':'' @ feature @ ''-'' @ attribute_uuid,
      object_properties = stix_object\<rparr>"

definition create_related_ttp :: "string \<Rightarrow> string \<Rightarrow> related_ttp" where
  "create_related_ttp ttp_id' category = \<lparr>rttp_idref = ttp_id', rttp_relationship = category\<rparr>"

definition create_related_coa :: "string \<Rightarrow> string \<Rightarrow> related_coa" where
  "create_related_coa coa_id' category = \<lparr>rcoa_idref = coa_id', rcoa_relationship = category\<rparr>"

definition create_related_threat_actor :: "string \<Rightarrow> string \<Rightarrow> related_threat_actor" where
  "create_related_threat_actor ta_id' category =
     \<lparr>rta_idref = ta_id', rta_relationship = category\<rparr>"

definition create_coa_taken :: "string \<Rightarrow> string" where
  "create_coa_taken coa_id' = coa_id'"

text \<open>\<open>d.get(k)\<close> as a truth value: false for a missing key and for an empty value.\<close>

definition get_truthy :: "'a list option \<Rightarrow> 'a list option" where
  "get_truthy v = (case v of None \<Rightarrow> None | Some x \<Rightarrow> if x = [] then None else Some x)"

definition meta_get :: "(string \<times> string list) list \<Rightarrow> string \<Rightarrow> string list option" where
  "meta_get meta k = get_truthy (map_of meta k)"

text \<open>\<open>_set_producer\<close> reads \<open>self.orgc_name\<close>; the attribute is missing before
  \<open>_generate_stix_objects\<close> has assigned it.\<close>

definition set_producer :: "stix1_parser \<Rightarrow> exn + string" where
  "set_producer p =
     (case orgc_name p of
        None \<Rightarrow> Inl (AttributeError ''orgc_name'')
      | Some name \<Rightarrow> Inr name)"

definition create_indicator_from_attribute ::
  "stix1_parser \<Rightarrow> misp_attribute \<Rightarrow> exn + indicator" where
  "create_indicator_from_attribute p attribute =
     (case set_producer p of
        Inl e \<Rightarrow> Inl e
      | Inr producer \<Rightarrow>
          let title = attr_category attribute @ '': '' @ attr_value attribute @
                      '' (MISP Attribute)''
          in Inr \<lparr>indicator_id = namespace p @ '':Indicator-'' @ attr_uuid attribute,
                  indicator_timestamp = attr_timestamp attribute,
                  indicator_producer = producer,
                  indicator_title = title,
                  indicator_description =
                    (case get_truthy (attr_comment attribute) of
                       Some comment \<Rightarrow> comment
                     | None \<Rightarrow> title),
                  indicator_types = [],
                  indicator_observables = [],
                  indicated_ttps = [],
                  suggested_coas = [],
                  indicator_handling = None\<rparr>)"

text \<open>\<open>_create_indicator_from_object\<close>: \<open>misp_object.description\<close> is read when the
  comment is missing or empty, and raises when the object has no description.\<close>

definition create_indicator_from_object ::
  "stix1_parser \<Rightarrow> misp_object \<Rightarrow> exn + indicator" where
  "create_indicator_from_object p misp_object =
     (case set_producer p of
        Inl e \<Rightarrow> Inl e
      | Inr producer \<Rightarrow>
          (case (case get_truthy (obj_comment misp_object) of
                   Some comment \<Rightarrow> Inr comment
                 | None \<Rightarrow>
                     (case obj_description misp_object of
                        None \<Rightarrow> Inl (AttributeError ''description'')
                      | Some d \<Rightarrow> Inr d)) of
             Inl e \<Rightarrow> Inl e
           | Inr description \<Rightarrow>
               Inr \<lparr>indicator_id = namespace p @ '':Indicator-'' @ obj_uuid misp_object,
                    indicator_timestamp = obj_timestamp misp_object,
                    indicator_producer = producer,
                    indicator_title =
                      (case obj_meta_category misp_object of
                         None \<Rightarrow> ''None''
                       | Some c \<Rightarrow> c) @ '': '' @ obj_name misp_object @ '' (MISP Object)'',
                    indicator_description = description,
                    indicator_types = [],
                    indicator_observables = [],
                    indicated_ttps = [],
                    suggested_coas = [],
                    indicator_handling = None\<rparr>))"

definition set_indicator_type :: "stix1_mapping \<Rightarrow> string \<Rightarrow> string" where
  "set_indicator_type M attribute_type =
     (case misp_indicator_type M attribute_type of
        Some t \<Rightarrow> t
      | None \<Rightarrow> ''Malware Artifacts'')"

definition create_ttp_from_galaxy :: "stix1_parser \<Rightarrow> string \<Rightarrow> string \<Rightarrow> ttp" where
  "create_ttp_from_galaxy p galaxy_name' uuid =
     \<lparr>ttp_id = namespace p @ '':TTP-'' @ uuid,
      ttp_timestamp = None,
      ttp_title = galaxy_name' @ '' (MISP Galaxy)'',
      ttp_handling = None,
      ttp_content = None\<rparr>"

definition create_course_of_action_from_galaxy ::
  "stix1_parser \<Rightarrow> galaxy_cluster \<Rightarrow> exn + course_of_action" where
  "create_course_of_action_from_galaxy p cluster =
     (case cluster_description cluster of
        None \<Rightarrow> Inl (KeyError ''description'')
      | Some d \<Rightarrow>
          Inr \<lparr>coa_id = namespace p @ '':CourseOfAction-'' @ cluster_uuid cluster,
               coa_title = cluster_value cluster,
               coa_description = d\<rparr>)"

text \<open>\<open>_create_threat_actor_from_galaxy\<close>; a \<open>cfr-type-of-incident\<close> given as one string is
  the list of that string.\<close>

definition create_threat_actor_from_galaxy ::
  "stix1_parser \<Rightarrow> galaxy_cluster \<Rightarrow> exn + threat_actor" where
  "create_threat_actor_from_galaxy p cluster =
     (case cluster_meta cluster of
        None \<Rightarrow> Inl (KeyError ''meta'')
      | Some meta \<Rightarrow>
          Inr \<lparr>ta_id = namespace p @ '':ThreatActor-'' @ cluster_uuid cluster,
               ta_title = cluster_value cluster,
               ta_description = get_truthy (cluster_description cluster),
               ta_intended_effects =
                 (case meta_get meta ''cfr-type-of-incident'' of
                    None \<Rightarrow> []
                  | Some effects \<Rightarrow> effects)\<rparr>)"

text \<open>\<open>_quick_fetch_tag_names\<close>: \<open>misp-galaxy:TYPE="VALUE"\<close> for each cluster.\<close>

definition quick_fetch_tag_names :: "galaxy \<Rightarrow> string list" where
  "quick_fetch_tag_names galaxy' =
     map (\<lambda>cluster. ''misp-galaxy:'' @ galaxy_type galaxy' @ ''='' @ [CHR 0x22] @
                     cluster_value cluster @ [CHR 0x22])
         (GalaxyCluster galaxy')"

subsection \<open>Galaxies\<close>

text \<open>The four \<open>_parse_FEATURE_galaxy\<close> methods that \<open>_get_related_ttps\<close> reaches through
  \<open>getattr(self, f'_parse_{feature}_galaxy')\<close>; \<open>feature\<close> is one of the four literals of
  the call sites. \<open>cluster['description']\<close> and \<open>cluster['meta']\<close> raise \<open>KeyError\<close> on a
  missing key.\<close>

datatype feature = F_attack_pattern | F_malware | F_tool | F_vulnerability

definition parse_attack_pattern_galaxy ::
  "stix1_parser \<Rightarrow> galaxy_cluster \<Rightarrow> ttp \<Rightarrow> exn + ttp" where
  "parse_attack_pattern_galaxy p cluster ttp' =
     (case cluster_description cluster of
        None \<Rightarrow> Inl (KeyError ''description'')
      | Some d \<Rightarrow>
          (case cluster_meta cluster of
             None \<Rightarrow> Inl (KeyError ''meta'')
           | Some meta \<Rightarrow>
               Inr (ttp'\<lparr>ttp_content := Some (Behavior_attack_pattern
                  \<lparr>ap_id = namespace p @ '':AttackPattern-'' @ cluster_uuid cluster,
                   ap_title = cluster_value cluster,
                   ap_description = d,
                   ap_capec_id =
                     (case meta_get meta ''external_id'' of
                        None \<Rightarrow> None
                      | Some ids \<Rightarrow>
                          if startswith (hd ids) ''CAPEC'' then Some (hd ids) else None)\<rparr>)\<rparr>)))"

definition parse_malware_galaxy ::
  "stix1_parser \<Rightarrow> galaxy_cluster \<Rightarrow> ttp \<Rightarrow> exn + ttp" where
  "parse_malware_galaxy p cluster ttp' =
     (case cluster_meta cluster of
        None \<Rightarrow> Inl (KeyError ''meta'')
      | Some meta \<Rightarrow>
          Inr (ttp'\<lparr>ttp_content := Some (Behavior_malware
             \<lparr>mw_id = namespace p @ '':MalwareInstance-'' @ cluster_uuid cluster,
              mw_title = cluster_value cluster,
              mw_description = get_truthy (cluster_description cluster),
              mw_names =
                (case meta_get meta ''synonyms'' of
                   None \<Rightarrow> []
                 | Some synonyms \<Rightarrow> synonyms)\<rparr>)\<rparr>))"

definition parse_tool_galaxy ::
  "stix1_parser \<Rightarrow> galaxy_cluster \<Rightarrow> ttp \<Rightarrow> exn + ttp" where
  "parse_tool_galaxy p cluster ttp' =
     Inr (ttp'\<lparr>ttp_content := Some (Resource_tools
        \<lparr>tool_id = namespace p @ '':ToolInformation-'' @ cluster_uuid cluster,
         tool_name = cluster_value cluster,
         tool_description = get_truthy (cluster_description cluster)\<rparr>)\<rparr>)"

definition parse_vulnerability_galaxy ::
  "stix1_parser \<Rightarrow> galaxy_cluster \<Rightarrow> ttp \<Rightarrow> exn + ttp" where
  "parse_vulnerability_galaxy p cluster ttp' =
     (case cluster_description cluster of
        None \<Rightarrow> Inl (KeyError ''description'')
      | Some d \<Rightarrow>
          (case cluster_meta cluster of
             None \<Rightarrow> Inl (KeyError ''meta'')
           | Some meta \<Rightarrow>
               Inr (ttp'\<lparr>ttp_content := Some (Exploit_target
                  \<lparr>et_id = namespace p @ '':ExploitTarget-'' @ cluster_uuid cluster,
                   et_timestamp = None,
                   et_title = None,
                   et_vulnerability =
                     \<lparr>vuln_id = Some (namespace p @ '':Vulnerability-'' @ cluster_uuid cluster),
                      vuln_title = Some (cluster_value cluster),
                      vuln_description = Some d,
                      vuln_cve_id =
                        (case meta_get meta ''aliases'' of
                           None \<Rightarrow> None
                         | Some aliases \<Rightarrow> Some (hd aliases)),
                      vuln_references =
                        (case meta_get meta ''refs'' of
                           None \<Rightarrow> []
                         | Some refs \<Rightarrow> refs)\<rparr>\<rparr>)\<rparr>)))"

fun parse_feature_galaxy ::
  "feature \<Rightarrow> stix1_parser \<Rightarrow> galaxy_cluster \<Rightarrow> ttp \<Rightarrow> exn + ttp" where
  "parse_feature_galaxy F_attack_pattern = parse_attack_pattern_galaxy"
| "parse_feature_galaxy F_malware = parse_malware_galaxy"
| "parse_feature_galaxy F_tool = parse_tool_galaxy"
| "parse_feature_galaxy F_vulnerability = parse_vulnerability_galaxy"

text \<open>
  \<open>_get_related_ttps\<close>: the loop over \<open>galaxy['GalaxyCluster']\<close>, with the dictionary
  \<open>related_ttps\<close> as accumulator. A cluster whose UUID is a key of \<open>self.ttps\<close> gives a
  relationship to the cached TTP's identifier and nothing else; any other cluster gives a
  new TTP, stored in \<open>self.ttps\<close> after its relationship is made.
\<close>

fun get_related_ttps_loop ::
  "feature \<Rightarrow> galaxy \<Rightarrow> galaxy_cluster list \<Rightarrow> (string \<times> related_ttp) list \<Rightarrow>
   (string \<times> related_ttp) list bound_method" where
  "get_related_ttps_loop feature' galaxy' [] related_ttps p = (Inr related_ttps, p)"
| "get_related_ttps_loop feature' galaxy' (cluster # clusters) related_ttps p =
     (case dict_get (ttps p) (cluster_uuid cluster) of
        Some cached \<Rightarrow>
          get_related_ttps_loop feature' galaxy' clusters
            (dict_set (cluster_uuid cluster)
               (create_related_ttp (ttp_id cached) (galaxy_name galaxy')) related_ttps) p
      | None \<Rightarrow>
          (case parse_feature_galaxy feature' p cluster
                  (create_ttp_from_galaxy p (galaxy_name galaxy') (cluster_uuid cluster)) of
             Inl e \<Rightarrow> (Inl e, p)
           | Inr ttp' \<Rightarrow>
               get_related_ttps_loop feature' galaxy' clusters
                 (dict_set (cluster_uuid cluster)
                    (create_related_ttp (ttp_id ttp') (galaxy_name galaxy')) related_ttps)
                 (p\<lparr>ttps := dict_set (cluster_uuid cluster) ttp' (ttps p)\<rparr>)))"

definition get_related_ttps ::
  "galaxy \<Rightarrow> feature \<Rightarrow> (string \<times> related_ttp) list bound_method" where
  "get_related_ttps galaxy' feature' p =
     get_related_ttps_loop feature' galaxy' (GalaxyCluster galaxy') [] p"

text \<open>\<open>_handle_related_ttps\<close>: the subscript \<open>self.contextualised_data['ttp']\<close> creates the
  key on the first pass of the loop.\<close>

fun handle_related_ttps :: "(string \<times> related_ttp) list \<Rightarrow> stix1_parser \<Rightarrow> stix1_parser" where
  "handle_related_ttps [] p = p"
| "handle_related_ttps ((uuid, related_ttp') # rest) p =
     (let d = (case ctx_ttp p of None \<Rightarrow> [] | Some d \<Rightarrow> d)
      in handle_related_ttps rest
           (p\<lparr>ctx_ttp := Some (if dict_in uuid d then d else dict_set uuid related_ttp' d)\<rparr>))"

text \<open>The \<open>_parse_FEATURE_attribute_galaxy\<close> and \<open>_parse_FEATURE_event_galaxy\<close> methods
  of the four TTP features.\<close>

definition parse_ttp_attribute_galaxy ::
  "feature \<Rightarrow> galaxy \<Rightarrow> indicator \<Rightarrow> indicator bound_method" where
  "parse_ttp_attribute_galaxy feature' galaxy' indicator' p =
     (case get_related_ttps galaxy' feature' p of
        (Inl e, p') \<Rightarrow> (Inl e, p')
      | (Inr related_ttps, p') \<Rightarrow>
          (Inr (indicator'\<lparr>indicated_ttps :=
                  indicated_ttps indicator' @ dict_values related_ttps\<rparr>), p'))"

definition parse_ttp_event_galaxy :: "feature \<Rightarrow> galaxy \<Rightarrow> unit bound_method" where
  "parse_ttp_event_galaxy feature' galaxy' p =
     (case get_related_ttps galaxy' feature' p of
        (Inl e, p') \<Rightarrow> (Inl e, p')
      | (Inr related_ttps, p') \<Rightarrow> (Inr (), handle_related_ttps related_ttps p'))"

text \<open>\<open>_parse_course_of_action_attribute_galaxy\<close>: the loop over the clusters.\<close>

fun parse_course_of_action_attribute_galaxy_loop ::
  "galaxy \<Rightarrow> galaxy_cluster list \<Rightarrow> indicator \<Rightarrow> indicator bound_method" where
  "parse_course_of_action_attribute_galaxy_loop galaxy' [] indicator' p = (Inr indicator', p)"
| "parse_course_of_action_attribute_galaxy_loop galaxy' (cluster # clusters) indicator' p =
     (case dict_get (courses_of_action p) (cluster_uuid cluster) of
        Some cached \<Rightarrow>
          parse_course_of_action_attribute_galaxy_loop galaxy' clusters
            (indicator'\<lparr>suggested_coas := suggested_coas indicator' @
               [create_related_coa (coa_id cached) (galaxy_name galaxy')]\<rparr>) p
      | None \<Rightarrow>
          (case create_course_of_action_from_galaxy p cluster of
             Inl e \<Rightarrow> (Inl e, p)
           | Inr course_of_action' \<Rightarrow>
               parse_course_of_action_attribute_galaxy_loop galaxy' clusters
                 (indicator'\<lparr>suggested_coas := suggested_coas indicator' @
                    [create_related_coa (coa_id course_of_action') (galaxy_name galaxy')]\<rparr>)
                 (p\<lparr>courses_of_action :=
                      dict_set (cluster_uuid cluster) course_of_action' (courses_of_action p)\<rparr>)))"

definition parse_course_of_action_attribute_galaxy ::
  "galaxy \<Rightarrow> indicator \<Rightarrow> indicator bound_method" where
  "parse_course_of_action_attribute_galaxy galaxy' indicator' p =
     parse_course_of_action_attribute_galaxy_loop galaxy' (GalaxyCluster galaxy') indicator' p"

text \<open>\<open>_parse_course_of_action_event_galaxy\<close>.\<close>

definition ctx_course_of_action_set :: "string \<Rightarrow> string \<Rightarrow> stix1_parser \<Rightarrow> stix1_parser" where
  "ctx_course_of_action_set uuid coa_taken' p =
     p\<lparr>ctx_course_of_action :=
         Some (dict_set uuid coa_taken'
                 (case ctx_course_of_action p of None \<Rightarrow> [] | Some d \<Rightarrow> d))\<rparr>"

fun parse_course_of_action_event_galaxy_loop ::
  "galaxy_cluster list \<Rightarrow> unit bound_method" where
  "parse_course_of_action_event_galaxy_loop [] p = (Inr (), p)"
| "parse_course_of_action_event_galaxy_loop (cluster # clusters) p =
     (case dict_get (courses_of_action p) (cluster_uuid cluster) of
        Some cached \<Rightarrow>
          parse_course_of_action_event_galaxy_loop clusters
            (ctx_course_of_action_set (cluster_uuid cluster)
               (create_coa_taken (coa_id cached)) p)
      | None \<Rightarrow>
          (case create_course_of_action_from_galaxy p cluster of
             Inl e \<Rightarrow> (Inl e, p)
           | Inr course_of_action' \<Rightarrow>
               parse_course_of_action_event_galaxy_loop clusters
                 ((ctx_course_of_action_set (cluster_uuid cluster)
                     (create_coa_taken (coa_id course_of_action')) p)
                  \<lparr>courses_of_action :=
                      dict_set (cluster_uuid cluster) course_of_action' (courses_of_action p)\<rparr>)))"

definition parse_course_of_action_event_galaxy :: "galaxy \<Rightarrow> unit bound_method" where
  "parse_course_of_action_event_galaxy galaxy' p =
     parse_course_of_action_event_galaxy_loop (GalaxyCluster galaxy') p"

text \<open>\<open>_parse_threat_actor_galaxy\<close>: the test \<open>cluster_uuid not in
  self.contextualised_data['threat_actor']\<close> creates the key.\<close>

fun parse_threat_actor_galaxy_loop :: "galaxy \<Rightarrow> galaxy_cluster list \<Rightarrow> unit bound_method" where
  "parse_threat_actor_galaxy_loop galaxy' [] p = (Inr (), p)"
| "parse_threat_actor_galaxy_loop galaxy' (cluster # clusters) p =
     (let d = (case ctx_threat_actor p of None \<Rightarrow> [] | Some d \<Rightarrow> d);
          p1 = p\<lparr>ctx_threat_actor := Some d\<rparr>
      in if dict_in (cluster_uuid cluster) d
         then parse_threat_actor_galaxy_loop galaxy' clusters p1
         else (case dict_get (threat_actors p1) (cluster_uuid cluster) of
                 Some cached \<Rightarrow>
                   parse_threat_actor_galaxy_loop galaxy' clusters
                     (p1\<lparr>ctx_threat_actor := Some (dict_set (cluster_uuid cluster)
                           (create_related_threat_actor (ta_id cached) (galaxy_name galaxy'))
                           d)\<rparr>)
               | None \<Rightarrow>
                   (case create_threat_actor_from_galaxy p1 cluster of
                      Inl e \<Rightarrow> (Inl e, p1)
                    | Inr threat_actor' \<Rightarrow>
                        parse_threat_actor_galaxy_loop galaxy' clusters
                          (p1\<lparr>ctx_threat_actor := Some (dict_set (cluster_uuid cluster)
                                (create_related_threat_actor (ta_id threat_actor')
                                   (galaxy_name galaxy')) d),
                              threat_actors :=
                                dict_set (cluster_uuid cluster) threat_actor'
                                  (threat_actors p1)\<rparr>))))"

definition parse_threat_actor_galaxy :: "galaxy \<Rightarrow> unit bound_method" where
  "parse_threat_actor_galaxy galaxy' p =
     parse_threat_actor_galaxy_loop galaxy' (GalaxyCluster galaxy') p"

text \<open>
  \<open>getattr(self, to_call.format('attribute'))(galaxy, indicator)\<close>: the five methods of
  the class that take a galaxy and an indicator. \<open>_parse_threat_actor_galaxy\<close> takes a
  galaxy only, so the call with two arguments raises \<open>TypeError\<close>; no other method of the
  class takes these arguments, and a name the class does not have raises
  \<open>AttributeError\<close>.
\<close>

definition getattr_attribute_galaxy :: "string \<Rightarrow> galaxy \<Rightarrow> indicator \<Rightarrow> indicator bound_method" where
  "getattr_attribute_galaxy name =
     (if name = ''_parse_attack_pattern_attribute_galaxy''
        then parse_ttp_attribute_galaxy F_attack_pattern
      else if name = ''_parse_course_of_action_attribute_galaxy''
        then parse_course_of_action_attribute_galaxy
      else if name = ''_parse_malware_attribute_galaxy''
        then parse_ttp_attribute_galaxy F_malware
      else if name = ''_parse_tool_attribute_galaxy''
        then parse_ttp_attribute_galaxy F_tool
      else if name = ''_parse_vulnerability_attribute_galaxy''
        then parse_ttp_attribute_galaxy F_vulnerability
      else if name = ''_parse_threat_actor_galaxy''
        then (\<lambda>galaxy' indicator' p. (Inl (TypeError name), p))
      else (\<lambda>galaxy' indicator' p. (Inl (AttributeError name), p)))"

text \<open>\<open>getattr(self, to_call.format('event'))(galaxy)\<close>: the six methods that take a
  galaxy alone.\<close>

definition getattr_event_galaxy :: "string \<Rightarrow> galaxy \<Rightarrow> unit bound_method" where
  "getattr_event_galaxy name =
     (if name = ''_parse_attack_pattern_event_galaxy''
        then parse_ttp_event_galaxy F_attack_pattern
      else if name = ''_parse_course_of_action_event_galaxy''
        then parse_course_of_action_event_galaxy
      else if name = ''_parse_malware_event_galaxy''
        then parse_ttp_event_galaxy F_malware
      else if name = ''_parse_threat_actor_galaxy''
        then parse_threat_actor_galaxy
      else if name = ''_parse_tool_event_galaxy''
        then parse_ttp_event_galaxy F_tool
      else if name = ''_parse_vulnerability_event_galaxy''
        then parse_ttp_event_galaxy F_vulnerability
      else (\<lambda>galaxy' p. (Inl (AttributeError name), p)))"

subsection \<open>Attributes\<close>

text \<open>\<open>_handle_attribute_tags_and_galaxies\<close>: the loop over \<open>attribute['Galaxy']\<close> with
  the indicator and \<open>tag_names\<close> as accumulators, then the tags the galaxies did not
  account for.\<close>

fun attribute_galaxies_loop ::
  "stix1_mapping \<Rightarrow> misp_attribute \<Rightarrow> galaxy list \<Rightarrow> indicator \<Rightarrow> string list \<Rightarrow>
   (indicator \<times> string list) bound_method" where
  "attribute_galaxies_loop M attribute [] indicator' tag_names p =
     (Inr (indicator', tag_names), p)"
| "attribute_galaxies_loop M attribute (galaxy' # galaxies) indicator' tag_names p =
     (case galaxy_types_mapping M (galaxy_type galaxy') of
        Some to_call' \<Rightarrow>
          (case getattr_attribute_galaxy (format_to_call to_call' ''attribute'')
                  galaxy' indicator' p of
             (Inl e, p') \<Rightarrow> (Inl e, p')
           | (Inr indicator'', p') \<Rightarrow>
               attribute_galaxies_loop M attribute galaxies indicator''
                 (tag_names @ quick_fetch_tag_names galaxy') p')
      | None \<Rightarrow>
          attribute_galaxies_loop M attribute galaxies indicator' tag_names
            (p\<lparr>warnings := insert (galaxy_type galaxy' @ '' galaxy in '' @
                   attr_type attribute @ '' attribute not mapped.'') (warnings p)\<rparr>))"

definition handle_attribute_tags_and_galaxies ::
  "stix1_mapping \<Rightarrow> misp_attribute \<Rightarrow> indicator \<Rightarrow> (string list \<times> indicator) bound_method" where
  "handle_attribute_tags_and_galaxies M attribute indicator' p =
     (if attr_Galaxy attribute \<noteq> []
      then (case attribute_galaxies_loop M attribute (attr_Galaxy attribute) indicator' [] p of
              (Inl e, p') \<Rightarrow> (Inl e, p')
            | (Inr (indicator'', tag_names), p') \<Rightarrow>
                (Inr (filter (\<lambda>tag. tag \<notin> set tag_names) (attr_tags attribute),
                      indicator''), p'))
      else (Inr (attr_tags attribute, indicator'), p))"

text \<open>\<open>_handle_attribute\<close>: with \<open>to_ids\<close> the observable is wrapped in an indicator, which
  is appended to \<open>incident.related_indicators\<close> last, after its galaxies and its handling;
  without, the observable is appended to \<open>incident.related_observables\<close> and neither tags
  nor galaxies are read.\<close>

definition append_related_indicator ::
  "indicator \<Rightarrow> string option \<Rightarrow> stix1_parser \<Rightarrow> stix1_parser" where
  "append_related_indicator indicator' relationship p =
     p\<lparr>the_incident := (the_incident p)
         \<lparr>related_indicators :=
            related_indicators (the_incident p) @ [(indicator', relationship)]\<rparr>\<rparr>"

definition append_related_observable ::
  "observable \<Rightarrow> string option \<Rightarrow> stix1_parser \<Rightarrow> stix1_parser" where
  "append_related_observable observable' relationship p =
     p\<lparr>the_incident := (the_incident p)
         \<lparr>related_observables :=
            related_observables (the_incident p) @ [(observable', relationship)]\<rparr>\<rparr>"

definition handle_attribute ::
  "stix1_mapping \<Rightarrow> misp_attribute \<Rightarrow> observable \<Rightarrow> unit bound_method" where
  "handle_attribute M attribute observable' p =
     (if attr_to_ids attribute
      then (case create_indicator_from_attribute p attribute of
              Inl e \<Rightarrow> (Inl e, p)
            | Inr indicator0 \<Rightarrow>
                (case handle_attribute_tags_and_galaxies M attribute
                        (indicator0\<lparr>indicator_types :=
                             [set_indicator_type M (attr_type attribute)],
                           indicator_observables := [observable']\<rparr>) p of
                   (Inl e, p') \<Rightarrow> (Inl e, p')
                 | (Inr (tags, indicator1), p') \<Rightarrow>
                     (if tags \<noteq> []
                      then (case set_handling (TLP_order M) tags of
                              Inl e \<Rightarrow> (Inl e, p')
                            | Inr handling \<Rightarrow>
                                (Inr (), append_related_indicator
                                   (indicator1\<lparr>indicator_handling := Some handling\<rparr>)
                                   (Some (attr_category attribute)) p'))
                      else (Inr (), append_related_indicator indicator1
                              (Some (attr_category attribute)) p'))))
      else (Inr (), append_related_observable observable'
              (Some (attr_category attribute)) p))"

definition parse_custom_attribute :: "stix1_mapping \<Rightarrow> misp_attribute \<Rightarrow> unit bound_method" where
  "parse_custom_attribute M attribute p =
     handle_attribute M attribute
       (create_observable p
          (Custom \<lparr>custom_name = None, custom_description = None,
                   custom_properties = [(attr_type attribute, attr_value attribute)]\<rparr>)
          (attr_uuid attribute) ''Custom'') p"

text \<open>\<open>_parse_autonomous_system_attribute\<close>, one of the producers a table entry can
  name.\<close>

definition create_autonomous_system_object :: "string \<Rightarrow> autonomous_system" where
  "create_autonomous_system_object AS =
     (if startswith AS ''AS''
      then \<lparr>as_handle = Some AS, as_number = None, as_name = None,
            as_custom_properties = None\<rparr>
      else \<lparr>as_handle = None, as_number = Some AS, as_name = None,
            as_custom_properties = None\<rparr>)"




text \<open>
  \<open>_resolve_attributes\<close>: one pass of the loop body with its \<open>try\<close>/\<open>except Exception\<close>.
  The warning of an unmapped type is added after \<open>_parse_custom_attribute\<close> has returned.
  An exception of the body is caught here: the parser keeps what the body wrote before
  it raised, and one entry is appended to \<open>self.errors\<close>.
\<close>

definition resolve_attribute_body :: "stix1_mapping \<Rightarrow> misp_attribute \<Rightarrow> unit bound_method" where
  "resolve_attribute_body M attribute p =
     (case attribute_types_mapping M (attr_type attribute) of
        Some bound_method \<Rightarrow> bound_method attribute p
      | None \<Rightarrow>
          (case parse_custom_attribute M attribute p of
             (Inl e, p') \<Rightarrow> (Inl e, p')
           | (Inr u, p') \<Rightarrow>
               (Inr (), p'\<lparr>warnings := insert (''MISP Attribute type '' @
                      attr_type attribute @ '' not mapped.'') (warnings p')\<rparr>)))"

definition resolve_attribute :: "stix1_mapping \<Rightarrow> misp_attribute \<Rightarrow> stix1_parser \<Rightarrow> stix1_parser" where
  "resolve_attribute M attribute p =
     (case resolve_attribute_body M attribute p of
        (Inr u, p') \<Rightarrow> p'
      | (Inl e, p') \<Rightarrow>
          p'\<lparr>errors := errors p' @ [''Error with the '' @ attr_type attribute @
                '' attribute: '' @ attr_value attribute @ ''.'']\<rparr>)"

fun resolve_attributes :: "stix1_mapping \<Rightarrow> misp_attribute list \<Rightarrow> stix1_parser \<Rightarrow> stix1_parser" where
  "resolve_attributes M [] p = p"
| "resolve_attributes M (attribute # attributes) p =
     resolve_attributes M attributes (resolve_attribute M attribute p)"

subsection \<open>Objects\<close>

text \<open>\<open>_fetch_ids_flags\<close>: the loop returns at the first attribute with \<open>to_ids\<close>.\<close>

fun fetch_ids_flags :: "misp_attribute list \<Rightarrow> bool" where
  "fetch_ids_flags [] = False"
| "fetch_ids_flags (attribute # attributes) =
     (if attr_to_ids attribute then True else fetch_ids_flags attributes)"

definition fetch_objects_mapping_function :: "stix1_mapping \<Rightarrow> string \<Rightarrow> string" where
  "fetch_objects_mapping_function M object_name =
     (case objects_mapping M object_name of
        Some name \<Rightarrow> name
      | None \<Rightarrow> ''_parse_custom_object'')"

text \<open>\<open>_extract_multiple_object_attributes\<close>: a \<open>defaultdict(list)\<close> from the object
  relation to the values, in the order of the attributes.\<close>

definition extract_multiple_object_attributes ::
  "misp_attribute list \<Rightarrow> (string \<times> string list) list" where
  "extract_multiple_object_attributes attributes =
     foldl (\<lambda>d attribute.
              dict_set (attr_object_relation attribute)
                ((case dict_get d (attr_object_relation attribute) of
                    None \<Rightarrow> []
                  | Some values \<Rightarrow> values) @ [attr_value attribute]) d)
           [] attributes"

definition dict_pop :: "'k \<Rightarrow> ('k \<times> 'v) list \<Rightarrow> ('k \<times> 'v) list" where
  "dict_pop k d = filter (\<lambda>kv. fst kv \<noteq> k) d"

text \<open>\<open>_parse_asn_object\<close>: \<open>attributes.pop('asn')\<close> raises \<open>KeyError\<close> when the object has
  no \<open>asn\<close> attribute.\<close>

definition parse_asn_object :: "misp_object \<Rightarrow> observable bound_method" where
  "parse_asn_object misp_object' p =
     (let attributes = extract_multiple_object_attributes (obj_attributes misp_object')
      in case dict_get attributes ''asn'' of
           None \<Rightarrow> (Inl (KeyError ''asn''), p)
         | Some asn \<Rightarrow>
             (let as0 = create_autonomous_system_object (hd asn);
                  attributes1 = dict_pop ''asn'' attributes;
                  as1 = (case dict_get attributes1 ''description'' of
                           None \<Rightarrow> as0
                         | Some description \<Rightarrow> as0\<lparr>as_name := Some (hd description)\<rparr>);
                  attributes2 = dict_pop ''description'' attributes1;
                  as2 = (if attributes2 \<noteq> []
                         then as1\<lparr>as_custom_properties := Some
                                (concat (map (\<lambda>(object_relation, values).
                                                map (Pair object_relation) values)
                                             attributes2))\<rparr>
                         else as1)
              in (Inr (create_observable p (AutonomousSystem as2)
                         (obj_uuid misp_object') ''AS''), p)))"

text \<open>\<open>_parse_credential_object\<close> calls \<open>self._create_account_object()\<close>, which the class
  does not define.\<close>

definition parse_credential_object :: "misp_object \<Rightarrow> observable bound_method" where
  "parse_credential_object misp_object' p =
     (Inl (AttributeError ''_create_account_object''), p)"

definition parse_custom_object :: "misp_object \<Rightarrow> observable bound_method" where
  "parse_custom_object misp_object' p =
     (Inr (create_observable p
             (Custom \<lparr>custom_name = Some (obj_name misp_object'),
                      custom_description = get_truthy (obj_description misp_object'),
                      custom_properties =
                        map (\<lambda>attribute. (attr_object_relation attribute,
                                           attr_value attribute))
                            (obj_attributes misp_object')\<rparr>)
             (obj_uuid misp_object') ''Custom''),
      p\<lparr>warnings := insert (''MISP Object name '' @ obj_name misp_object' @
             '' not mapped.'') (warnings p)\<rparr>)"

text \<open>\<open>getattr(self, to_call)(misp_object)\<close>: the three object producers of the class; any
  other name raises.\<close>

definition getattr_object :: "string \<Rightarrow> misp_object \<Rightarrow> observable bound_method" where
  "getattr_object name =
     (if name = ''_parse_asn_object'' then parse_asn_object
      else if name = ''_parse_credential_object'' then parse_credential_object
      else if name = ''_parse_custom_object'' then parse_custom_object
      else (\<lambda>misp_object' p. (Inl (AttributeError name), p)))"

text \<open>
  \<open>_handle_object_tags_and_galaxies\<close>: the first loop reads \<open>galaxy['type']\<close> for an
  attribute with galaxies, but \<open>galaxy\<close> is a local name bound only by the second loop,
  so the read raises \<open>UnboundLocalError\<close>. When the first loop ends, \<open>galaxies\<close> is
  therefore empty, and the method returns the tag names collected in the set
  \<open>tags['tags']\<close>. Python does not fix the order in which a set is iterated; the model
  lists each name once, in the order of arrival.
\<close>

fun object_tags_loop :: "misp_attribute list \<Rightarrow> string list \<Rightarrow> exn + string list" where
  "object_tags_loop [] tags = Inr tags"
| "object_tags_loop (attribute # attributes) tags =
     (if attr_Galaxy attribute \<noteq> [] then Inl (UnboundLocalError ''galaxy'')
      else object_tags_loop attributes
             (tags @ filter (\<lambda>tag. tag \<notin> set tags) (remdups (attr_tags attribute))))"

definition handle_object_tags_and_galaxies ::
  "misp_object \<Rightarrow> indicator \<Rightarrow> (string list \<times> indicator) bound_method" where
  "handle_object_tags_and_galaxies misp_object' indicator' p =
     (case object_tags_loop (obj_attributes misp_object') [] of
        Inl e \<Rightarrow> (Inl e, p)
      | Inr tags \<Rightarrow> (Inr (tags, indicator'), p))"

definition handle_misp_object :: "observable \<Rightarrow> string option \<Rightarrow> stix1_parser \<Rightarrow> stix1_parser" where
  "handle_misp_object observable' category p =
     append_related_observable observable' category p"

definition handle_misp_object_with_context ::
  "stix1_mapping \<Rightarrow> misp_object \<Rightarrow> observable \<Rightarrow> unit bound_method" where
  "handle_misp_object_with_context M misp_object' observable' p =
     (case create_indicator_from_object p misp_object' of
        Inl e \<Rightarrow> (Inl e, p)
      | Inr indicator0 \<Rightarrow>
          (case handle_object_tags_and_galaxies misp_object'
                  (indicator0\<lparr>indicator_types :=
                       [set_indicator_type M (obj_name misp_object')],
                     indicator_observables := [observable']\<rparr>) p of
             (Inl e, p') \<Rightarrow> (Inl e, p')
           | (Inr (tags, indicator1), p') \<Rightarrow>
               (if tags \<noteq> []
                then (case set_handling (TLP_order M) tags of
                        Inl e \<Rightarrow> (Inl e, p')
                      | Inr handling \<Rightarrow>
                          (Inr (), append_related_indicator
                             (indicator1\<lparr>indicator_handling := Some handling\<rparr>)
                             (obj_meta_category misp_object') p'))
                else (Inr (), append_related_indicator indicator1
                        (obj_meta_category misp_object') p'))))"

text \<open>
  \<open>_resolve_objects\<close>: the body of the loop for one object that is not skipped. The
  \<open>try\<close> and \<open>except\<close> lines of this loop are commented out in the source, so an
  exception of the body leaves the loop and the method.
\<close>

definition resolve_object_body :: "stix1_mapping \<Rightarrow> misp_object \<Rightarrow> unit bound_method" where
  "resolve_object_body M misp_object' p =
     (let to_ids = fetch_ids_flags (obj_attributes misp_object');
          to_call' = fetch_objects_mapping_function M (obj_name misp_object')
      in case getattr_object to_call' misp_object' p of
           (Inl e, p') \<Rightarrow> (Inl e, p')
         | (Inr observable', p') \<Rightarrow>
             (if to_ids
              then handle_misp_object_with_context M misp_object' observable' p'
              else (Inr (), handle_misp_object observable'
                              (obj_meta_category misp_object') p')))"

fun resolve_objects :: "stix1_mapping \<Rightarrow> misp_object list \<Rightarrow> unit bound_method" where
  "resolve_objects M [] p = (Inr (), p)"
| "resolve_objects M (misp_object' # misp_objects) p =
     (if obj_name misp_object' = ''original-imported-file''
      then resolve_objects M misp_objects p
      else (case resolve_object_body M misp_object' p of
              (Inl e, p') \<Rightarrow> (Inl e, p')
            | (Inr u, p') \<Rightarrow> resolve_objects M misp_objects p'))"

subsection \<open>The event\<close>

text \<open>\<open>_handle_tags_and_galaxies\<close>: the loop over \<open>misp_event['Galaxy']\<close>, then the event
  tags the galaxies did not account for.\<close>

fun event_galaxies_loop ::
  "stix1_mapping \<Rightarrow> galaxy list \<Rightarrow> string list \<Rightarrow> string list bound_method" where
  "event_galaxies_loop M [] tag_names p = (Inr tag_names, p)"
| "event_galaxies_loop M (galaxy' # galaxies) tag_names p =
     (case galaxy_types_mapping M (galaxy_type galaxy') of
        Some to_call' \<Rightarrow>
          (case getattr_event_galaxy (format_to_call to_call' ''event'') galaxy' p of
             (Inl e, p') \<Rightarrow> (Inl e, p')
           | (Inr u, p') \<Rightarrow>
               event_galaxies_loop M galaxies
                 (tag_names @ quick_fetch_tag_names galaxy') p')
      | None \<Rightarrow>
          event_galaxies_loop M galaxies tag_names
            (p\<lparr>warnings := insert (galaxy_type galaxy' @ '' galaxy in event not mapped.'')
                              (warnings p)\<rparr>))"

definition handle_tags_and_galaxies :: "stix1_mapping \<Rightarrow> misp_event \<Rightarrow> string list bound_method" where
  "handle_tags_and_galaxies M ev p =
     (if ev_Galaxy ev \<noteq> []
      then (case event_galaxies_loop M (ev_Galaxy ev) [] p of
              (Inl e, p') \<Rightarrow> (Inl e, p')
            | (Inr tag_names, p') \<Rightarrow>
                (Inr (filter (\<lambda>tag. tag \<notin> set tag_names) (ev_tags ev)), p'))
      else (Inr (ev_tags ev), p))"

definition add_journal_entry :: "string \<Rightarrow> stix1_parser \<Rightarrow> stix1_parser" where
  "add_journal_entry entryline p =
     p\<lparr>the_incident := (the_incident p)\<lparr>history := history (the_incident p) @ [entryline]\<rparr>\<rparr>"

definition create_incident :: "string \<Rightarrow> misp_event \<Rightarrow> incident" where
  "create_incident orgname' ev =
     \<lparr>incident_id = orgname' @ '':Incident-'' @ ev_uuid ev,
      incident_title = ev_info ev,
      incident_timestamp = ev_timestamp ev,
      history = [],
      incident_handling = None,
      external_ids = [],
      incident_status = None,
      information_source = None,
      reporter = None,
      related_indicators = [],
      related_observables = [],
      coa_taken = [],
      attributed_threat_actors = None,
      leveraged_ttps = []\<rparr>"

definition create_stix_package :: "string \<Rightarrow> misp_event \<Rightarrow> string \<Rightarrow> stix_package" where
  "create_stix_package orgname' ev version =
     \<lparr>package_id = orgname' @ '':STIXPackage-'' @ ev_uuid ev,
      package_timestamp = ev_timestamp ev,
      package_version = version,
      package_courses_of_action = [],
      package_threat_actors = [],
      package_ttps = [],
      package_incidents = [],
      package_title = None,
      package_description = None\<rparr>"

definition set_creator :: "stix1_parser \<Rightarrow> misp_event \<Rightarrow> string" where
  "set_creator p ev = (case ev_orgc_name ev of Some name \<Rightarrow> name | None \<Rightarrow> orgname p)"

definition set_reporter :: "stix1_parser \<Rightarrow> misp_event \<Rightarrow> string" where
  "set_reporter p ev = (case ev_org_name ev of Some name \<Rightarrow> name | None \<Rightarrow> orgname p)"

text \<open>\<open>_generate_stix_objects\<close>, in the order of the source. The incident's \<open>time\<close> is not
  modelled.\<close>

definition generate_header :: "stix1_mapping \<Rightarrow> misp_event \<Rightarrow> unit bound_method" where
  "generate_header M ev p =
     (case (case ev_threat_level_id ev of
              None \<Rightarrow> Inr p
            | Some level \<Rightarrow>
                (case threat_level_mapping M level of
                   None \<Rightarrow> Inl (KeyError level)
                 | Some threat_level \<Rightarrow>
                     Inr (add_journal_entry (''Event Threat Level: '' @ threat_level) p))) of
        Inl e \<Rightarrow> (Inl e, p)
      | Inr p1 \<Rightarrow>
          (case handle_tags_and_galaxies M ev p1 of
             (Inl e, p2) \<Rightarrow> (Inl e, p2)
           | (Inr tags, p2) \<Rightarrow>
               (case (if tags \<noteq> []
                      then map_sum id Some (set_handling (TLP_order M) tags)
                      else Inr (incident_handling (the_incident p2))) of
                  Inl e \<Rightarrow> (Inl e, p2)
                | Inr handling \<Rightarrow>
                    (let p3 = p2\<lparr>the_incident := (the_incident p2)
                                 \<lparr>incident_handling := handling,
                                  external_ids :=
                                    (case ev_id ev of
                                       None \<Rightarrow> external_ids (the_incident p2)
                                     | Some i \<Rightarrow> external_ids (the_incident p2) @
                                                 [(i, ''MISP Event'')])\<rparr>\<rparr>
                     in case (case ev_analysis ev of
                                None \<Rightarrow> Inr (incident_status (the_incident p3))
                              | Some analysis \<Rightarrow>
                                  (case status_mapping M analysis of
                                     None \<Rightarrow> Inl (KeyError analysis)
                                   | Some status \<Rightarrow> Inr (Some status))) of
                          Inl e \<Rightarrow> (Inl e, p3)
                        | Inr status \<Rightarrow>
                            (let p4 = p3\<lparr>orgc_name := Some (set_creator p3 ev)\<rparr>
                             in (Inr (), p4\<lparr>the_incident := (the_incident p4)
                                   \<lparr>incident_status := status,
                                    information_source := Some (set_creator p3 ev),
                                    reporter := Some (set_reporter p4 ev)\<rparr>\<rparr>))))))"

definition generate_stix_objects :: "stix1_mapping \<Rightarrow> misp_event \<Rightarrow> unit bound_method" where
  "generate_stix_objects M ev p =
     (case generate_header M ev p of
        (Inl e, p') \<Rightarrow> (Inl e, p')
      | (Inr u, p') \<Rightarrow>
          (let p1 = (if ev_Attribute ev \<noteq> []
                     then resolve_attributes M (ev_Attribute ev) p'
                     else p')
           in if ev_Object ev \<noteq> []
              then resolve_objects M (ev_Object ev) p1
              else (Inr (), p1)))"

text \<open>
  The end of \<open>parse_misp_event\<close>: the relationships of \<open>contextualised_data\<close> go to the
  incident, then \<^emph>\<open>every\<close> value of \<open>self.courses_of_action\<close>, \<open>self.threat_actors\<close> and
  \<open>self.ttps\<close> is added to the package of the event being parsed, then the incident and
  the header.
\<close>

definition contextualise :: "incident \<Rightarrow> stix1_parser \<Rightarrow> incident" where
  "contextualise incident' p =
     incident'
       \<lparr>coa_taken :=
          (case ctx_course_of_action p of
             None \<Rightarrow> coa_taken incident'
           | Some d \<Rightarrow> coa_taken incident' @ dict_values d),
        attributed_threat_actors :=
          (case ctx_threat_actor p of
             None \<Rightarrow> attributed_threat_actors incident'
           | Some d \<Rightarrow> Some (dict_values d)),
        leveraged_ttps :=
          (case ctx_ttp p of
             None \<Rightarrow> leveraged_ttps incident'
           | Some d \<Rightarrow> leveraged_ttps incident' @ dict_values d)\<rparr>"

definition assemble_package :: "stix1_parser \<Rightarrow> stix1_parser" where
  "assemble_package p =
     (let incident' = contextualise (the_incident p) p
      in p\<lparr>the_incident := incident',
           the_stix_package := (the_stix_package p)
             \<lparr>package_courses_of_action :=
                package_courses_of_action (the_stix_package p) @
                dict_values (courses_of_action p),
              package_threat_actors :=
                package_threat_actors (the_stix_package p) @ dict_values (threat_actors p),
              package_ttps := package_ttps (the_stix_package p) @ dict_values (ttps p),
              package_incidents := package_incidents (the_stix_package p) @ [incident'],
              package_title := Some (''Export from '' @ namespace p @ '' MISP''),
              package_description :=
                (case header_comment p of
                   [comment] \<Rightarrow> Some comment
                 | _ \<Rightarrow> None)\<rparr>\<rparr>)"

text \<open>
  \<open>parse_misp_event\<close> on an instance: a fresh one (\<open>init_stix1\<close>) or the parser a previous
  event left. The package and the incident are created anew; every field of \<open>__init__\<close>
  is taken over as it is. \<open>orgc_name\<close> starts unassigned: it is assigned before its first
  read, so a value left by a previous event is never seen.
\<close>

definition parse_misp_event ::
  "stix1_mapping \<Rightarrow> misp_event \<Rightarrow> string \<Rightarrow> 'a stix1_instance_scheme \<Rightarrow>
   (exn + unit) \<times> stix1_parser" where
  "parse_misp_event M ev version inst =
     (let p0 = \<lparr>namespace = namespace inst, orgname = orgname inst, errors = errors inst,
                warnings = warnings inst, header_comment = header_comment inst,
                ctx_course_of_action = ctx_course_of_action inst,
                ctx_threat_actor = ctx_threat_actor inst, ctx_ttp = ctx_ttp inst,
                courses_of_action = courses_of_action inst,
                threat_actors = threat_actors inst, ttps = ttps inst,
                the_stix_package = create_stix_package (orgname inst) ev version,
                the_incident = create_incident (orgname inst) ev,
                orgc_name = None\<rparr>
      in case generate_stix_objects M ev p0 of
           (Inl e, p') \<Rightarrow> (Inl e, p')
         | (Inr u, p') \<Rightarrow> (Inr (), assemble_package p'))"

definition stix_package :: "stix1_parser \<Rightarrow> stix_package" where
  "stix_package p = the_stix_package p"

section \<open>STIX 2 export (\<open>misp_to_stix2.py\<close>)\<close>

text \<open>
  The module is a work in progress, and the model follows it as it stands.
  \<^item> The base class \<open>MISPtoSTIXParser\<close> (\<open>exportparser\<close>) is not among the sources. The
    three of its methods that \<open>_generate_event_report\<close> calls are parameters, collected in
    \<open>stix2_env\<close> below.
  \<^item> Five global names are read that no import and no definition of the module binds:
    \<open>stix1_mapping\<close> (in \<open>_resolve_attributes\<close>), \<open>stix2_mapping\<close>, \<open>deepcopy\<close> and
    \<open>TLPMarkingDefinitionError\<close> (in \<open>_create_marking\<close>), and \<open>Report\<close> (in
    \<open>_generate_event_report\<close>; the import that names it is commented out). Reading such
    a name raises \<open>NameError\<close>. The statements of a method that follow a failing read
    are never executed and are not part of the model.
  \<^item> The library constructor \<open>Identity\<close> is the record of its arguments.
\<close>

record org =
  org_uuid :: string
  org_name :: string

record misp_event_dict =
  evd_uuid :: string
  evd_info :: string
  evd_timestamp :: string
  evd_publish_timestamp :: string
  evd_Orgc :: org
  evd_Attribute :: "misp_attribute list"
  evd_Object :: "misp_object list"

record identity =
  identity_id :: string
  identity_name :: string
  identity_class :: string


text \<open>A value of the dictionary \<open>self._markings\<close>; \<open>_handle_markings\<close> reads its \<open>id\<close>.\<close>

record marking_definition =
  md_id :: string

text \<open>The dictionary \<open>report_args\<close> of \<open>_generate_event_report\<close>.\<close>

record report =
  report_id :: string
  report_name :: string
  report_modified :: string
  report_labels :: "string list"
  report_created_by_ref :: string
  report_published :: "string option"
  report_object_marking_refs :: "string list option"
  report_object_refs :: "string list"

text \<open>An element of \<open>self._objects\<close>: the identity \<open>_set_identity\<close> appends, the report
  \<open>parse_misp_event\<close> inserts, or an object of another type (its type and identifier)
  that a method of the base class appends.\<close>

datatype stix_object =
    Identity identity
  | Report report
  | SDO string string

text \<open>
  \<open>MISPtoSTIX2Parser.__init__\<close> assigns \<open>_custom_objects\<close>, \<open>_galaxies\<close>, \<open>_ids\<close>,
  \<open>_markings\<close> and \<open>_orgs\<close> (the first two are never read); \<open>_errors\<close> and \<open>_warnings\<close> are
  read by \<open>_resolve_attributes\<close> and so come from the base class. \<open>parse_misp_event\<close> and
  \<open>_set_identity\<close> assign the fields of the extension.
\<close>

record stix2_instance =
  s2_ids :: "string list"
  s2_markings :: "(string \<times> marking_definition) list"
  s2_orgs :: "string list"
  s2_errors :: "string list"
  s2_warnings :: "string set"

record stix2_parser = stix2_instance +
  s2_include_bundle :: bool
  s2_report_id :: string
  s2_objects :: "stix_object list"
  s2_object_refs :: "string list"
  s2_identity_id :: "string option"

definition init_stix2 :: stix2_instance where
  "init_stix2 =
     \<lparr>s2_ids = [], s2_markings = [], s2_orgs = [], s2_errors = [], s2_warnings = {}\<rparr>"

type_synonym 'a bound_method2 = "stix2_parser \<Rightarrow> (exn + 'a) \<times> stix2_parser"

text \<open>
  The parameters, methods of the base class: \<open>_datetime_from_timestamp\<close> and
  \<open>_is_published\<close> return a value or raise; \<open>_handle_event_tags_and_galaxies\<close> returns the
  marking tags of the event or raises, and may write to the parser.
\<close>

record stix2_env =
  env_datetime_from_timestamp :: "string \<Rightarrow> exn + string"
  env_is_published :: "misp_event_dict \<Rightarrow> exn + bool"
  env_handle_event_tags_and_galaxies :: "misp_event_dict \<Rightarrow> string list bound_method2"

subsection \<open>Markings\<close>


text \<open>
  \<open>_create_marking\<close> (the same text in the 2.0 and the 2.1 class). Its first statement
  is \<open>if marking in stix2_mapping.tlp_markings_v20:\<close> (\<open>_v21\<close> in the other class), and
  \<open>stix2_mapping\<close> is not bound: the method raises \<open>NameError\<close> and writes nothing. The call
  of \<open>_create_marking_definition_args\<close> and the \<open>try\<close> that follow are not reached.
\<close>

definition create_marking :: "string \<Rightarrow> string option bound_method2" where
  "create_marking marking p = (Inl (NameError ''stix2_mapping''), p)"

text \<open>\<open>_handle_markings\<close>: the loop, with \<open>marking_ids\<close> as accumulator.\<close>

fun handle_markings_loop :: "string list \<Rightarrow> string list \<Rightarrow> string list bound_method2" where
  "handle_markings_loop [] marking_ids p = (Inr marking_ids, p)"
| "handle_markings_loop (marking # markings) marking_ids p =
     (case dict_get (s2_markings p) marking of
        Some cached \<Rightarrow> handle_markings_loop markings (marking_ids @ [md_id cached]) p
      | None \<Rightarrow>
          (case create_marking marking p of
             (Inl e, p') \<Rightarrow> (Inl e, p')
           | (Inr None, p') \<Rightarrow> handle_markings_loop markings marking_ids p'
           | (Inr (Some marking_id), p') \<Rightarrow>
               handle_markings_loop markings (marking_ids @ [marking_id]) p'))"

definition handle_markings :: "string list \<Rightarrow> string list bound_method2" where
  "handle_markings markings p = handle_markings_loop markings [] p"

subsection \<open>Identity, attributes, objects, report\<close>

text \<open>\<open>_create_identity_object\<close> (the same in both classes); the first argument is the
  value of \<open>self._identity_id\<close>, which \<open>_set_identity\<close> has just assigned.\<close>

definition create_identity_object :: "string \<Rightarrow> string \<Rightarrow> identity" where
  "create_identity_object identity_id' orgname' =
     \<lparr>identity_id = identity_id', identity_name = orgname',
      identity_class = ''organization''\<rparr>"

text \<open>\<open>_set_identity\<close>: the identity is built and appended only for an organisation that
  is neither in \<open>self._orgs\<close> nor, by its identifier, in \<open>self._ids\<close>; the result is the
  index at which the report is to be inserted.\<close>

definition set_identity :: "misp_event_dict \<Rightarrow> stix2_parser \<Rightarrow> nat \<times> stix2_parser" where
  "set_identity ev p =
     (let orgc = evd_Orgc ev;
          orgc_uuid = org_uuid orgc;
          p1 = p\<lparr>s2_identity_id := Some (''identity--'' @ orgc_uuid)\<rparr>
      in if orgc_uuid \<notin> set (s2_orgs p1) \<and> ''identity--'' @ orgc_uuid \<notin> set (s2_ids p1)
         then (1, p1\<lparr>s2_orgs := s2_orgs p1 @ [orgc_uuid],
                     s2_objects := s2_objects p1 @
                       [Identity (create_identity_object (''identity--'' @ orgc_uuid)
                                    (org_name orgc))]\<rparr>)
         else (0, p1))"

text \<open>
  \<open>_resolve_attributes\<close>: one pass of the loop body. The first statement of the \<open>try\<close> is
  \<open>if attribute_type in stix1_mapping.attribute_types_mapping:\<close>, and \<open>stix1_mapping\<close> is
  not bound: the body raises \<open>NameError\<close> for every attribute, before any producer is
  looked up. \<open>except Exception\<close> catches it and appends the error.
\<close>

definition resolve_attribute2_body :: "misp_attribute \<Rightarrow> unit bound_method2" where
  "resolve_attribute2_body attribute p = (Inl (NameError ''stix1_mapping''), p)"

definition resolve_attribute2 :: "misp_attribute \<Rightarrow> stix2_parser \<Rightarrow> stix2_parser" where
  "resolve_attribute2 attribute p =
     (case resolve_attribute2_body attribute p of
        (Inr u, p') \<Rightarrow> p'
      | (Inl e, p') \<Rightarrow>
          p'\<lparr>s2_errors := s2_errors p' @ [''Error with the '' @ attr_type attribute @
                '' attribute: '' @ attr_value attribute @ ''.'']\<rparr>)"

fun resolve_attributes2 :: "misp_attribute list \<Rightarrow> stix2_parser \<Rightarrow> stix2_parser" where
  "resolve_attributes2 [] p = p"
| "resolve_attributes2 (attribute # attributes) p =
     resolve_attributes2 attributes (resolve_attribute2 attribute p)"

text \<open>\<open>_resolve_objects\<close> reads the name of each object and does nothing else.\<close>

definition resolve_objects2 :: "misp_object list \<Rightarrow> stix2_parser \<Rightarrow> stix2_parser" where
  "resolve_objects2 misp_objects p = p"

text \<open>\<open>Report(**report_args)\<close>: \<open>Report\<close> is not bound, so the call raises \<open>NameError\<close>
  whatever the arguments.\<close>

definition Report_call :: "report \<Rightarrow> exn + report" where
  "Report_call report_args = Inl (NameError ''Report'')"

text \<open>
  \<open>_generate_event_report\<close>, in the order of evaluation of the source: the entries of
  \<open>report_args\<close>, the publication date, the markings of the event, the test of
  \<open>self._markings\<close>, the call of \<open>Report\<close>. When \<open>self._markings\<close> is not empty the method
  reads \<open>self._marking\<close>, an attribute that is assigned nowhere, and raises
  \<open>AttributeError\<close>.
\<close>

definition generate_event_report :: "stix2_env \<Rightarrow> misp_event_dict \<Rightarrow> report bound_method2" where
  "generate_event_report env ev p =
     (case env_datetime_from_timestamp env (evd_timestamp ev) of
        Inl e \<Rightarrow> (Inl e, p)
      | Inr modified \<Rightarrow>
     (case s2_identity_id p of
        None \<Rightarrow> (Inl (AttributeError ''_identity_id''), p)
      | Some identity_id' \<Rightarrow>
     (case env_is_published env ev of
        Inl e \<Rightarrow> (Inl e, p)
      | Inr is_published \<Rightarrow>
     (case (if is_published
            then map_sum id Some (env_datetime_from_timestamp env (evd_publish_timestamp ev))
            else Inr None) of
        Inl e \<Rightarrow> (Inl e, p)
      | Inr published \<Rightarrow>
     (case env_handle_event_tags_and_galaxies env ev p of
        (Inl e, p1) \<Rightarrow> (Inl e, p1)
      | (Inr markings, p1) \<Rightarrow>
          (case (if markings \<noteq> []
                 then (case handle_markings markings p1 of
                         (Inl e, p2) \<Rightarrow> (Inl e, p2)
                       | (Inr refs, p2) \<Rightarrow> (Inr (Some refs), p2))
                 else (Inr None, p1)) of
             (Inl e, p2) \<Rightarrow> (Inl e, p2)
           | (Inr marking_refs, p2) \<Rightarrow>
               (if s2_markings p2 \<noteq> [] then (Inl (AttributeError ''_marking''), p2)
                else (Report_call
                        \<lparr>report_id = s2_report_id p2,
                         report_name = evd_info ev,
                         report_modified = modified,
                         report_labels =
                           [''Threat-Report'',
                            ''misp:tool='' @ [CHR 0x22] @ ''MISP-STIX-Converter'' @
                              [CHR 0x22]],
                         report_created_by_ref = identity_id',
                         report_published = published,
                         report_object_marking_refs = marking_refs,
                         report_object_refs = s2_object_refs p2\<rparr>, p2))))))))"

text \<open>\<open>list.insert(index, x)\<close> for an index that is not negative.\<close>

definition list_insert :: "nat \<Rightarrow> 'a \<Rightarrow> 'a list \<Rightarrow> 'a list" where
  "list_insert index x xs = take index xs @ [x] @ drop index xs"

text \<open>
  \<open>parse_misp_event\<close> of the STIX 2 parser, on a new instance or on the parser a
  previous event left, and the property \<open>stix_objects\<close>. \<open>_identity_id\<close> is unassigned
  (\<open>None\<close>) until \<open>_set_identity\<close>, the first call, assigns it. An exception of
  \<open>_generate_event_report\<close> leaves the method; the parser keeps what was written before.
\<close>

definition parse_misp_event2 ::
  "stix2_env \<Rightarrow> misp_event_dict \<Rightarrow> string list \<Rightarrow> bool \<Rightarrow> 'a stix2_instance_scheme \<Rightarrow>
   (exn + unit) \<times> stix2_parser" where
  "parse_misp_event2 env ev ids include_bundle inst =
     (let p0 = \<lparr>s2_ids = ids, s2_markings = s2_markings inst, s2_orgs = s2_orgs inst,
                s2_errors = s2_errors inst, s2_warnings = s2_warnings inst,
                s2_include_bundle = include_bundle,
                s2_report_id = ''report--'' @ evd_uuid ev,
                s2_objects = [], s2_object_refs = [], s2_identity_id = None\<rparr>;
          (index, p1) = set_identity ev p0;
          p2 = (if evd_Attribute ev \<noteq> [] then resolve_attributes2 (evd_Attribute ev) p1
                else p1);
          p3 = (if evd_Object ev \<noteq> [] then resolve_objects2 (evd_Object ev) p2 else p2)
      in case generate_event_report env ev p3 of
           (Inl e, p4) \<Rightarrow> (Inl e, p4)
         | (Inr report', p4) \<Rightarrow>
             (Inr (), p4\<lparr>s2_objects := list_insert index (Report report') (s2_objects p4)\<rparr>))"

datatype stix_output = Bundle "stix_object list" | Objects "stix_object list"

definition stix_objects :: "stix2_parser \<Rightarrow> stix_output" where
  "stix_objects p = (if s2_include_bundle p then Bundle (s2_objects p) else Objects (s2_objects p))"

text \<open>
  What the statements about the sequence \<open>self._objects\<close> ask of the parameter
  \<open>_handle_event_tags_and_galaxies\<close>: it appends objects that are neither identities nor
  reports, and leaves \<open>_orgs\<close>, \<open>_ids\<close>, \<open>_markings\<close> and \<open>_identity_id\<close> as they are. In
  the sources \<open>_set_identity\<close> alone builds an identity and writes \<open>_orgs\<close> and
  \<open>_identity_id\<close>.
\<close>

definition keeps_identity :: "stix2_parser \<Rightarrow> stix2_parser \<Rightarrow> bool" where
  "keeps_identity p p' \<longleftrightarrow>
     s2_orgs p' = s2_orgs p \<and> s2_ids p' = s2_ids p \<and> s2_markings p' = s2_markings p \<and>
     s2_identity_id p' = s2_identity_id p \<and>
     (\<exists>added. s2_objects p' = s2_objects p @ added \<and>
              (\<forall>x \<in> set added. \<exists>type' id'. x = SDO type' id'))"

definition event_tags_keep_identity :: "stix2_env \<Rightarrow> bool" where
  "event_tags_keep_identity env \<longleftrightarrow>
     (\<forall>ev p. keeps_identity p (snd (env_handle_event_tags_and_galaxies env ev p)))"

section \<open>The descriptor caches\<close>

text \<open>
  The state of the caches \<open>self.ttps\<close> and \<open>self.courses_of_action\<close> that the parser
  keeps: one entry for a UUID, and the identifier of an entry made of the namespace, the
  kind and the UUID it is stored under.
\<close>

definition caches_wf :: "stix1_parser \<Rightarrow> bool" where
  "caches_wf p \<longleftrightarrow>
     distinct (map fst (ttps p)) \<and>
     (\<forall>(uuid, ttp') \<in> set (ttps p). ttp_id ttp' = namespace p @ '':TTP-'' @ uuid) \<and>
     distinct (map fst (courses_of_action p)) \<and>
     (\<forall>(uuid, course_of_action') \<in> set (courses_of_action p).
        coa_id course_of_action' = namespace p @ '':CourseOfAction-'' @ uuid)"

section \<open>Concrete inputs of the worked examples\<close>

text \<open>
  A small instance of the tables for the worked examples. The method names are those of
  the class; the galaxy and object type names stand for the keys of the tables, which
  are not among the sources. No attribute type is mapped, so every attribute of the
  examples takes the \<open>_parse_custom_attribute\<close> branch.
\<close>

definition mapping0 :: stix1_mapping where
  "mapping0 =
     \<lparr>attribute_types_mapping = Map.empty,
      galaxy_types_mapping =
        [''mitre-attack-pattern'' \<mapsto> Placeholder ''_parse_attack_pattern_'' ''_galaxy'',
         ''mitre-course-of-action'' \<mapsto> Placeholder ''_parse_course_of_action_'' ''_galaxy'',
         ''threat-actor'' \<mapsto> Plain ''_parse_threat_actor_galaxy''],
      objects_mapping = [''asn'' \<mapsto> ''_parse_asn_object''],
      TLP_order = four_levels,
      misp_indicator_type = Map.empty,
      threat_level_mapping = Map.empty,
      status_mapping = Map.empty\<rparr>"

definition attribute0 :: misp_attribute where
  "attribute0 =
     \<lparr>attr_uuid = ''a0'', attr_type = ''text'', attr_category = ''Other'',
      attr_value = ''v0'', attr_comment = None, attr_timestamp = ''1600000000'',
      attr_to_ids = False, attr_object_relation = ''text'', attr_tags = [],
      attr_Galaxy = []\<rparr>"

definition object0 :: misp_object where
  "object0 =
     \<lparr>obj_uuid = ''o0'', obj_name = ''original-imported-file'',
      obj_meta_category = Some ''file'', obj_description = Some ''imported'',
      obj_comment = None, obj_timestamp = ''1600000000'',
      obj_attributes = [attribute0]\<rparr>"

definition event0 :: misp_event where
  "event0 =
     \<lparr>ev_uuid = ''e0'', ev_info = ''event'', ev_timestamp = ''1600000000'',
      ev_threat_level_id = None, ev_id = None, ev_analysis = None,
      ev_orgc_name = Some ''ORGC'', ev_org_name = None,
      ev_Attribute = [], ev_Object = [], ev_Galaxy = [], ev_tags = []\<rparr>"

text \<open>The parser as the empty event \<open>event0\<close> leaves it, and an object of an unmapped
  name.\<close>

definition parser0 :: stix1_parser where
  "parser0 = snd (parse_misp_event mapping0 event0 ''1.2'' (init_stix1 ''ns'' ''ORG''))"

definition object1 :: misp_object where
  "object1 = object0\<lparr>obj_uuid := ''o1'', obj_name := ''x-thing''\<rparr>"

text \<open>A cluster of a mapped galaxy type, and attributes of an unmapped type:
  \<open>attribute1\<close> and \<open>attribute2\<close> ask for detection and carry a TLP tag whose colour the
  table lacks, \<open>attribute2\<close> and \<open>attribute3\<close> carry the galaxy.\<close>

definition cluster1 :: galaxy_cluster where
  "cluster1 =
     \<lparr>cluster_uuid = ''c1'', cluster_value = ''Spearphishing Link'',
      cluster_description = Some ''Link in a message'',
      cluster_meta = Some [(''external_id'', [''CAPEC-163''])]\<rparr>"

definition galaxy1 :: galaxy where
  "galaxy1 =
     \<lparr>galaxy_type = ''mitre-attack-pattern'', galaxy_name = ''Attack Pattern'',
      GalaxyCluster = [cluster1]\<rparr>"

definition attribute1 :: misp_attribute where
  "attribute1 =
     \<lparr>attr_uuid = ''a1'', attr_type = ''x-type'', attr_category = ''Other'',
      attr_value = ''v1'', attr_comment = None, attr_timestamp = ''1600000000'',
      attr_to_ids = True, attr_object_relation = [], attr_tags = [''tlp:clear''],
      attr_Galaxy = []\<rparr>"

definition attribute2 :: misp_attribute where
  "attribute2 =
     \<lparr>attr_uuid = ''a2'', attr_type = ''x-type'', attr_category = ''Other'',
      attr_value = ''v2'', attr_comment = None, attr_timestamp = ''1600000000'',
      attr_to_ids = True, attr_object_relation = [], attr_tags = [''tlp:clear''],
      attr_Galaxy = [galaxy1]\<rparr>"

definition attribute3 :: misp_attribute where
  "attribute3 =
     \<lparr>attr_uuid = ''a3'', attr_type = ''x-type'', attr_category = ''Other'',
      attr_value = ''v3'', attr_comment = None, attr_timestamp = ''1600000000'',
      attr_to_ids = False, attr_object_relation = [], attr_tags = [''tlp:clear''],
      attr_Galaxy = [galaxy1]\<rparr>"

text \<open>Two attributes of an unmapped type that ask for detection and carry the galaxy.\<close>

definition attribute4 :: misp_attribute where
  "attribute4 =
     \<lparr>attr_uuid = ''a4'', attr_type = ''x-type'', attr_category = ''Other'',
      attr_value = ''v4'', attr_comment = None, attr_timestamp = ''1600000000'',
      attr_to_ids = True, attr_object_relation = [], attr_tags = [''tlp:red''],
      attr_Galaxy = [galaxy1]\<rparr>"

definition attribute5 :: misp_attribute where
  "attribute5 =
     \<lparr>attr_uuid = ''a5'', attr_type = ''x-type'', attr_category = ''Other'',
      attr_value = ''v5'', attr_comment = None, attr_timestamp = ''1600000000'',
      attr_to_ids = True, attr_object_relation = [], attr_tags = [],
      attr_Galaxy = [galaxy1]\<rparr>"

text \<open>Two events that carry the same galaxy cluster, parsed one after the other on one
  instance.\<close>

definition eventA :: misp_event where
  "eventA = event0\<lparr>ev_uuid := ''eA'', ev_Galaxy := [galaxy1]\<rparr>"

definition eventB :: misp_event where
  "eventB = event0\<lparr>ev_uuid := ''eB'', ev_Galaxy := [galaxy1]\<rparr>"

definition parserA :: stix1_parser where
  "parserA = snd (parse_misp_event mapping0 eventA ''1.2'' (init_stix1 ''ns'' ''ORG''))"

definition parserB :: stix1_parser where
  "parserB = snd (parse_misp_event mapping0 eventB ''1.2'' parserA)"

text \<open>
  An instance of the STIX 2 parameters for the worked examples: the timestamp is kept
  as it is, no event is published, and the event carries the marking tags given as
  argument. Two events of one organization follow, the second with an attribute, and
  the parsers they leave when parsed one after the other on a new instance.
\<close>

definition env0 :: "string list \<Rightarrow> stix2_env" where
  "env0 tags =
     \<lparr>env_datetime_from_timestamp = (\<lambda>timestamp. Inr timestamp),
      env_is_published = (\<lambda>ev. Inr False),
      env_handle_event_tags_and_galaxies = (\<lambda>ev p. (Inr tags, p))\<rparr>"

definition event_dict0 :: misp_event_dict where
  "event_dict0 =
     \<lparr>evd_uuid = ''e0'', evd_info = ''event'', evd_timestamp = ''1600000000'',
      evd_publish_timestamp = ''1600000000'',
      evd_Orgc = \<lparr>org_uuid = ''org-1'', org_name = ''ORGC''\<rparr>,
      evd_Attribute = [], evd_Object = []\<rparr>"

definition attribute_as :: misp_attribute where
  "attribute_as =
     \<lparr>attr_uuid = ''a7'', attr_type = ''AS'', attr_category = ''Network activity'',
      attr_value = ''AS174'', attr_comment = None, attr_timestamp = ''1600000000'',
      attr_to_ids = True, attr_object_relation = [], attr_tags = [], attr_Galaxy = []\<rparr>"

definition event_dict1 :: misp_event_dict where
  "event_dict1 = event_dict0\<lparr>evd_uuid := ''e1'', evd_Attribute := [attribute_as]\<rparr>"

definition parser2_0 :: stix2_parser where
  "parser2_0 = snd (parse_misp_event2 (env0 []) event_dict0 [] True init_stix2)"

definition parser2_1 :: stix2_parser where
  "parser2_1 = snd (parse_misp_event2 (env0 []) event_dict1 [] True parser2_0)"

section \<open>Identifiers and repeated conversion\<close>

text \<open>
  The identifiers of the entities of a STIX 1 package. An identifier is \<^emph>\<open>made of\<close> a
  prefix and a list of UUIDs when it is the prefix, a colon, one of the kinds the
  modelled methods write, a dash and one of the UUIDs.
\<close>

definition entity_kinds :: "string list" where
  "entity_kinds =
     [''Observable'', ''Custom'', ''AS'', ''Indicator'', ''TTP'', ''AttackPattern'',
      ''MalwareInstance'', ''ToolInformation'', ''ExploitTarget'', ''Vulnerability'',
      ''CourseOfAction'', ''ThreatActor'']"

definition made_id :: "string \<Rightarrow> string list \<Rightarrow> string \<Rightarrow> bool" where
  "made_id prefix uuids s \<longleftrightarrow>
     (\<exists>kind \<in> set entity_kinds. \<exists>uuid \<in> set uuids. s = prefix @ '':'' @ kind @ ''-'' @ uuid)"

text \<open>The identifiers and the references an entity holds, nested entities included.\<close>

fun content_ids :: "ttp_content \<Rightarrow> string list" where
  "content_ids (Behavior_attack_pattern a) = [ap_id a]"
| "content_ids (Behavior_malware m) = [mw_id m]"
| "content_ids (Resource_tools t) = [tool_id t]"
| "content_ids (Exploit_target e) =
     et_id e # (case vuln_id (et_vulnerability e) of None \<Rightarrow> [] | Some i \<Rightarrow> [i])"

definition ttp_ids :: "ttp \<Rightarrow> string list" where
  "ttp_ids t = ttp_id t # (case ttp_content t of None \<Rightarrow> [] | Some c \<Rightarrow> content_ids c)"

definition observable_ids :: "observable \<Rightarrow> string list" where
  "observable_ids ob = [observable_id ob, object_id ob]"

definition indicator_ids :: "indicator \<Rightarrow> string list" where
  "indicator_ids i =
     indicator_id i # concat (map observable_ids (indicator_observables i)) @
     map rttp_idref (indicated_ttps i) @ map rcoa_idref (suggested_coas i)"

text \<open>The identifiers inside an incident; its own identifier is not among them.\<close>

definition incident_ids :: "incident \<Rightarrow> string list" where
  "incident_ids inc =
     concat (map (\<lambda>r. indicator_ids (fst r)) (related_indicators inc)) @
     concat (map (\<lambda>r. observable_ids (fst r)) (related_observables inc)) @
     coa_taken inc @
     (case attributed_threat_actors inc of None \<Rightarrow> [] | Some rs \<Rightarrow> map rta_idref rs) @
     map rttp_idref (leveraged_ttps inc)"


text \<open>What a parser holds is made of the given UUIDs: the three caches,
  \<open>contextualised_data\<close> and the incident.\<close>

definition ids_from :: "string list \<Rightarrow> stix1_parser \<Rightarrow> bool" where
  "ids_from uuids p \<longleftrightarrow>
     (\<forall>t \<in> set (dict_values (ttps p)). \<forall>s \<in> set (ttp_ids t). made_id (namespace p) uuids s) \<and>
     (\<forall>c \<in> set (dict_values (courses_of_action p)). made_id (namespace p) uuids (coa_id c)) \<and>
     (\<forall>a \<in> set (dict_values (threat_actors p)). made_id (namespace p) uuids (ta_id a)) \<and>
     (\<forall>d. ctx_course_of_action p = Some d \<longrightarrow>
          (\<forall>s \<in> set (dict_values d). made_id (namespace p) uuids s)) \<and>
     (\<forall>d. ctx_threat_actor p = Some d \<longrightarrow>
          (\<forall>r \<in> set (dict_values d). made_id (namespace p) uuids (rta_idref r))) \<and>
     (\<forall>d. ctx_ttp p = Some d \<longrightarrow>
          (\<forall>r \<in> set (dict_values d). made_id (namespace p) uuids (rttp_idref r))) \<and>
     (\<forall>s \<in> set (incident_ids (the_incident p)). made_id (namespace p) uuids s)"

text \<open>The UUIDs of an event: its own, those of its attributes and objects, and those of
  the clusters of the galaxies of the event and of its attributes.\<close>

definition galaxy_uuids :: "galaxy list \<Rightarrow> string list" where
  "galaxy_uuids galaxies = map cluster_uuid (concat (map GalaxyCluster galaxies))"


text \<open>What the methods below \<open>parse_misp_event\<close> leave as it is: the namespace, the
  organisation, the header comment, the package and the identifier of the incident.\<close>

definition same_frame :: "stix1_parser \<Rightarrow> stix1_parser \<Rightarrow> bool" where
  "same_frame p p' \<longleftrightarrow>
     namespace p' = namespace p \<and> orgname p' = orgname p \<and>
     header_comment p' = header_comment p \<and>
     the_stix_package p' = the_stix_package p \<and>
     incident_id (the_incident p') = incident_id (the_incident p)"





subsection \<open>A worked example\<close>




section \<open>Properties\<close>

subsection \<open>Handling structures\<close>

lemma set_color_loop_result:
  "set_color_loop T cs n cv = Inr r \<Longrightarrow>
     (r = cv \<and> (\<forall>c\<in>set cs. \<exists>k. T c = Some k \<and> k \<le> n)) \<or>
     (\<exists>c k. r = Some c \<and> c \<in> set cs \<and> T c = Some k \<and> n < k \<and>
        (\<forall>c'\<in>set cs. \<exists>k'. T c' = Some k' \<and> k' \<le> k))"
proof (induction cs arbitrary: n cv)
  case Nil
  then show ?case by simp
next
  case (Cons c cs)
  from Cons.prems obtain k where k: "T c = Some k"
    by (cases "T c") auto
  show ?case
  proof (cases "k > n")
    case True
    with Cons.prems k have "set_color_loop T cs k (Some c) = Inr r" by simp
    from Cons.IH [OF this] True k show ?thesis
      by (elim disjE) (force+)
  next
    case False
    with Cons.prems k have "set_color_loop T cs n cv = Inr r" by simp
    from Cons.IH [OF this] False k show ?thesis
      by (elim disjE) (force+)
  qed
qed

lemma set_color_loop_total:
  "\<forall>c\<in>set cs. \<exists>k. T c = Some k \<Longrightarrow> \<exists>r. set_color_loop T cs n cv = Inr r"
  by (induction cs arbitrary: n cv) auto

lemma set_color_result:
  assumes "set_color T cs = Inr c"
  shows "\<exists>k. c \<in> set cs \<and> T c = Some k \<and> 0 < k \<and>
           (\<forall>c'\<in>set cs. \<exists>k'. T c' = Some k' \<and> k' \<le> k)"
proof -
  from assms have "set_color_loop T cs 0 None = Inr (Some c)"
    by (auto simp: set_color_def split: sum.splits option.splits)
  from set_color_loop_result [OF this] show ?thesis by auto
qed

lemma set_color_total:
  assumes "cs \<noteq> []" and "\<forall>c\<in>set cs. \<exists>k. T c = Some k \<and> 0 < k"
  shows "\<exists>c. set_color T cs = Inr c"
proof -
  from assms(2) have "\<forall>c\<in>set cs. \<exists>k. T c = Some k" by blast
  from set_color_loop_total [OF this] obtain r where r: "set_color_loop T cs 0 None = Inr r"
    by blast
  from assms(1) obtain c0 where c0: "c0 \<in> set cs" by (cases cs) auto
  have "r \<noteq> None"
  proof
    assume "r = None"
    with set_color_loop_result [OF r] have "\<forall>c\<in>set cs. \<exists>k. T c = Some k \<and> k \<le> 0" by auto
    with c0 assms(2) show False by fastforce
  qed
  with r show ?thesis by (auto simp: set_color_def)
qed
lemma simple_of_result:
  "filter (\<lambda>m. \<nexists>c. m = TLPMarkingStructure c) (map SimpleMarkingStructure xs) =
     map SimpleMarkingStructure xs"
  by (induction xs) auto

text \<open>
  Claim C7. \<open>_set_handling\<close> returns one marking specification. It holds at most one TLP
  structure, present exactly when some tag starts with \<open>tlp:\<close>, and then first; its colour
  is one of the colours of the TLP tags and no TLP tag has a colour of higher rank in
  \<open>TLP_order\<close>. The other structures are one statement per tag that does not start with
  \<open>tlp:\<close>, in the order of the tags. The call returns whenever every TLP colour is in the
  table with a positive rank. For the tags \<open>tlp:green\<close>, \<open>tlp:amber\<close>, \<open>custom-stmt\<close> and any
  table that ranks amber above green the result is the amber structure and one statement
  for \<open>custom-stmt\<close>.
\<close>

theorem set_handling_resolution:
  "(set_handling T tags = Inr h \<longrightarrow>
      (\<exists>ms. h = [ms] \<and>
         length (filter (\<lambda>m. \<exists>c. m = TLPMarkingStructure c) ms) \<le> 1 \<and>
         (tlp_tags tags \<noteq> [] \<longrightarrow>
            (\<exists>c k. hd ms = TLPMarkingStructure c \<and> c \<in> set (fetch_colors (tlp_tags tags)) \<and>
               T c = Some k \<and>
               (\<forall>c'\<in>set (fetch_colors (tlp_tags tags)). \<exists>k'. T c' = Some k' \<and> k' \<le> k))) \<and>
         (\<forall>c. TLPMarkingStructure c \<in> set ms \<longrightarrow> tlp_tags tags \<noteq> [] \<and> hd ms = TLPMarkingStructure c) \<and>
         filter (\<lambda>m. \<nexists>c. m = TLPMarkingStructure c) ms =
           map SimpleMarkingStructure (simple_tags tags))) \<and>
   ((\<forall>c\<in>set (fetch_colors (tlp_tags tags)). \<exists>k. T c = Some k \<and> 0 < k) \<longrightarrow>
      (\<exists>h'. set_handling T tags = Inr h')) \<and>
   (T ''GREEN'' = Some g \<and> T ''AMBER'' = Some a \<and> g < a \<and> 0 < a \<longrightarrow>
      set_handling T [''tlp:green'', ''tlp:amber'', ''custom-stmt''] =
        Inr [[TLPMarkingStructure ''AMBER'', SimpleMarkingStructure ''custom-stmt'']])"
proof (intro conjI impI)
  assume h: "set_handling T tags = Inr h"
  show "\<exists>ms. h = [ms] \<and>
         length (filter (\<lambda>m. \<exists>c. m = TLPMarkingStructure c) ms) \<le> 1 \<and>
         (tlp_tags tags \<noteq> [] \<longrightarrow>
            (\<exists>c k. hd ms = TLPMarkingStructure c \<and> c \<in> set (fetch_colors (tlp_tags tags)) \<and>
               T c = Some k \<and>
               (\<forall>c'\<in>set (fetch_colors (tlp_tags tags)). \<exists>k'. T c' = Some k' \<and> k' \<le> k))) \<and>
         (\<forall>c. TLPMarkingStructure c \<in> set ms \<longrightarrow> tlp_tags tags \<noteq> [] \<and> hd ms = TLPMarkingStructure c) \<and>
         filter (\<lambda>m. \<nexists>c. m = TLPMarkingStructure c) ms =
           map SimpleMarkingStructure (simple_tags tags)"
  proof (cases "tlp_tags tags = []")
    case True
    with h have "h = [map SimpleMarkingStructure (simple_tags tags)]"
      by (simp add: set_handling_def)
    with True show ?thesis
      by (auto simp: simple_of_result filter_empty_conv)
  next
    case False
    with h obtain c where c: "set_color T (fetch_colors (tlp_tags tags)) = Inr c"
      and hc: "h = [TLPMarkingStructure c # map SimpleMarkingStructure (simple_tags tags)]"
      by (auto simp: set_handling_def split: sum.splits)
    have none: "filter (\<lambda>m. \<exists>c. m = TLPMarkingStructure c)
                  (map SimpleMarkingStructure (simple_tags tags)) = []"
      by (auto simp: filter_empty_conv)
    from set_color_result [OF c] False hc none show ?thesis
      by (auto simp: simple_of_result)
  qed
next
  assume pos: "\<forall>c\<in>set (fetch_colors (tlp_tags tags)). \<exists>k. T c = Some k \<and> 0 < k"
  show "\<exists>h'. set_handling T tags = Inr h'"
  proof (cases "tlp_tags tags = []")
    case True
    then show ?thesis by (simp add: set_handling_def)
  next
    case False
    then have "fetch_colors (tlp_tags tags) \<noteq> []" by (simp add: fetch_colors_def)
    from set_color_total [OF this pos] show ?thesis
      using False by (auto simp: set_handling_def)
  qed
next
  assume "T ''GREEN'' = Some g \<and> T ''AMBER'' = Some a \<and> g < a \<and> 0 < a"
  then show "set_handling T [''tlp:green'', ''tlp:amber'', ''custom-stmt''] =
        Inr [[TLPMarkingStructure ''AMBER'', SimpleMarkingStructure ''custom-stmt'']]"
    by (simp add: set_handling_def tlp_tags_def simple_tags_def startswith_def fetch_colors_def
        set_color_def upper_def upper_chr_def)
qed


theorem set_handling_resolution_witness:
  "set_handling four_levels [''tlp:white'', ''osint'', ''tlp:red'', ''tlp:green''] =
     Inr [[TLPMarkingStructure ''RED'', SimpleMarkingStructure ''osint'']] \<and>
   set_handling four_levels [''tlp:green'', ''tlp:amber'', ''custom-stmt''] =
     Inr [[TLPMarkingStructure ''AMBER'', SimpleMarkingStructure ''custom-stmt'']]"
proof -
  have pos: "\<forall>c\<in>set (fetch_colors (tlp_tags [''tlp:white'', ''osint'', ''tlp:red'', ''tlp:green''])).
               \<exists>k. four_levels c = Some k \<and> 0 < k"
    by (simp add: four_levels_def tlp_tags_def startswith_def fetch_colors_def upper_def upper_chr_def)
  have tab: "four_levels ''GREEN'' = Some 2 \<and> four_levels ''AMBER'' = Some 3 \<and> (2::int) < 3 \<and> (0::int) < 3"
    by (simp add: four_levels_def)
  from set_handling_resolution [of four_levels "[''tlp:white'', ''osint'', ''tlp:red'', ''tlp:green'']" _ 2 3]
    pos tab
  show ?thesis
    by (simp add: four_levels_def set_handling_def tlp_tags_def simple_tags_def startswith_def fetch_colors_def
        set_color_def upper_def upper_chr_def)
qed

subsection \<open>Objects and the detection flag\<close>

lemma fetch_ids_flags_iff:
  "fetch_ids_flags attributes \<longleftrightarrow> (\<exists>attribute\<in>set attributes. attr_to_ids attribute)"
  by (induction attributes) auto

text \<open>
  Claim C10, as stated, at an object named \<open>original-imported-file\<close> none of whose
  attributes has \<open>to_ids\<close>: the flag is false, the event is parsed without an exception,
  and the incident has no related observable and no related indicator, because
  \<open>_resolve_objects\<close> skips the object before it computes the flag.
\<close>

theorem objects_skip_counterexample:
  "\<not> fetch_ids_flags (obj_attributes object0) \<and>
   fst (parse_misp_event mapping0 (event0\<lparr>ev_Object := [object0]\<rparr>) ''1.2''
          (init_stix1 ''ns'' ''ORG'')) = Inr () \<and>
   related_observables (the_incident (snd (parse_misp_event mapping0
      (event0\<lparr>ev_Object := [object0]\<rparr>) ''1.2'' (init_stix1 ''ns'' ''ORG'')))) = [] \<and>
   related_indicators (the_incident (snd (parse_misp_event mapping0
      (event0\<lparr>ev_Object := [object0]\<rparr>) ''1.2'' (init_stix1 ''ns'' ''ORG'')))) = []"
  by code_simp

text \<open>
  Claim C10, amended. \<open>_fetch_ids_flags\<close> is true exactly when one of the attributes of
  the object has \<open>to_ids\<close>. An object named \<open>original-imported-file\<close> is skipped. For any
  other object whose producer returns an observable: when the flag is false the
  observable is appended to the related observables of the incident, with the object's
  \<open>meta-category\<close> as relationship, and the loop goes on; when the flag is true the object
  goes through \<open>_handle_misp_object_with_context\<close>, the indicator wrapping.
\<close>

theorem object_detection_flag:
  "(fetch_ids_flags (obj_attributes misp_object') \<longleftrightarrow>
      (\<exists>attribute\<in>set (obj_attributes misp_object'). attr_to_ids attribute)) \<and>
   (obj_name misp_object' = ''original-imported-file'' \<longrightarrow>
      resolve_objects M (misp_object' # misp_objects) p = resolve_objects M misp_objects p) \<and>
   (obj_name misp_object' \<noteq> ''original-imported-file'' \<and>
    getattr_object (fetch_objects_mapping_function M (obj_name misp_object')) misp_object' p =
      (Inr observable', p') \<longrightarrow>
      (\<not> fetch_ids_flags (obj_attributes misp_object') \<longrightarrow>
         resolve_objects M (misp_object' # misp_objects) p =
           resolve_objects M misp_objects
             (append_related_observable observable' (obj_meta_category misp_object') p')) \<and>
      (fetch_ids_flags (obj_attributes misp_object') \<longrightarrow>
         resolve_object_body M misp_object' p =
           handle_misp_object_with_context M misp_object' observable' p'))"
  by (simp add: fetch_ids_flags_iff resolve_object_body_def handle_misp_object_def Let_def)

theorem object_detection_flag_witness:
  "obj_name object1 \<noteq> ''original-imported-file'' \<and>
   getattr_object (fetch_objects_mapping_function mapping0 (obj_name object1)) object1 parser0 =
     (Inr (create_observable parser0
             (Custom \<lparr>custom_name = Some ''x-thing'', custom_description = Some ''imported'',
                      custom_properties = [(''text'', ''v0'')]\<rparr>) ''o1'' ''Custom''),
      parser0\<lparr>warnings := insert ''MISP Object name x-thing not mapped.'' (warnings parser0)\<rparr>) \<and>
   \<not> fetch_ids_flags (obj_attributes object1) \<and>
   resolve_objects mapping0 [object1] parser0 =
     (Inr (), append_related_observable
        (create_observable parser0
             (Custom \<lparr>custom_name = Some ''x-thing'', custom_description = Some ''imported'',
                      custom_properties = [(''text'', ''v0'')]\<rparr>) ''o1'' ''Custom'')
        (Some ''file'')
        (parser0\<lparr>warnings := insert ''MISP Object name x-thing not mapped.'' (warnings parser0)\<rparr>))"
proof -
  have name: "obj_name object1 \<noteq> ''original-imported-file''"
    by (simp add: object1_def object0_def)
  have producer:
    "getattr_object (fetch_objects_mapping_function mapping0 (obj_name object1)) object1 parser0 =
     (Inr (create_observable parser0
             (Custom \<lparr>custom_name = Some ''x-thing'', custom_description = Some ''imported'',
                      custom_properties = [(''text'', ''v0'')]\<rparr>) ''o1'' ''Custom''),
      parser0\<lparr>warnings := insert ''MISP Object name x-thing not mapped.'' (warnings parser0)\<rparr>)"
    by (simp add: object1_def object0_def attribute0_def fetch_objects_mapping_function_def
        mapping0_def getattr_object_def parse_custom_object_def get_truthy_def)
  have flag: "\<not> fetch_ids_flags (obj_attributes object1)"
    by (simp add: object1_def object0_def attribute0_def)
  have category: "obj_meta_category object1 = Some ''file''"
    by (simp add: object1_def object0_def)
  from object_detection_flag [of object1 mapping0 "[]" parser0] name producer flag category
  show ?thesis by simp
qed

subsection \<open>What the galaxy methods leave alone\<close>

lemma get_related_ttps_loop_frame:
  "get_related_ttps_loop f g cs rel p = (r, p') \<Longrightarrow> \<exists>T. p' = p\<lparr>ttps := T\<rparr>"
proof (induction cs arbitrary: rel p)
  case Nil
  then have "p' = p\<lparr>ttps := ttps p\<rparr>" by simp
  then show ?case by blast
next
  case (Cons c cs)
  show ?case
  proof (cases "dict_get (ttps p) (cluster_uuid c)")
    case (Some cached)
    with Cons.prems Cons.IH show ?thesis by simp
  next
    case None
    show ?thesis
    proof (cases "parse_feature_galaxy f p c (create_ttp_from_galaxy p (galaxy_name g) (cluster_uuid c))")
      case (Inl e)
      with None Cons.prems have "p' = p\<lparr>ttps := ttps p\<rparr>" by simp
      then show ?thesis by blast
    next
      case (Inr t)
      with None Cons.prems obtain T where
        "p' = (p\<lparr>ttps := dict_set (cluster_uuid c) t (ttps p)\<rparr>)\<lparr>ttps := T\<rparr>"
        using Cons.IH by fastforce
      then have "p' = p\<lparr>ttps := T\<rparr>" by simp
      then show ?thesis by blast
    qed
  qed
qed

lemma parse_ttp_attribute_galaxy_frame:
  assumes "parse_ttp_attribute_galaxy f g i p = (r, p')"
  shows "\<exists>T. p' = p\<lparr>ttps := T\<rparr>"
proof -
  obtain r0 p0 where run: "get_related_ttps g f p = (r0, p0)" by (cases "get_related_ttps g f p")
  with assms have "p' = p0" by (auto simp: parse_ttp_attribute_galaxy_def split: sum.splits)
  with run get_related_ttps_loop_frame show ?thesis by (auto simp: get_related_ttps_def)
qed

lemma parse_ttp_attribute_galaxy_indicator:
  "parse_ttp_attribute_galaxy f g i p = (Inr i', p') \<Longrightarrow>
     \<exists>X. i' = i\<lparr>indicated_ttps := indicated_ttps i @ X\<rparr>"
  by (auto simp: parse_ttp_attribute_galaxy_def split: prod.splits sum.splits)

lemma coa_attribute_loop_frame:
  "parse_course_of_action_attribute_galaxy_loop g cs i p = (r, p') \<Longrightarrow>
     \<exists>C. p' = p\<lparr>courses_of_action := C\<rparr>"
proof (induction cs arbitrary: i p)
  case Nil
  then have "p' = p\<lparr>courses_of_action := courses_of_action p\<rparr>" by simp
  then show ?case by blast
next
  case (Cons c cs)
  show ?case
  proof (cases "dict_get (courses_of_action p) (cluster_uuid c)")
    case (Some cached)
    with Cons.prems Cons.IH show ?thesis by simp
  next
    case None
    show ?thesis
    proof (cases "create_course_of_action_from_galaxy p c")
      case (Inl e)
      with None Cons.prems have "p' = p\<lparr>courses_of_action := courses_of_action p\<rparr>" by simp
      then show ?thesis by blast
    next
      case (Inr coa)
      with None Cons.prems obtain C where
        "p' = (p\<lparr>courses_of_action := dict_set (cluster_uuid c) coa (courses_of_action p)\<rparr>)
                \<lparr>courses_of_action := C\<rparr>"
        using Cons.IH by fastforce
      then have "p' = p\<lparr>courses_of_action := C\<rparr>" by simp
      then show ?thesis by blast
    qed
  qed
qed

lemma coa_attribute_loop_indicator:
  "parse_course_of_action_attribute_galaxy_loop g cs i p = (Inr i', p') \<Longrightarrow>
     \<exists>Y. i' = i\<lparr>suggested_coas := suggested_coas i @ Y\<rparr>"
proof (induction cs arbitrary: i p)
  case Nil
  then have "i' = i\<lparr>suggested_coas := suggested_coas i @ []\<rparr>" by simp
  then show ?case by blast
next
  case (Cons c cs)
  show ?case
  proof (cases "dict_get (courses_of_action p) (cluster_uuid c)")
    case (Some cached)
    with Cons.prems obtain Y where
      "i' = (i\<lparr>suggested_coas := suggested_coas i @
               [create_related_coa (coa_id cached) (galaxy_name g)]\<rparr>)
            \<lparr>suggested_coas := suggested_coas (i\<lparr>suggested_coas := suggested_coas i @
               [create_related_coa (coa_id cached) (galaxy_name g)]\<rparr>) @ Y\<rparr>"
      using Cons.IH by fastforce
    then have "i' = i\<lparr>suggested_coas := suggested_coas i @
                 (create_related_coa (coa_id cached) (galaxy_name g) # Y)\<rparr>" by simp
    then show ?thesis by blast
  next
    case None
    with Cons.prems obtain coa where coa: "create_course_of_action_from_galaxy p c = Inr coa"
      by (cases "create_course_of_action_from_galaxy p c") auto
    with None Cons.prems obtain Y where
      "i' = (i\<lparr>suggested_coas := suggested_coas i @
               [create_related_coa (coa_id coa) (galaxy_name g)]\<rparr>)
            \<lparr>suggested_coas := suggested_coas (i\<lparr>suggested_coas := suggested_coas i @
               [create_related_coa (coa_id coa) (galaxy_name g)]\<rparr>) @ Y\<rparr>"
      using Cons.IH by fastforce
    then have "i' = i\<lparr>suggested_coas := suggested_coas i @
                 (create_related_coa (coa_id coa) (galaxy_name g) # Y)\<rparr>" by simp
    then show ?thesis by blast
  qed
qed

text \<open>Every method \<open>getattr\<close> can resolve in attribute scope changes the two caches at
  most, and adds relationships to the indicator only.\<close>

lemma getattr_attribute_galaxy_cases:
  "(\<exists>f. getattr_attribute_galaxy name = parse_ttp_attribute_galaxy f) \<or>
   getattr_attribute_galaxy name = parse_course_of_action_attribute_galaxy \<or>
   (\<exists>e. getattr_attribute_galaxy name = (\<lambda>g i p. (Inl e, p)))"
proof -
  have a: "\<exists>f. parse_ttp_attribute_galaxy f' = parse_ttp_attribute_galaxy f" for f'
    by (rule exI [of _ f']) (rule refl)
  have b: "\<exists>e. (\<lambda>(g::galaxy) (i::indicator) (p::stix1_parser). (Inl e', p)) = (\<lambda>g i p. (Inl e, p))" for e' :: exn
    by (rule exI [of _ e']) (rule refl)
  show ?thesis
    unfolding getattr_attribute_galaxy_def
    by (simp only: if_distrib [of "\<lambda>h. (\<exists>f. h = parse_ttp_attribute_galaxy f) \<or> h = parse_course_of_action_attribute_galaxy \<or> (\<exists>e. h = (\<lambda>g i p. (Inl e, p)))"] a b simp_thms if_True if_False if_cancel)
qed

lemma getattr_attribute_galaxy_frame:
  assumes "getattr_attribute_galaxy name g i p = (r, p')"
  shows "\<exists>T C. p' = p\<lparr>ttps := T, courses_of_action := C\<rparr>"
proof -
  consider (ttp) f where "getattr_attribute_galaxy name = parse_ttp_attribute_galaxy f"
    | (coa) "getattr_attribute_galaxy name = parse_course_of_action_attribute_galaxy"
    | (raise) e where "getattr_attribute_galaxy name = (\<lambda>g i p. (Inl e, p))"
    using getattr_attribute_galaxy_cases [of name] by blast
  then show ?thesis
  proof cases
    case ttp
    with assms have "parse_ttp_attribute_galaxy f g i p = (r, p')" by simp
    from parse_ttp_attribute_galaxy_frame [OF this] obtain T where "p' = p\<lparr>ttps := T\<rparr>" ..
    then have "p' = p\<lparr>ttps := T, courses_of_action := courses_of_action p\<rparr>" by simp
    then show ?thesis by blast
  next
    case coa
    with assms have "parse_course_of_action_attribute_galaxy_loop g (GalaxyCluster g) i p = (r, p')"
      by (simp add: parse_course_of_action_attribute_galaxy_def)
    from coa_attribute_loop_frame [OF this] obtain C where "p' = p\<lparr>courses_of_action := C\<rparr>" ..
    then have "p' = p\<lparr>ttps := ttps p, courses_of_action := C\<rparr>" by simp
    then show ?thesis by blast
  next
    case raise
    with assms have "p' = p\<lparr>ttps := ttps p, courses_of_action := courses_of_action p\<rparr>" by simp
    then show ?thesis by blast
  qed
qed

lemma getattr_attribute_galaxy_indicator:
  assumes "getattr_attribute_galaxy name g i p = (Inr i', p')"
  shows "\<exists>X Y. i' = i\<lparr>indicated_ttps := indicated_ttps i @ X,
                         suggested_coas := suggested_coas i @ Y\<rparr>"
proof -
  consider (ttp) f where "getattr_attribute_galaxy name = parse_ttp_attribute_galaxy f"
    | (coa) "getattr_attribute_galaxy name = parse_course_of_action_attribute_galaxy"
    | (raise) e where "getattr_attribute_galaxy name = (\<lambda>g i p. (Inl e, p))"
    using getattr_attribute_galaxy_cases [of name] by blast
  then show ?thesis
  proof cases
    case ttp
    with assms have "parse_ttp_attribute_galaxy f g i p = (Inr i', p')" by simp
    from parse_ttp_attribute_galaxy_indicator [OF this] obtain X where
      "i' = i\<lparr>indicated_ttps := indicated_ttps i @ X\<rparr>" ..
    then have "i' = i\<lparr>indicated_ttps := indicated_ttps i @ X,
                       suggested_coas := suggested_coas i @ []\<rparr>" by simp
    then show ?thesis by blast
  next
    case coa
    with assms have "parse_course_of_action_attribute_galaxy_loop g (GalaxyCluster g) i p = (Inr i', p')"
      by (simp add: parse_course_of_action_attribute_galaxy_def)
    from coa_attribute_loop_indicator [OF this] obtain Y where
      "i' = i\<lparr>suggested_coas := suggested_coas i @ Y\<rparr>" ..
    then have "i' = i\<lparr>indicated_ttps := indicated_ttps i @ [],
                       suggested_coas := suggested_coas i @ Y\<rparr>" by simp
    then show ?thesis by blast
  next
    case raise
    with assms show ?thesis by simp
  qed
qed

lemma attribute_galaxies_loop_frame:
  "attribute_galaxies_loop M a gs i tn p = (r, p') \<Longrightarrow>
     \<exists>W C T. p' = p\<lparr>warnings := W, courses_of_action := C, ttps := T\<rparr>"
proof (induction gs arbitrary: i tn p)
  case Nil
  then have "p' = p\<lparr>warnings := warnings p, courses_of_action := courses_of_action p,
                     ttps := ttps p\<rparr>" by simp
  then show ?case by blast
next
  case (Cons g gs)
  show ?case
  proof (cases "galaxy_types_mapping M (galaxy_type g)")
    case None
    with Cons.prems obtain W C T where
      "p' = (p\<lparr>warnings := insert (galaxy_type g @ '' galaxy in '' @ attr_type a @
                 '' attribute not mapped.'') (warnings p)\<rparr>)
              \<lparr>warnings := W, courses_of_action := C, ttps := T\<rparr>"
      using Cons.IH by fastforce
    then have "p' = p\<lparr>warnings := W, courses_of_action := C, ttps := T\<rparr>" by simp
    then show ?thesis by blast
  next
    case (Some tc)
    obtain r1 p1 where call:
      "getattr_attribute_galaxy (format_to_call tc ''attribute'') g i p = (r1, p1)"
      by (cases "getattr_attribute_galaxy (format_to_call tc ''attribute'') g i p")
    from getattr_attribute_galaxy_frame [OF call] obtain T1 C1 where
      p1: "p1 = p\<lparr>ttps := T1, courses_of_action := C1\<rparr>" by blast
    show ?thesis
    proof (cases r1)
      case (Inl e)
      with Some call Cons.prems have "p' = p1" by simp
      with p1 have "p' = p\<lparr>warnings := warnings p, courses_of_action := C1, ttps := T1\<rparr>"
        by simp
      then show ?thesis by blast
    next
      case (Inr i1)
      with Some call Cons.prems have
        "attribute_galaxies_loop M a gs i1 (tn @ quick_fetch_tag_names g) p1 = (r, p')" by simp
      from Cons.IH [OF this] obtain W C T where
        "p' = p1\<lparr>warnings := W, courses_of_action := C, ttps := T\<rparr>" by blast
      with p1 have "p' = p\<lparr>warnings := W, courses_of_action := C, ttps := T\<rparr>" by simp
      then show ?thesis by blast
    qed
  qed
qed

lemma attribute_galaxies_loop_indicator:
  "attribute_galaxies_loop M a gs i tn p = (Inr (i', tn'), p') \<Longrightarrow>
     \<exists>X Y. i' = i\<lparr>indicated_ttps := indicated_ttps i @ X,
                     suggested_coas := suggested_coas i @ Y\<rparr>"
proof (induction gs arbitrary: i tn p)
  case Nil
  then have "i' = i\<lparr>indicated_ttps := indicated_ttps i @ [],
                     suggested_coas := suggested_coas i @ []\<rparr>" by simp
  then show ?case by blast
next
  case (Cons g gs)
  show ?case
  proof (cases "galaxy_types_mapping M (galaxy_type g)")
    case None
    with Cons.prems Cons.IH show ?thesis by simp
  next
    case (Some tc)
    obtain r1 p1 where call:
      "getattr_attribute_galaxy (format_to_call tc ''attribute'') g i p = (r1, p1)"
      by (cases "getattr_attribute_galaxy (format_to_call tc ''attribute'') g i p")
    with Some Cons.prems obtain i1 where r1: "r1 = Inr i1"
      by (cases r1) auto
    from getattr_attribute_galaxy_indicator [OF call [unfolded r1]] obtain X1 Y1 where
      i1: "i1 = i\<lparr>indicated_ttps := indicated_ttps i @ X1,
                    suggested_coas := suggested_coas i @ Y1\<rparr>" by blast
    from Some call r1 Cons.prems have
      "attribute_galaxies_loop M a gs i1 (tn @ quick_fetch_tag_names g) p1 = (Inr (i', tn'), p')"
      by simp
    from Cons.IH [OF this] obtain X Y where
      "i' = i1\<lparr>indicated_ttps := indicated_ttps i1 @ X,
                suggested_coas := suggested_coas i1 @ Y\<rparr>" by blast
    with i1 have "i' = i\<lparr>indicated_ttps := indicated_ttps i @ (X1 @ X),
                           suggested_coas := suggested_coas i @ (Y1 @ Y)\<rparr>" by simp
    then show ?thesis by blast
  qed
qed

lemma handle_attribute_tags_and_galaxies_frame:
  assumes "handle_attribute_tags_and_galaxies M a i p = (r, p')"
  shows "\<exists>W C T. p' = p\<lparr>warnings := W, courses_of_action := C, ttps := T\<rparr>"
proof (cases "attr_Galaxy a = []")
  case True
  with assms have "p' = p\<lparr>warnings := warnings p, courses_of_action := courses_of_action p,
                          ttps := ttps p\<rparr>"
    by (simp add: handle_attribute_tags_and_galaxies_def)
  then show ?thesis by blast
next
  case False
  obtain r1 p1 where loop: "attribute_galaxies_loop M a (attr_Galaxy a) i [] p = (r1, p1)"
    by (cases "attribute_galaxies_loop M a (attr_Galaxy a) i [] p")
  with False assms have "p' = p1"
    by (auto simp: handle_attribute_tags_and_galaxies_def split: sum.splits prod.splits)
  with attribute_galaxies_loop_frame [OF loop] show ?thesis by simp
qed

lemma handle_attribute_tags_and_galaxies_indicator:
  assumes "handle_attribute_tags_and_galaxies M a i p = (Inr (tags, i'), p')"
  shows "\<exists>X Y. i' = i\<lparr>indicated_ttps := indicated_ttps i @ X,
                         suggested_coas := suggested_coas i @ Y\<rparr>"
proof (cases "attr_Galaxy a = []")
  case True
  with assms have "i' = i\<lparr>indicated_ttps := indicated_ttps i @ [],
                          suggested_coas := suggested_coas i @ []\<rparr>"
    by (simp add: handle_attribute_tags_and_galaxies_def)
  then show ?thesis by blast
next
  case False
  with assms obtain tn where
    "attribute_galaxies_loop M a (attr_Galaxy a) i [] p = (Inr (i', tn), p')"
    by (auto simp: handle_attribute_tags_and_galaxies_def split: sum.splits prod.splits)
  from attribute_galaxies_loop_indicator [OF this] show ?thesis .
qed

text \<open>\<open>_handle_attribute\<close>: what a call that raises and a call that returns leave.\<close>

lemma handle_attribute_raises:
  assumes "handle_attribute M a obs p = (Inl e, p')"
  shows "attr_to_ids a \<and> (\<exists>W C T. p' = p\<lparr>warnings := W, courses_of_action := C, ttps := T\<rparr>)"
proof -
  from assms have ids: "attr_to_ids a"
    by (auto simp: handle_attribute_def split: if_splits)
  have same: "\<exists>W C T. p = p\<lparr>warnings := W, courses_of_action := C, ttps := T\<rparr>"
  proof -
    have "p = p\<lparr>warnings := warnings p, courses_of_action := courses_of_action p,
                 ttps := ttps p\<rparr>" by simp
    then show ?thesis by blast
  qed
  show ?thesis
  proof (cases "create_indicator_from_attribute p a")
    case (Inl e0)
    with ids assms have "p' = p" by (simp add: handle_attribute_def)
    with ids same show ?thesis by simp
  next
    case (Inr i0)
    obtain r1 p1 where call:
      "handle_attribute_tags_and_galaxies M a
         (i0\<lparr>indicator_types := [set_indicator_type M (attr_type a)],
             indicator_observables := [obs]\<rparr>) p = (r1, p1)"
      by (cases "handle_attribute_tags_and_galaxies M a
         (i0\<lparr>indicator_types := [set_indicator_type M (attr_type a)],
             indicator_observables := [obs]\<rparr>) p")
    with Inr ids assms have "p' = p1"
      by (auto simp: handle_attribute_def split: sum.splits prod.splits if_splits)
    with handle_attribute_tags_and_galaxies_frame [OF call] ids show ?thesis by simp
  qed
qed

lemma handle_attribute_returns:
  assumes "handle_attribute M a obs p = (Inr u, p')"
  shows "if attr_to_ids a
         then \<exists>W C T ind. p' = append_related_indicator ind (Some (attr_category a))
                     (p\<lparr>warnings := W, courses_of_action := C, ttps := T\<rparr>) \<and>
                indicator_id ind = namespace p @ '':Indicator-'' @ attr_uuid a \<and>
                indicator_observables ind = [obs]
         else p' = append_related_observable obs (Some (attr_category a)) p"
proof (cases "attr_to_ids a")
  case False
  with assms show ?thesis by (simp add: handle_attribute_def)
next
  case True
  with assms obtain i0 where i0: "create_indicator_from_attribute p a = Inr i0"
    by (cases "create_indicator_from_attribute p a") (auto simp: handle_attribute_def)
  then have id0: "indicator_id i0 = namespace p @ '':Indicator-'' @ attr_uuid a"
    by (auto simp: create_indicator_from_attribute_def Let_def split: sum.splits)
  let ?i1 = "i0\<lparr>indicator_types := [set_indicator_type M (attr_type a)],
                 indicator_observables := [obs]\<rparr>"
  obtain r1 p1 where call: "handle_attribute_tags_and_galaxies M a ?i1 p = (r1, p1)"
    by (cases "handle_attribute_tags_and_galaxies M a ?i1 p")
  with True i0 assms obtain tags i2 where r1: "r1 = Inr (tags, i2)"
    by (cases r1) (auto simp: handle_attribute_def)
  from handle_attribute_tags_and_galaxies_frame [OF call] obtain W C T where
    p1: "p1 = p\<lparr>warnings := W, courses_of_action := C, ttps := T\<rparr>" by blast
  from handle_attribute_tags_and_galaxies_indicator [OF call [unfolded r1]] id0 have
    i2: "indicator_id i2 = namespace p @ '':Indicator-'' @ attr_uuid a"
        "indicator_observables i2 = [obs]" by auto
  from True i0 call r1 assms have
    "p' = append_related_indicator i2 (Some (attr_category a)) p1 \<or>
     (\<exists>h. p' = append_related_indicator (i2\<lparr>indicator_handling := Some h\<rparr>)
                 (Some (attr_category a)) p1)"
    by (auto simp: handle_attribute_def split: sum.splits if_splits)
  then obtain ind where "p' = append_related_indicator ind (Some (attr_category a)) p1"
    and "indicator_id ind = indicator_id i2" and "indicator_observables ind = indicator_observables i2"
    by auto
  with i2 p1 True show ?thesis by auto
qed

subsection \<open>Attributes: the loop and the unmapped types\<close>

lemma resolve_attributes_append:
  "resolve_attributes M (xs @ ys) p = resolve_attributes M ys (resolve_attributes M xs p)"
  by (induction xs arbitrary: p) auto

text \<open>
  Claim C1, as stated, at an event whose one attribute asks for detection, carries a
  galaxy of a mapped type and a tag \<open>tlp:clear\<close>, a colour \<open>TLP_order\<close> does not have:
  \<open>_set_handling\<close> raises after the galaxy has been resolved. The exception is caught and
  one error is recorded, the incident gets neither indicator nor observable, but the TTP
  built for the attribute's cluster has been stored in \<open>self.ttps\<close> and is part of the
  package: output of the failing item is in the graph.
\<close>

theorem resolve_attributes_partial_output_counterexample:
  "errors (snd (parse_misp_event mapping0 (event0\<lparr>ev_Attribute := [attribute2]\<rparr>) ''1.2''
      (init_stix1 ''ns'' ''ORG''))) = [''Error with the x-type attribute: v2.''] \<and>
   related_indicators (the_incident (snd (parse_misp_event mapping0
      (event0\<lparr>ev_Attribute := [attribute2]\<rparr>) ''1.2'' (init_stix1 ''ns'' ''ORG'')))) = [] \<and>
   related_observables (the_incident (snd (parse_misp_event mapping0
      (event0\<lparr>ev_Attribute := [attribute2]\<rparr>) ''1.2'' (init_stix1 ''ns'' ''ORG'')))) = [] \<and>
   map ttp_id (package_ttps (stix_package (snd (parse_misp_event mapping0
      (event0\<lparr>ev_Attribute := [attribute2]\<rparr>) ''1.2'' (init_stix1 ''ns'' ''ORG''))))) =
     [''ns:TTP-c1'']"
  by code_simp

text \<open>
  Claim C1, amended to the attributes. \<open>_resolve_attributes\<close> always returns. Whatever
  the attributes before and after, the attributes after an attribute are resolved from
  the parser that attribute leaves. When the body of the loop raises for an attribute,
  the parser is left as the body left it, with exactly one entry appended to
  \<open>self.errors\<close>, which names the type and the value of the attribute; when the body
  returns, nothing is appended. For an unmapped type, a body that raises has changed at
  most the warnings and the caches \<open>self.courses_of_action\<close> and \<open>self.ttps\<close>: the incident
  holds nothing of the failing attribute.
\<close>

theorem resolve_attributes_isolation:
  "resolve_attributes M (before @ attribute # after) p =
     resolve_attributes M after
       (resolve_attribute M attribute (resolve_attributes M before p)) \<and>
   (resolve_attribute_body M attribute q = (Inl e, q') \<longrightarrow>
      resolve_attribute M attribute q =
        q'\<lparr>errors := errors q' @ [''Error with the '' @ attr_type attribute @
              '' attribute: '' @ attr_value attribute @ ''.'']\<rparr>) \<and>
   (resolve_attribute_body M attribute q = (Inr u, q') \<longrightarrow>
      resolve_attribute M attribute q = q') \<and>
   (attribute_types_mapping M (attr_type attribute) = None \<and>
    resolve_attribute_body M attribute q = (Inl e, q') \<longrightarrow>
      (\<exists>W C T. q' = q\<lparr>warnings := W, courses_of_action := C, ttps := T\<rparr>))"
proof (intro conjI impI)
  show "resolve_attributes M (before @ attribute # after) p =
     resolve_attributes M after
       (resolve_attribute M attribute (resolve_attributes M before p))"
    by (simp add: resolve_attributes_append)
next
  assume "resolve_attribute_body M attribute q = (Inl e, q')"
  then show "resolve_attribute M attribute q =
        q'\<lparr>errors := errors q' @ [''Error with the '' @ attr_type attribute @
              '' attribute: '' @ attr_value attribute @ ''.'']\<rparr>"
    by (simp add: resolve_attribute_def)
next
  assume "resolve_attribute_body M attribute q = (Inr u, q')"
  then show "resolve_attribute M attribute q = q'"
    by (simp add: resolve_attribute_def)
next
  assume a: "attribute_types_mapping M (attr_type attribute) = None \<and>
    resolve_attribute_body M attribute q = (Inl e, q')"
  then have "parse_custom_attribute M attribute q = (Inl e, q')"
    by (auto simp: resolve_attribute_body_def split: prod.splits sum.splits)
  then have "handle_attribute M attribute
       (create_observable q
          (Custom \<lparr>custom_name = None, custom_description = None,
                   custom_properties = [(attr_type attribute, attr_value attribute)]\<rparr>)
          (attr_uuid attribute) ''Custom'') q = (Inl e, q')"
    by (simp add: parse_custom_attribute_def)
  from handle_attribute_raises [OF this]
  show "\<exists>W C T. q' = q\<lparr>warnings := W, courses_of_action := C, ttps := T\<rparr>" by blast
qed

theorem resolve_attributes_isolation_witness:
  "fst (resolve_attribute_body mapping0 attribute2
          (resolve_attributes mapping0 [attribute3] parser0)) = Inl (KeyError ''CLEAR'') \<and>
   attribute_types_mapping mapping0 (attr_type attribute2) = None \<and>
   resolve_attributes mapping0 ([attribute3] @ attribute2 # [attribute3]) parser0 =
     resolve_attributes mapping0 [attribute3]
       (resolve_attribute mapping0 attribute2
          (resolve_attributes mapping0 [attribute3] parser0)) \<and>
   errors (resolve_attribute mapping0 attribute2
             (resolve_attributes mapping0 [attribute3] parser0)) =
     [''Error with the x-type attribute: v2.''] \<and>
   errors (resolve_attributes mapping0 ([attribute3] @ attribute2 # [attribute3]) parser0) =
     [''Error with the x-type attribute: v2.''] \<and>
   map (observable_id \<circ> fst) (related_observables (the_incident
     (resolve_attributes mapping0 ([attribute3] @ attribute2 # [attribute3]) parser0))) =
     [''ns:Observable-a3'', ''ns:Observable-a3'']"
proof -
  let ?q = "resolve_attributes mapping0 [attribute3] parser0"
  have raised: "fst (resolve_attribute_body mapping0 attribute2 ?q) = Inl (KeyError ''CLEAR'')"
    by code_simp
  then have body: "resolve_attribute_body mapping0 attribute2 ?q =
      (Inl (KeyError ''CLEAR''), snd (resolve_attribute_body mapping0 attribute2 ?q))"
    by (metis prod.collapse)
  have unmapped: "attribute_types_mapping mapping0 (attr_type attribute2) = None"
    by (simp add: mapping0_def)
  have before: "errors (snd (resolve_attribute_body mapping0 attribute2 ?q)) = []"
    by code_simp
  have all: "errors (resolve_attributes mapping0 ([attribute3] @ attribute2 # [attribute3]) parser0) =
     [''Error with the x-type attribute: v2.'']"
    by code_simp
  have obs: "map (observable_id \<circ> fst) (related_observables (the_incident
     (resolve_attributes mapping0 ([attribute3] @ attribute2 # [attribute3]) parser0))) =
     [''ns:Observable-a3'', ''ns:Observable-a3'']"
    by code_simp
  from resolve_attributes_isolation [of mapping0 "[attribute3]" attribute2 "[attribute3]" parser0
      ?q "KeyError ''CLEAR''" "snd (resolve_attribute_body mapping0 attribute2 ?q)"]
    body unmapped raised before all obs
  show ?thesis by (simp add: attribute2_def)
qed

text \<open>
  Claim C6, as stated, at an attribute of an unmapped type that asks for detection and
  carries the tag \<open>tlp:clear\<close>: \<open>_parse_custom_attribute\<close> raises in \<open>_set_handling\<close>, so the
  conversion records an error, adds no warning and produces no entity.
\<close>

theorem unmapped_attribute_counterexample:
  "attribute_types_mapping mapping0 (attr_type attribute1) = None \<and>
   errors (snd (parse_misp_event mapping0 (event0\<lparr>ev_Attribute := [attribute1]\<rparr>) ''1.2''
      (init_stix1 ''ns'' ''ORG''))) = [''Error with the x-type attribute: v1.''] \<and>
   warnings (snd (parse_misp_event mapping0 (event0\<lparr>ev_Attribute := [attribute1]\<rparr>) ''1.2''
      (init_stix1 ''ns'' ''ORG''))) = {} \<and>
   related_indicators (the_incident (snd (parse_misp_event mapping0
      (event0\<lparr>ev_Attribute := [attribute1]\<rparr>) ''1.2'' (init_stix1 ''ns'' ''ORG'')))) = [] \<and>
   related_observables (the_incident (snd (parse_misp_event mapping0
      (event0\<lparr>ev_Attribute := [attribute1]\<rparr>) ''1.2'' (init_stix1 ''ns'' ''ORG'')))) = []"
  by code_simp

text \<open>
  Claim C6, amended. For an attribute whose type the table does not map:
  \<^item> without \<open>to_ids\<close> the conversion always succeeds: a custom observable whose one
    property is the raw type and value is appended to the related observables, and the
    warning is in the warning set (a set: a warning already there is not added twice);
  \<^item> whenever \<open>_parse_custom_attribute\<close> returns, the warning is in the set, the error
    list is as before, and with \<open>to_ids\<close> the custom observable is the observable of the
    indicator appended to the related indicators;
  \<^item> whenever \<open>_parse_custom_attribute\<close> raises, which takes \<open>to_ids\<close>, one error is
    appended, the warning of the unmapped type is not added, and the incident is as
    before.
\<close>

theorem unmapped_attribute_fallback:
  "attribute_types_mapping M (attr_type attribute) = None \<longrightarrow>
   (\<not> attr_to_ids attribute \<longrightarrow>
      resolve_attribute M attribute p =
        (append_related_observable
           (create_observable p
              (Custom \<lparr>custom_name = None, custom_description = None,
                       custom_properties = [(attr_type attribute, attr_value attribute)]\<rparr>)
              (attr_uuid attribute) ''Custom'')
           (Some (attr_category attribute)) p)
        \<lparr>warnings := insert (''MISP Attribute type '' @ attr_type attribute @ '' not mapped.'')
                        (warnings p)\<rparr>) \<and>
   (parse_custom_attribute M attribute p = (Inr u, p') \<longrightarrow>
      resolve_attribute M attribute p =
        p'\<lparr>warnings := insert (''MISP Attribute type '' @ attr_type attribute @ '' not mapped.'')
                          (warnings p')\<rparr> \<and>
      errors (resolve_attribute M attribute p) = errors p \<and>
      (attr_to_ids attribute \<longrightarrow>
         related_observables (the_incident (resolve_attribute M attribute p)) =
           related_observables (the_incident p) \<and>
         (\<exists>ind. related_indicators (the_incident (resolve_attribute M attribute p)) =
                   related_indicators (the_incident p) @ [(ind, Some (attr_category attribute))] \<and>
                indicator_id ind = namespace p @ '':Indicator-'' @ attr_uuid attribute \<and>
                indicator_observables ind =
                  [create_observable p
                     (Custom \<lparr>custom_name = None, custom_description = None,
                              custom_properties =
                                [(attr_type attribute, attr_value attribute)]\<rparr>)
                     (attr_uuid attribute) ''Custom'']))) \<and>
   (parse_custom_attribute M attribute p = (Inl e, p') \<longrightarrow>
      attr_to_ids attribute \<and>
      errors (resolve_attribute M attribute p) =
        errors p @ [''Error with the '' @ attr_type attribute @ '' attribute: '' @
                    attr_value attribute @ ''.''] \<and>
      warnings (resolve_attribute M attribute p) = warnings p' \<and>
      the_incident (resolve_attribute M attribute p) = the_incident p)"
proof (intro impI conjI)
  let ?obs = "create_observable p
              (Custom \<lparr>custom_name = None, custom_description = None,
                       custom_properties = [(attr_type attribute, attr_value attribute)]\<rparr>)
              (attr_uuid attribute) ''Custom''"
  let ?w = "''MISP Attribute type '' @ attr_type attribute @ '' not mapped.''"
  assume unmapped: "attribute_types_mapping M (attr_type attribute) = None"
  {
    assume "\<not> attr_to_ids attribute"
    with unmapped show "resolve_attribute M attribute p =
        (append_related_observable ?obs (Some (attr_category attribute)) p)
        \<lparr>warnings := insert ?w (warnings p)\<rparr>"
      by (simp add: resolve_attribute_def resolve_attribute_body_def parse_custom_attribute_def
          handle_attribute_def append_related_observable_def)
  }
  {
    assume ok: "parse_custom_attribute M attribute p = (Inr u, p')"
    with unmapped show res: "resolve_attribute M attribute p = p'\<lparr>warnings := insert ?w (warnings p')\<rparr>"
      by (simp add: resolve_attribute_def resolve_attribute_body_def)
    from ok have h: "handle_attribute M attribute ?obs p = (Inr u, p')"
      by (simp add: parse_custom_attribute_def)
    note ret = handle_attribute_returns [OF h]
    show "errors (resolve_attribute M attribute p) = errors p"
      using ret res
      by (cases "attr_to_ids attribute")
         (auto simp: append_related_indicator_def append_related_observable_def)
    {
      assume ids: "attr_to_ids attribute"
      with ret obtain W C T ind where
        p': "p' = append_related_indicator ind (Some (attr_category attribute))
                   (p\<lparr>warnings := W, courses_of_action := C, ttps := T\<rparr>)"
        and ind: "indicator_id ind = namespace p @ '':Indicator-'' @ attr_uuid attribute"
                 "indicator_observables ind = [?obs]"
        by auto
      from p' res show "related_observables (the_incident (resolve_attribute M attribute p)) =
           related_observables (the_incident p)"
        by (simp add: append_related_indicator_def)
      from p' res have "related_indicators (the_incident (resolve_attribute M attribute p)) =
          related_indicators (the_incident p) @ [(ind, Some (attr_category attribute))]"
        by (simp add: append_related_indicator_def)
      with ind show "\<exists>ind. related_indicators (the_incident (resolve_attribute M attribute p)) =
                   related_indicators (the_incident p) @ [(ind, Some (attr_category attribute))] \<and>
                indicator_id ind = namespace p @ '':Indicator-'' @ attr_uuid attribute \<and>
                indicator_observables ind = [?obs]"
        by blast
    }
  }
  {
    assume bad: "parse_custom_attribute M attribute p = (Inl e, p')"
    then have h: "handle_attribute M attribute ?obs p = (Inl e, p')"
      by (simp add: parse_custom_attribute_def)
    from handle_attribute_raises [OF h] obtain W C T where
      ids: "attr_to_ids attribute"
      and p': "p' = p\<lparr>warnings := W, courses_of_action := C, ttps := T\<rparr>" by blast
    from bad unmapped have res: "resolve_attribute M attribute p =
        p'\<lparr>errors := errors p' @ [''Error with the '' @ attr_type attribute @
              '' attribute: '' @ attr_value attribute @ ''.'']\<rparr>"
      by (simp add: resolve_attribute_def resolve_attribute_body_def)
    from ids show "attr_to_ids attribute" .
    from res p' show "errors (resolve_attribute M attribute p) =
        errors p @ [''Error with the '' @ attr_type attribute @ '' attribute: '' @
                    attr_value attribute @ ''.'']" by simp
    from res show "warnings (resolve_attribute M attribute p) = warnings p'" by simp
    from res p' show "the_incident (resolve_attribute M attribute p) = the_incident p" by simp
  }
qed

theorem unmapped_attribute_fallback_witness:
  "attribute_types_mapping mapping0 (attr_type attribute3) = None \<and>
   \<not> attr_to_ids attribute3 \<and>
   resolve_attribute mapping0 attribute3 parser0 =
     (append_related_observable
        (create_observable parser0
           (Custom \<lparr>custom_name = None, custom_description = None,
                    custom_properties = [(''x-type'', ''v3'')]\<rparr>) ''a3'' ''Custom'')
        (Some ''Other'') parser0)
     \<lparr>warnings := insert ''MISP Attribute type x-type not mapped.'' (warnings parser0)\<rparr> \<and>
   fst (parse_custom_attribute mapping0 attribute1 parser0) = Inl (KeyError ''CLEAR'') \<and>
   errors (resolve_attribute mapping0 attribute1 parser0) =
     errors parser0 @ [''Error with the x-type attribute: v1.''] \<and>
   the_incident (resolve_attribute mapping0 attribute1 parser0) = the_incident parser0 \<and>
   fst (parse_custom_attribute mapping0 (attribute1\<lparr>attr_tags := [''tlp:red'']\<rparr>) parser0) = Inr () \<and>
   errors (resolve_attribute mapping0 (attribute1\<lparr>attr_tags := [''tlp:red'']\<rparr>) parser0) =
     errors parser0"
proof -
  have unmapped: "attribute_types_mapping mapping0 (attr_type attribute3) = None"
    "attribute_types_mapping mapping0 (attr_type attribute1) = None"
    "attribute_types_mapping mapping0 (attr_type (attribute1\<lparr>attr_tags := [''tlp:red'']\<rparr>)) = None"
    by (simp_all add: mapping0_def)
  have flag: "\<not> attr_to_ids attribute3" by (simp add: attribute3_def)
  have raised: "fst (parse_custom_attribute mapping0 attribute1 parser0) = Inl (KeyError ''CLEAR'')"
    by code_simp
  then have bad: "parse_custom_attribute mapping0 attribute1 parser0 =
      (Inl (KeyError ''CLEAR''), snd (parse_custom_attribute mapping0 attribute1 parser0))"
    by (metis prod.collapse)
  have returned:
    "fst (parse_custom_attribute mapping0 (attribute1\<lparr>attr_tags := [''tlp:red'']\<rparr>) parser0) = Inr ()"
    by code_simp
  then have ok: "parse_custom_attribute mapping0 (attribute1\<lparr>attr_tags := [''tlp:red'']\<rparr>) parser0 =
      (Inr (), snd (parse_custom_attribute mapping0 (attribute1\<lparr>attr_tags := [''tlp:red'']\<rparr>) parser0))"
    by (metis prod.collapse)
  note a0 = unmapped_attribute_fallback [where M = mapping0 and attribute = attribute3
      and p = parser0 and u = "()" and e = "KeyError []" and p' = parser0,
      THEN mp, OF unmapped(1), THEN conjunct1, THEN mp, OF flag]
  then have a: "resolve_attribute mapping0 attribute3 parser0 =
     (append_related_observable
        (create_observable parser0
           (Custom \<lparr>custom_name = None, custom_description = None,
                    custom_properties = [(''x-type'', ''v3'')]\<rparr>) ''a3'' ''Custom'')
        (Some ''Other'') parser0)
     \<lparr>warnings := insert ''MISP Attribute type x-type not mapped.'' (warnings parser0)\<rparr>"
    by (simp add: attribute3_def)
  note b0 = unmapped_attribute_fallback [where M = mapping0 and attribute = attribute1
      and p = parser0 and e = "KeyError ''CLEAR''" and u = "()"
      and p' = "snd (parse_custom_attribute mapping0 attribute1 parser0)",
      THEN mp, OF unmapped(2), THEN conjunct2, THEN conjunct2, THEN mp, OF bad]
  then have b: "errors (resolve_attribute mapping0 attribute1 parser0) =
     errors parser0 @ [''Error with the x-type attribute: v1.'']"
    "the_incident (resolve_attribute mapping0 attribute1 parser0) = the_incident parser0"
    by (simp_all add: attribute1_def)
  note c0 = unmapped_attribute_fallback [where M = mapping0
      and attribute = "attribute1\<lparr>attr_tags := [''tlp:red'']\<rparr>" and p = parser0 and u = "()"
      and e = "KeyError []"
      and p' = "snd (parse_custom_attribute mapping0 (attribute1\<lparr>attr_tags := [''tlp:red'']\<rparr>)
                       parser0)",
      THEN mp, OF unmapped(3), THEN conjunct2, THEN conjunct1, THEN mp, OF ok]
  then have c: "errors (resolve_attribute mapping0 (attribute1\<lparr>attr_tags := [''tlp:red'']\<rparr>) parser0) =
     errors parser0"
    by blast
  from unmapped(1) flag a raised b returned c show ?thesis by simp
qed

subsection \<open>Dictionaries\<close>

lemma map_of_dict_set: "map_of (dict_set k v d) = (map_of d)(k \<mapsto> v)"
  by (induction d) (auto simp: fun_eq_iff)

lemma dict_get_dict_set: "dict_get (dict_set k v d) k' = (if k' = k then Some v else dict_get d k')"
  by (simp add: dict_get_def map_of_dict_set)

lemma set_dict_set_subset: "set (dict_set k v d) \<subseteq> insert (k, v) (set d)"
  by (induction d) (auto split: if_splits)

lemma keys_dict_set: "fst ` set (dict_set k v d) = insert k (fst ` set d)"
  by (induction d) (force split: if_splits)+

lemma map_fst_dict_set_fresh:
  "k \<notin> fst ` set d \<Longrightarrow> map fst (dict_set k v d) = map fst d @ [k]"
  by (induction d) auto

lemma distinct_dict_set: "distinct (map fst d) \<Longrightarrow> distinct (map fst (dict_set k v d))"
proof (induction d)
  case Nil
  then show ?case by simp
next
  case (Cons kv d)
  obtain k' v' where kv: "kv = (k', v')" by (cases kv)
  show ?case
  proof (cases "k' = k")
    case True
    with Cons.prems kv show ?thesis by simp
  next
    case False
    from Cons.prems kv have "k' \<notin> fst ` set d" by auto
    with False have "k' \<notin> fst ` set (dict_set k v d)" by (simp add: keys_dict_set)
    with Cons kv False show ?thesis by (simp add: image_iff)
  qed
qed

lemma dict_get_None_iff: "dict_get d k = None \<longleftrightarrow> k \<notin> fst ` set d"
  by (simp add: dict_get_def map_of_eq_None_iff)

lemma dict_get_SomeD: "dict_get d k = Some v \<Longrightarrow> (k, v) \<in> set d"
  by (simp add: dict_get_def map_of_SomeD)

lemma dict_get_Some_values: "dict_get d k = Some v \<Longrightarrow> v \<in> set (dict_values d)"
  by (force simp: dict_values_def dest: dict_get_SomeD)

lemma dict_get_distinct: "distinct (map fst d) \<Longrightarrow> (k, v) \<in> set d \<Longrightarrow> dict_get d k = Some v"
  by (simp add: dict_get_def)

subsection \<open>The TTP cache\<close>

lemma parse_feature_galaxy_id:
  "parse_feature_galaxy f p c t = Inr t' \<Longrightarrow> ttp_id t' = ttp_id t"
  by (cases f)
     (auto simp: parse_attack_pattern_galaxy_def parse_malware_galaxy_def parse_tool_galaxy_def
        parse_vulnerability_galaxy_def split: option.splits)

lemma get_related_ttps_loop_cache:
  assumes "get_related_ttps_loop f g cs rel p = (r, p')"
    and "distinct (map fst (ttps p))"
    and "\<forall>(u, t) \<in> set (ttps p). ttp_id t = namespace p @ '':TTP-'' @ u"
  shows "distinct (map fst (ttps p')) \<and>
         (\<forall>(u, t) \<in> set (ttps p'). ttp_id t = namespace p @ '':TTP-'' @ u) \<and>
         (\<forall>u t. dict_get (ttps p) u = Some t \<longrightarrow> dict_get (ttps p') u = Some t)"
  using assms
proof (induction cs arbitrary: rel p)
  case Nil
  then show ?case by auto
next
  case (Cons c cs)
  show ?case
  proof (cases "dict_get (ttps p) (cluster_uuid c)")
    case (Some cached)
    with Cons.prems have
      "get_related_ttps_loop f g cs (dict_set (cluster_uuid c)
         (create_related_ttp (ttp_id cached) (galaxy_name g)) rel) p = (r, p')" by simp
    from Cons.IH [OF this Cons.prems(2,3)] show ?thesis .
  next
    case None
    show ?thesis
    proof (cases "parse_feature_galaxy f p c
                    (create_ttp_from_galaxy p (galaxy_name g) (cluster_uuid c))")
      case (Inl e)
      with None Cons.prems show ?thesis by auto
    next
      case (Inr t)
      let ?p1 = "p\<lparr>ttps := dict_set (cluster_uuid c) t (ttps p)\<rparr>"
      from parse_feature_galaxy_id [OF Inr] have
        tid: "ttp_id t = namespace p @ '':TTP-'' @ cluster_uuid c"
        by (simp add: create_ttp_from_galaxy_def)
      from None Inr Cons.prems have run:
        "get_related_ttps_loop f g cs (dict_set (cluster_uuid c)
           (create_related_ttp (ttp_id t) (galaxy_name g)) rel) ?p1 = (r, p')" by simp
      have d1: "distinct (map fst (ttps ?p1))"
        using Cons.prems(2) by (simp add: distinct_dict_set)
      have i1: "\<forall>(u, t) \<in> set (ttps ?p1). ttp_id t = namespace ?p1 @ '':TTP-'' @ u"
        using Cons.prems(3) tid set_dict_set_subset [of "cluster_uuid c" t "ttps p"] by auto
      from Cons.IH [OF run d1 i1] have
        res: "distinct (map fst (ttps p'))"
          "\<forall>(u, t) \<in> set (ttps p'). ttp_id t = namespace p @ '':TTP-'' @ u"
          "\<forall>u t. dict_get (ttps ?p1) u = Some t \<longrightarrow> dict_get (ttps p') u = Some t"
        by auto
      have "dict_get (ttps p') u = Some t'" if "dict_get (ttps p) u = Some t'" for u t'
      proof -
        from that None have "u \<noteq> cluster_uuid c" by auto
        with that have "dict_get (ttps ?p1) u = Some t'" by (simp add: dict_get_dict_set)
        with res(3) show ?thesis by blast
      qed
      with res(1,2) show ?thesis by blast
    qed
  qed
qed

lemma get_related_ttps_loop_related:
  assumes "get_related_ttps_loop f g cs rel p = (Inr rel', p')"
    and "distinct (map fst (ttps p))"
    and "\<forall>(u, t) \<in> set (ttps p). ttp_id t = namespace p @ '':TTP-'' @ u"
    and "\<forall>(u, r) \<in> set rel. rttp_idref r = namespace p @ '':TTP-'' @ u"
  shows "(\<forall>(u, r) \<in> set rel'. rttp_idref r = namespace p @ '':TTP-'' @ u) \<and>
         fst ` set rel \<union> cluster_uuid ` set cs \<subseteq> fst ` set rel' \<and>
         cluster_uuid ` set cs \<subseteq> fst ` set (ttps p')"
  using assms
proof (induction cs arbitrary: rel p)
  case Nil
  then show ?case by auto
next
  case (Cons c cs)
  show ?case
  proof (cases "dict_get (ttps p) (cluster_uuid c)")
    case (Some cached)
    let ?rel1 = "dict_set (cluster_uuid c)
         (create_related_ttp (ttp_id cached) (galaxy_name g)) rel"
    from Some Cons.prems have run: "get_related_ttps_loop f g cs ?rel1 p = (Inr rel', p')"
      by simp
    from Some Cons.prems(3) have "ttp_id cached = namespace p @ '':TTP-'' @ cluster_uuid c"
      by (auto dest: dict_get_SomeD)
    with Cons.prems(4) have r1: "\<forall>(u, r) \<in> set ?rel1. rttp_idref r = namespace p @ '':TTP-'' @ u"
      using set_dict_set_subset [of "cluster_uuid c"
          "create_related_ttp (ttp_id cached) (galaxy_name g)" rel]
      by (auto simp: create_related_ttp_def)
    from Cons.IH [OF run Cons.prems(2,3) r1] have
      res: "\<forall>(u, r) \<in> set rel'. rttp_idref r = namespace p @ '':TTP-'' @ u"
        "fst ` set ?rel1 \<union> cluster_uuid ` set cs \<subseteq> fst ` set rel'"
        "cluster_uuid ` set cs \<subseteq> fst ` set (ttps p')" by auto
    from get_related_ttps_loop_cache [OF run Cons.prems(2,3)] Some
    have "dict_get (ttps p') (cluster_uuid c) = Some cached" by blast
    then have here: "cluster_uuid c \<in> fst ` set (ttps p')"
      by (force dest: dict_get_SomeD)
    from res(2) have "insert (cluster_uuid c) (fst ` set rel) \<subseteq> fst ` set rel'"
      by (simp add: keys_dict_set)
    with res here show ?thesis by auto
  next
    case None
    from None Cons.prems(1) obtain t where
      t: "parse_feature_galaxy f p c
            (create_ttp_from_galaxy p (galaxy_name g) (cluster_uuid c)) = Inr t"
      by (cases "parse_feature_galaxy f p c
            (create_ttp_from_galaxy p (galaxy_name g) (cluster_uuid c))") auto
    let ?p1 = "p\<lparr>ttps := dict_set (cluster_uuid c) t (ttps p)\<rparr>"
    let ?rel1 = "dict_set (cluster_uuid c)
         (create_related_ttp (ttp_id t) (galaxy_name g)) rel"
    from parse_feature_galaxy_id [OF t] have
      tid: "ttp_id t = namespace p @ '':TTP-'' @ cluster_uuid c"
      by (simp add: create_ttp_from_galaxy_def)
    from None t Cons.prems have run: "get_related_ttps_loop f g cs ?rel1 ?p1 = (Inr rel', p')"
      by simp
    have d1: "distinct (map fst (ttps ?p1))"
      using Cons.prems(2) by (simp add: distinct_dict_set)
    have i1: "\<forall>(u, t) \<in> set (ttps ?p1). ttp_id t = namespace ?p1 @ '':TTP-'' @ u"
      using Cons.prems(3) tid set_dict_set_subset [of "cluster_uuid c" t "ttps p"] by auto
    have r1: "\<forall>(u, r) \<in> set ?rel1. rttp_idref r = namespace ?p1 @ '':TTP-'' @ u"
      using Cons.prems(4) tid set_dict_set_subset [of "cluster_uuid c"
          "create_related_ttp (ttp_id t) (galaxy_name g)" rel]
      by (auto simp: create_related_ttp_def)
    from Cons.IH [OF run d1 i1 r1] have
      res: "\<forall>(u, r) \<in> set rel'. rttp_idref r = namespace p @ '':TTP-'' @ u"
        "fst ` set ?rel1 \<union> cluster_uuid ` set cs \<subseteq> fst ` set rel'"
        "cluster_uuid ` set cs \<subseteq> fst ` set (ttps p')" by auto
    have "dict_get (ttps ?p1) (cluster_uuid c) = Some t" by (simp add: dict_get_dict_set)
    with get_related_ttps_loop_cache [OF run d1 i1]
    have "dict_get (ttps p') (cluster_uuid c) = Some t" by blast
    then have here: "cluster_uuid c \<in> fst ` set (ttps p')"
      by (force dest: dict_get_SomeD)
    from res(2) have "insert (cluster_uuid c) (fst ` set rel) \<subseteq> fst ` set rel'"
      by (simp add: keys_dict_set)
    with res here show ?thesis by auto
  qed
qed

subsection \<open>The course-of-action cache\<close>

lemma create_course_of_action_from_galaxy_id:
  "create_course_of_action_from_galaxy p c = Inr coa \<Longrightarrow>
     coa_id coa = namespace p @ '':CourseOfAction-'' @ cluster_uuid c"
  by (auto simp: create_course_of_action_from_galaxy_def split: option.splits)

lemma coa_attribute_loop_cache:
  assumes "parse_course_of_action_attribute_galaxy_loop g cs i p = (r, p')"
    and "distinct (map fst (courses_of_action p))"
    and "\<forall>(u, c) \<in> set (courses_of_action p). coa_id c = namespace p @ '':CourseOfAction-'' @ u"
  shows "distinct (map fst (courses_of_action p')) \<and>
         (\<forall>(u, c) \<in> set (courses_of_action p').
            coa_id c = namespace p @ '':CourseOfAction-'' @ u) \<and>
         (\<forall>u c. dict_get (courses_of_action p) u = Some c \<longrightarrow>
                dict_get (courses_of_action p') u = Some c)"
  using assms
proof (induction cs arbitrary: i p)
  case Nil
  then show ?case by auto
next
  case (Cons c cs)
  show ?case
  proof (cases "dict_get (courses_of_action p) (cluster_uuid c)")
    case (Some cached)
    with Cons.prems have
      "parse_course_of_action_attribute_galaxy_loop g cs
         (i\<lparr>suggested_coas := suggested_coas i @
              [create_related_coa (coa_id cached) (galaxy_name g)]\<rparr>) p = (r, p')" by simp
    from Cons.IH [OF this Cons.prems(2,3)] show ?thesis .
  next
    case None
    show ?thesis
    proof (cases "create_course_of_action_from_galaxy p c")
      case (Inl e)
      with None Cons.prems show ?thesis by auto
    next
      case (Inr coa)
      let ?p1 = "p\<lparr>courses_of_action := dict_set (cluster_uuid c) coa (courses_of_action p)\<rparr>"
      note cid = create_course_of_action_from_galaxy_id [OF Inr]
      from None Inr Cons.prems have run:
        "parse_course_of_action_attribute_galaxy_loop g cs
           (i\<lparr>suggested_coas := suggested_coas i @
                [create_related_coa (coa_id coa) (galaxy_name g)]\<rparr>) ?p1 = (r, p')" by simp
      have d1: "distinct (map fst (courses_of_action ?p1))"
        using Cons.prems(2) by (simp add: distinct_dict_set)
      have i1: "\<forall>(u, c) \<in> set (courses_of_action ?p1).
                  coa_id c = namespace ?p1 @ '':CourseOfAction-'' @ u"
        using Cons.prems(3) cid set_dict_set_subset [of "cluster_uuid c" coa "courses_of_action p"]
        by auto
      from Cons.IH [OF run d1 i1] have
        res: "distinct (map fst (courses_of_action p'))"
          "\<forall>(u, c) \<in> set (courses_of_action p'). coa_id c = namespace p @ '':CourseOfAction-'' @ u"
          "\<forall>u c. dict_get (courses_of_action ?p1) u = Some c \<longrightarrow>
                 dict_get (courses_of_action p') u = Some c"
        by auto
      have "dict_get (courses_of_action p') u = Some c'"
        if "dict_get (courses_of_action p) u = Some c'" for u c'
      proof -
        from that None have "u \<noteq> cluster_uuid c" by auto
        with that have "dict_get (courses_of_action ?p1) u = Some c'"
          by (simp add: dict_get_dict_set)
        with res(3) show ?thesis by blast
      qed
      with res(1,2) show ?thesis by blast
    qed
  qed
qed

lemma coa_attribute_loop_related:
  assumes "parse_course_of_action_attribute_galaxy_loop g cs i p = (Inr i', p')"
    and "distinct (map fst (courses_of_action p))"
    and "\<forall>(u, c) \<in> set (courses_of_action p). coa_id c = namespace p @ '':CourseOfAction-'' @ u"
  shows "(\<forall>c \<in> set cs. \<exists>r \<in> set (suggested_coas i').
            rcoa_idref r = namespace p @ '':CourseOfAction-'' @ cluster_uuid c) \<and>
         set (suggested_coas i) \<subseteq> set (suggested_coas i') \<and>
         cluster_uuid ` set cs \<subseteq> fst ` set (courses_of_action p')"
  using assms
proof (induction cs arbitrary: i p)
  case Nil
  then show ?case by auto
next
  case (Cons c cs)
  show ?case
  proof (cases "dict_get (courses_of_action p) (cluster_uuid c)")
    case (Some cached)
    let ?r = "create_related_coa (coa_id cached) (galaxy_name g)"
    let ?i1 = "i\<lparr>suggested_coas := suggested_coas i @ [?r]\<rparr>"
    from Some Cons.prems have run:
      "parse_course_of_action_attribute_galaxy_loop g cs ?i1 p = (Inr i', p')" by simp
    from Some Cons.prems(3) have
      rid: "rcoa_idref ?r = namespace p @ '':CourseOfAction-'' @ cluster_uuid c"
      by (auto simp: create_related_coa_def dest: dict_get_SomeD)
    from Cons.IH [OF run Cons.prems(2,3)] have
      res: "\<forall>c \<in> set cs. \<exists>r \<in> set (suggested_coas i').
              rcoa_idref r = namespace p @ '':CourseOfAction-'' @ cluster_uuid c"
        "set (suggested_coas ?i1) \<subseteq> set (suggested_coas i')"
        "cluster_uuid ` set cs \<subseteq> fst ` set (courses_of_action p')" by auto
    from coa_attribute_loop_cache [OF run Cons.prems(2,3)] Some
    have "dict_get (courses_of_action p') (cluster_uuid c) = Some cached" by blast
    then have here: "cluster_uuid c \<in> fst ` set (courses_of_action p')"
      by (force dest: dict_get_SomeD)
    from res(2) have "?r \<in> set (suggested_coas i')" "set (suggested_coas i) \<subseteq> set (suggested_coas i')"
      by auto
    with rid res(1,3) here show ?thesis by auto
  next
    case None
    from None Cons.prems(1) obtain coa where
      coa: "create_course_of_action_from_galaxy p c = Inr coa"
      by (cases "create_course_of_action_from_galaxy p c") auto
    let ?r = "create_related_coa (coa_id coa) (galaxy_name g)"
    let ?i1 = "i\<lparr>suggested_coas := suggested_coas i @ [?r]\<rparr>"
    let ?p1 = "p\<lparr>courses_of_action := dict_set (cluster_uuid c) coa (courses_of_action p)\<rparr>"
    note cid = create_course_of_action_from_galaxy_id [OF coa]
    then have rid: "rcoa_idref ?r = namespace p @ '':CourseOfAction-'' @ cluster_uuid c"
      by (simp add: create_related_coa_def)
    from None coa Cons.prems have run:
      "parse_course_of_action_attribute_galaxy_loop g cs ?i1 ?p1 = (Inr i', p')" by simp
    have d1: "distinct (map fst (courses_of_action ?p1))"
      using Cons.prems(2) by (simp add: distinct_dict_set)
    have i1: "\<forall>(u, c) \<in> set (courses_of_action ?p1).
                coa_id c = namespace ?p1 @ '':CourseOfAction-'' @ u"
      using Cons.prems(3) cid set_dict_set_subset [of "cluster_uuid c" coa "courses_of_action p"]
      by auto
    from Cons.IH [OF run d1 i1] have
      res: "\<forall>c \<in> set cs. \<exists>r \<in> set (suggested_coas i').
              rcoa_idref r = namespace p @ '':CourseOfAction-'' @ cluster_uuid c"
        "set (suggested_coas ?i1) \<subseteq> set (suggested_coas i')"
        "cluster_uuid ` set cs \<subseteq> fst ` set (courses_of_action p')" by auto
    have "dict_get (courses_of_action ?p1) (cluster_uuid c) = Some coa"
      by (simp add: dict_get_dict_set)
    with coa_attribute_loop_cache [OF run d1 i1]
    have "dict_get (courses_of_action p') (cluster_uuid c) = Some coa" by blast
    then have here: "cluster_uuid c \<in> fst ` set (courses_of_action p')"
      by (force dest: dict_get_SomeD)
    from res(2) have "?r \<in> set (suggested_coas i')" "set (suggested_coas i) \<subseteq> set (suggested_coas i')"
      by auto
    with rid res(1,3) here show ?thesis by auto
  qed
qed

subsection \<open>The caches through the methods of attribute scope\<close>

lemma parse_ttp_attribute_galaxy_wf:
  assumes "parse_ttp_attribute_galaxy f g i p = (r, p')" and "caches_wf p"
  shows "caches_wf p' \<and>
         (\<forall>u t. dict_get (ttps p) u = Some t \<longrightarrow> dict_get (ttps p') u = Some t) \<and>
         courses_of_action p' = courses_of_action p"
proof -
  obtain r0 p0 where run: "get_related_ttps_loop f g (GalaxyCluster g) [] p = (r0, p0)"
    by (cases "get_related_ttps_loop f g (GalaxyCluster g) [] p")
  with assms(1) have p0: "p' = p0"
    by (auto simp: parse_ttp_attribute_galaxy_def get_related_ttps_def split: sum.splits)
  from get_related_ttps_loop_frame [OF run] obtain T where T: "p0 = p\<lparr>ttps := T\<rparr>" ..
  from assms(2) have d: "distinct (map fst (ttps p))"
    and ids: "\<forall>(u, t) \<in> set (ttps p). ttp_id t = namespace p @ '':TTP-'' @ u"
    by (auto simp: caches_wf_def)
  from get_related_ttps_loop_cache [OF run d ids] p0 T assms(2) show ?thesis
    by (auto simp: caches_wf_def)
qed

lemma parse_ttp_attribute_galaxy_related:
  assumes "parse_ttp_attribute_galaxy f g i p = (Inr i', p')" and "caches_wf p"
  shows "(\<forall>c \<in> set (GalaxyCluster g). \<exists>r \<in> set (indicated_ttps i').
            rttp_idref r = namespace p @ '':TTP-'' @ cluster_uuid c) \<and>
         cluster_uuid ` set (GalaxyCluster g) \<subseteq> fst ` set (ttps p')"
proof -
  from assms(1) obtain rel where
    run: "get_related_ttps_loop f g (GalaxyCluster g) [] p = (Inr rel, p')"
    and i': "i' = i\<lparr>indicated_ttps := indicated_ttps i @ dict_values rel\<rparr>"
    by (auto simp: parse_ttp_attribute_galaxy_def get_related_ttps_def
        split: sum.splits prod.splits)
  from assms(2) have d: "distinct (map fst (ttps p))"
    and ids: "\<forall>(u, t) \<in> set (ttps p). ttp_id t = namespace p @ '':TTP-'' @ u"
    by (auto simp: caches_wf_def)
  have "\<forall>(u, r) \<in> set []. rttp_idref r = namespace p @ '':TTP-'' @ u" by simp
  from get_related_ttps_loop_related [OF run d ids this] have
    res: "\<forall>(u, r) \<in> set rel. rttp_idref r = namespace p @ '':TTP-'' @ u"
      "cluster_uuid ` set (GalaxyCluster g) \<subseteq> fst ` set rel"
      "cluster_uuid ` set (GalaxyCluster g) \<subseteq> fst ` set (ttps p')" by auto
  have "\<exists>r \<in> set (indicated_ttps i'). rttp_idref r = namespace p @ '':TTP-'' @ cluster_uuid c"
    if "c \<in> set (GalaxyCluster g)" for c
  proof -
    from that res(2) obtain r where "(cluster_uuid c, r) \<in> set rel" by force
    with res(1) i' show ?thesis by (force simp: dict_values_def)
  qed
  with res(3) show ?thesis by blast
qed

lemma parse_course_of_action_attribute_galaxy_wf:
  assumes "parse_course_of_action_attribute_galaxy g i p = (r, p')" and "caches_wf p"
  shows "caches_wf p' \<and> ttps p' = ttps p \<and>
         (\<forall>u c. dict_get (courses_of_action p) u = Some c \<longrightarrow>
                dict_get (courses_of_action p') u = Some c)"
proof -
  from assms(1) have run:
    "parse_course_of_action_attribute_galaxy_loop g (GalaxyCluster g) i p = (r, p')"
    by (simp add: parse_course_of_action_attribute_galaxy_def)
  from coa_attribute_loop_frame [OF run] obtain C where C: "p' = p\<lparr>courses_of_action := C\<rparr>" ..
  from assms(2) have d: "distinct (map fst (courses_of_action p))"
    and ids: "\<forall>(u, c) \<in> set (courses_of_action p).
                coa_id c = namespace p @ '':CourseOfAction-'' @ u"
    by (auto simp: caches_wf_def)
  from coa_attribute_loop_cache [OF run d ids] C assms(2) show ?thesis
    by (auto simp: caches_wf_def)
qed

lemma getattr_attribute_galaxy_wf:
  assumes "getattr_attribute_galaxy name g i p = (r, p')" and "caches_wf p"
  shows "caches_wf p' \<and>
         (\<forall>u t. dict_get (ttps p) u = Some t \<longrightarrow> dict_get (ttps p') u = Some t) \<and>
         (\<forall>u c. dict_get (courses_of_action p) u = Some c \<longrightarrow>
                dict_get (courses_of_action p') u = Some c)"
proof -
  consider (ttp) f where "getattr_attribute_galaxy name = parse_ttp_attribute_galaxy f"
    | (coa) "getattr_attribute_galaxy name = parse_course_of_action_attribute_galaxy"
    | (raise) e where "getattr_attribute_galaxy name = (\<lambda>g i p. (Inl e, p))"
    using getattr_attribute_galaxy_cases [of name] by blast
  then show ?thesis
  proof cases
    case ttp
    with assms(1) have "parse_ttp_attribute_galaxy f g i p = (r, p')" by simp
    from parse_ttp_attribute_galaxy_wf [OF this assms(2)] show ?thesis by simp
  next
    case coa
    with assms(1) have "parse_course_of_action_attribute_galaxy g i p = (r, p')" by simp
    from parse_course_of_action_attribute_galaxy_wf [OF this assms(2)] show ?thesis by simp
  next
    case raise
    with assms show ?thesis by simp
  qed
qed

lemma caches_wf_warnings [simp]: "caches_wf (p\<lparr>warnings := W\<rparr>) = caches_wf p"
  by (simp add: caches_wf_def)

lemma caches_wf_incident [simp]: "caches_wf (p\<lparr>the_incident := i\<rparr>) = caches_wf p"
  by (simp add: caches_wf_def)

lemma attribute_galaxies_loop_wf:
  assumes "attribute_galaxies_loop M a gs i tn p = (r, p')" and "caches_wf p"
  shows "caches_wf p' \<and>
         (\<forall>u t. dict_get (ttps p) u = Some t \<longrightarrow> dict_get (ttps p') u = Some t) \<and>
         (\<forall>u c. dict_get (courses_of_action p) u = Some c \<longrightarrow>
                dict_get (courses_of_action p') u = Some c)"
  using assms
proof (induction gs arbitrary: i tn p)
  case Nil
  then show ?case by auto
next
  case (Cons g gs)
  show ?case
  proof (cases "galaxy_types_mapping M (galaxy_type g)")
    case None
    let ?p1 = "p\<lparr>warnings := insert (galaxy_type g @ '' galaxy in '' @ attr_type a @
                 '' attribute not mapped.'') (warnings p)\<rparr>"
    from None Cons.prems have run: "attribute_galaxies_loop M a gs i tn ?p1 = (r, p')" by simp
    from Cons.prems(2) have "caches_wf ?p1" by simp
    from Cons.IH [OF run this] show ?thesis by simp
  next
    case (Some tc)
    obtain r1 p1 where call:
      "getattr_attribute_galaxy (format_to_call tc ''attribute'') g i p = (r1, p1)"
      by (cases "getattr_attribute_galaxy (format_to_call tc ''attribute'') g i p")
    note step = getattr_attribute_galaxy_wf [OF call Cons.prems(2)]
    show ?thesis
    proof (cases r1)
      case (Inl e)
      with Some call Cons.prems have "p' = p1" by simp
      with step show ?thesis by simp
    next
      case (Inr i1)
      with Some call Cons.prems have
        "attribute_galaxies_loop M a gs i1 (tn @ quick_fetch_tag_names g) p1 = (r, p')" by simp
      from Cons.IH [OF this] step show ?thesis by blast
    qed
  qed
qed

lemma getattr_attribute_galaxy_ttp_names:
  assumes "name \<in> {''_parse_attack_pattern_attribute_galaxy'', ''_parse_malware_attribute_galaxy'',
                    ''_parse_tool_attribute_galaxy'', ''_parse_vulnerability_attribute_galaxy''}"
  shows "\<exists>f. getattr_attribute_galaxy name = parse_ttp_attribute_galaxy f"
proof -
  have "getattr_attribute_galaxy ''_parse_attack_pattern_attribute_galaxy'' =
          parse_ttp_attribute_galaxy F_attack_pattern"
    "getattr_attribute_galaxy ''_parse_malware_attribute_galaxy'' =
          parse_ttp_attribute_galaxy F_malware"
    "getattr_attribute_galaxy ''_parse_tool_attribute_galaxy'' =
          parse_ttp_attribute_galaxy F_tool"
    "getattr_attribute_galaxy ''_parse_vulnerability_attribute_galaxy'' =
          parse_ttp_attribute_galaxy F_vulnerability"
    by (simp_all add: getattr_attribute_galaxy_def)
  with assms show ?thesis by blast
qed

lemma getattr_attribute_galaxy_coa_name:
  "getattr_attribute_galaxy ''_parse_course_of_action_attribute_galaxy'' =
     parse_course_of_action_attribute_galaxy"
  by (simp add: getattr_attribute_galaxy_def)

lemma attribute_galaxies_loop_related:
  assumes "attribute_galaxies_loop M a gs i tn p = (Inr (i', tn'), p')" and "caches_wf p"
    and "g \<in> set gs" and "galaxy_types_mapping M (galaxy_type g) = Some tc"
  shows "(format_to_call tc ''attribute'' \<in>
            {''_parse_attack_pattern_attribute_galaxy'', ''_parse_malware_attribute_galaxy'',
             ''_parse_tool_attribute_galaxy'', ''_parse_vulnerability_attribute_galaxy''} \<longrightarrow>
          (\<forall>c \<in> set (GalaxyCluster g).
             (\<exists>r \<in> set (indicated_ttps i').
                rttp_idref r = namespace p @ '':TTP-'' @ cluster_uuid c) \<and>
             cluster_uuid c \<in> fst ` set (ttps p'))) \<and>
         (format_to_call tc ''attribute'' = ''_parse_course_of_action_attribute_galaxy'' \<longrightarrow>
          (\<forall>c \<in> set (GalaxyCluster g).
             (\<exists>r \<in> set (suggested_coas i').
                rcoa_idref r = namespace p @ '':CourseOfAction-'' @ cluster_uuid c) \<and>
             cluster_uuid c \<in> fst ` set (courses_of_action p')))"
  using assms(1,2,3)
proof (induction gs arbitrary: i tn p)
  case Nil
  then show ?case by simp
next
  case (Cons g0 gs)
  have step: "\<exists>i1 p1 tn1. attribute_galaxies_loop M a gs i1 tn1 p1 = (Inr (i', tn'), p') \<and>
      caches_wf p1 \<and> namespace p1 = namespace p \<and>
      (g0 = g \<longrightarrow>
         (format_to_call tc ''attribute'' \<in>
            {''_parse_attack_pattern_attribute_galaxy'', ''_parse_malware_attribute_galaxy'',
             ''_parse_tool_attribute_galaxy'', ''_parse_vulnerability_attribute_galaxy''} \<longrightarrow>
          (\<forall>c \<in> set (GalaxyCluster g).
             (\<exists>r \<in> set (indicated_ttps i1).
                rttp_idref r = namespace p @ '':TTP-'' @ cluster_uuid c) \<and>
             cluster_uuid c \<in> fst ` set (ttps p1))) \<and>
         (format_to_call tc ''attribute'' = ''_parse_course_of_action_attribute_galaxy'' \<longrightarrow>
          (\<forall>c \<in> set (GalaxyCluster g).
             (\<exists>r \<in> set (suggested_coas i1).
                rcoa_idref r = namespace p @ '':CourseOfAction-'' @ cluster_uuid c) \<and>
             cluster_uuid c \<in> fst ` set (courses_of_action p1))))"
  proof (cases "galaxy_types_mapping M (galaxy_type g0)")
    case None
    let ?p1 = "p\<lparr>warnings := insert (galaxy_type g0 @ '' galaxy in '' @ attr_type a @
                 '' attribute not mapped.'') (warnings p)\<rparr>"
    from None Cons.prems have "attribute_galaxies_loop M a gs i tn ?p1 = (Inr (i', tn'), p')"
      by simp
    moreover from Cons.prems(2) have "caches_wf ?p1" by simp
    moreover from None assms(4) have "g0 \<noteq> g" by auto
    ultimately show ?thesis by (intro exI [of _ i] exI [of _ ?p1] exI [of _ tn]) simp
  next
    case (Some tc0)
    obtain r1 p1 where call:
      "getattr_attribute_galaxy (format_to_call tc0 ''attribute'') g0 i p = (r1, p1)"
      by (cases "getattr_attribute_galaxy (format_to_call tc0 ''attribute'') g0 i p")
    with Some Cons.prems(1) obtain i1 where r1: "r1 = Inr i1" by (cases r1) auto
    from Some call r1 Cons.prems(1) have rest:
      "attribute_galaxies_loop M a gs i1 (tn @ quick_fetch_tag_names g0) p1 = (Inr (i', tn'), p')"
      by simp
    note wf1 = getattr_attribute_galaxy_wf [OF call Cons.prems(2)]
    from getattr_attribute_galaxy_frame [OF call] have ns: "namespace p1 = namespace p" by auto
    have here: "(format_to_call tc ''attribute'' \<in>
            {''_parse_attack_pattern_attribute_galaxy'', ''_parse_malware_attribute_galaxy'',
             ''_parse_tool_attribute_galaxy'', ''_parse_vulnerability_attribute_galaxy''} \<longrightarrow>
          (\<forall>c \<in> set (GalaxyCluster g).
             (\<exists>r \<in> set (indicated_ttps i1).
                rttp_idref r = namespace p @ '':TTP-'' @ cluster_uuid c) \<and>
             cluster_uuid c \<in> fst ` set (ttps p1))) \<and>
         (format_to_call tc ''attribute'' = ''_parse_course_of_action_attribute_galaxy'' \<longrightarrow>
          (\<forall>c \<in> set (GalaxyCluster g).
             (\<exists>r \<in> set (suggested_coas i1).
                rcoa_idref r = namespace p @ '':CourseOfAction-'' @ cluster_uuid c) \<and>
             cluster_uuid c \<in> fst ` set (courses_of_action p1)))" if same: "g0 = g"
    proof (intro conjI impI)
      assume "format_to_call tc ''attribute'' \<in>
            {''_parse_attack_pattern_attribute_galaxy'', ''_parse_malware_attribute_galaxy'',
             ''_parse_tool_attribute_galaxy'', ''_parse_vulnerability_attribute_galaxy''}"
      from getattr_attribute_galaxy_ttp_names [OF this] obtain f where
        "getattr_attribute_galaxy (format_to_call tc ''attribute'') = parse_ttp_attribute_galaxy f" ..
      with call r1 same Some assms(4) have "parse_ttp_attribute_galaxy f g i p = (Inr i1, p1)"
        by simp
      from parse_ttp_attribute_galaxy_related [OF this Cons.prems(2)]
      show "\<forall>c \<in> set (GalaxyCluster g).
             (\<exists>r \<in> set (indicated_ttps i1).
                rttp_idref r = namespace p @ '':TTP-'' @ cluster_uuid c) \<and>
             cluster_uuid c \<in> fst ` set (ttps p1)" by blast
    next
      assume "format_to_call tc ''attribute'' = ''_parse_course_of_action_attribute_galaxy''"
      with call r1 same Some assms(4) have
        "parse_course_of_action_attribute_galaxy_loop g (GalaxyCluster g) i p = (Inr i1, p1)"
        by (simp add: getattr_attribute_galaxy_coa_name parse_course_of_action_attribute_galaxy_def)
      moreover from Cons.prems(2) have "distinct (map fst (courses_of_action p))"
        "\<forall>(u, c) \<in> set (courses_of_action p). coa_id c = namespace p @ '':CourseOfAction-'' @ u"
        by (auto simp: caches_wf_def)
      ultimately show "\<forall>c \<in> set (GalaxyCluster g).
             (\<exists>r \<in> set (suggested_coas i1).
                rcoa_idref r = namespace p @ '':CourseOfAction-'' @ cluster_uuid c) \<and>
             cluster_uuid c \<in> fst ` set (courses_of_action p1)"
        using coa_attribute_loop_related [of g "GalaxyCluster g" i p i1 p1] by blast
    qed
    from rest wf1 ns here show ?thesis by blast
  qed
  then obtain i1 p1 tn1 where
    rest: "attribute_galaxies_loop M a gs i1 tn1 p1 = (Inr (i', tn'), p')"
    and wf1: "caches_wf p1" and ns: "namespace p1 = namespace p"
    and head: "g0 = g \<longrightarrow>
         (format_to_call tc ''attribute'' \<in>
            {''_parse_attack_pattern_attribute_galaxy'', ''_parse_malware_attribute_galaxy'',
             ''_parse_tool_attribute_galaxy'', ''_parse_vulnerability_attribute_galaxy''} \<longrightarrow>
          (\<forall>c \<in> set (GalaxyCluster g).
             (\<exists>r \<in> set (indicated_ttps i1).
                rttp_idref r = namespace p @ '':TTP-'' @ cluster_uuid c) \<and>
             cluster_uuid c \<in> fst ` set (ttps p1))) \<and>
         (format_to_call tc ''attribute'' = ''_parse_course_of_action_attribute_galaxy'' \<longrightarrow>
          (\<forall>c \<in> set (GalaxyCluster g).
             (\<exists>r \<in> set (suggested_coas i1).
                rcoa_idref r = namespace p @ '':CourseOfAction-'' @ cluster_uuid c) \<and>
             cluster_uuid c \<in> fst ` set (courses_of_action p1)))"
    by blast
  show ?case
  proof (cases "g0 = g")
    case False
    with Cons.prems(3) have "g \<in> set gs" by simp
    from Cons.IH [OF rest wf1 this] ns show ?thesis by simp
  next
    case True
    from attribute_galaxies_loop_indicator [OF rest] obtain X Y where
      i': "i' = i1\<lparr>indicated_ttps := indicated_ttps i1 @ X,
                   suggested_coas := suggested_coas i1 @ Y\<rparr>" by blast
    note kept = attribute_galaxies_loop_wf [OF rest wf1]
    have keep_t: "u \<in> fst ` set (ttps p')" if "u \<in> fst ` set (ttps p1)" for u
    proof -
      from that obtain t where "dict_get (ttps p1) u = Some t"
        by (cases "dict_get (ttps p1) u") (auto simp: dict_get_None_iff)
      with kept have "dict_get (ttps p') u = Some t" by blast
      then show ?thesis by (force dest: dict_get_SomeD)
    qed
    have keep_c: "u \<in> fst ` set (courses_of_action p')"
      if "u \<in> fst ` set (courses_of_action p1)" for u
    proof -
      from that obtain c where "dict_get (courses_of_action p1) u = Some c"
        by (cases "dict_get (courses_of_action p1) u") (auto simp: dict_get_None_iff)
      with kept have "dict_get (courses_of_action p') u = Some c" by blast
      then show ?thesis by (force dest: dict_get_SomeD)
    qed
    from True head i' keep_t keep_c show ?thesis by auto
  qed
qed

lemma handle_attribute_tags_and_galaxies_wf:
  assumes "handle_attribute_tags_and_galaxies M a i p = (r, p')" and "caches_wf p"
  shows "caches_wf p' \<and>
         (\<forall>u t. dict_get (ttps p) u = Some t \<longrightarrow> dict_get (ttps p') u = Some t) \<and>
         (\<forall>u c. dict_get (courses_of_action p) u = Some c \<longrightarrow>
                dict_get (courses_of_action p') u = Some c)"
proof (cases "attr_Galaxy a = []")
  case True
  with assms show ?thesis by (simp add: handle_attribute_tags_and_galaxies_def)
next
  case False
  obtain r1 p1 where loop: "attribute_galaxies_loop M a (attr_Galaxy a) i [] p = (r1, p1)"
    by (cases "attribute_galaxies_loop M a (attr_Galaxy a) i [] p")
  with False assms(1) have "p' = p1"
    by (auto simp: handle_attribute_tags_and_galaxies_def split: sum.splits prod.splits)
  with attribute_galaxies_loop_wf [OF loop assms(2)] show ?thesis by simp
qed

lemma handle_attribute_to_ids_cases:
  assumes "handle_attribute M a obs p = (r, p')" and "attr_to_ids a"
  obtains
    (no_indicator) "p' = p" and "\<exists>e. r = Inl e"
  | (raises) i0 r1 where "handle_attribute_tags_and_galaxies M a i0 p = (r1, p')"
      and "\<exists>e. r = Inl e"
  | (returns) i0 tags i1 p1 ind where
      "handle_attribute_tags_and_galaxies M a i0 p = (Inr (tags, i1), p1)"
      and "p' = append_related_indicator ind (Some (attr_category a)) p1"
      and "indicated_ttps ind = indicated_ttps i1" and "suggested_coas ind = suggested_coas i1"
      and "r = Inr ()"
proof (cases "create_indicator_from_attribute p a")
  case (Inl e)
  with assms have "p' = p" "r = Inl e" by (auto simp: handle_attribute_def)
  with no_indicator show ?thesis by blast
next
  case (Inr i0)
  let ?i0 = "i0\<lparr>indicator_types := [set_indicator_type M (attr_type a)],
                 indicator_observables := [obs]\<rparr>"
  obtain r1 p1 where call: "handle_attribute_tags_and_galaxies M a ?i0 p = (r1, p1)"
    by (cases "handle_attribute_tags_and_galaxies M a ?i0 p")
  show ?thesis
  proof (cases r1)
    case (Inl e)
    with Inr call assms have "p' = p1" "r = Inl e" by (auto simp: handle_attribute_def)
    with call raises show ?thesis by blast
  next
    case r1: (Inr ti)
    obtain tags i1 where ti: "ti = (tags, i1)" by (cases ti)
    show ?thesis
    proof (cases "tags = []")
      case True
      with Inr call r1 ti assms have
        "p' = append_related_indicator i1 (Some (attr_category a)) p1" "r = Inr ()"
        by (auto simp: handle_attribute_def)
      with call r1 ti returns [of ?i0 tags i1 p1 i1] show ?thesis by simp
    next
      case False
      show ?thesis
      proof (cases "set_handling (TLP_order M) tags")
        case (Inl e)
        with False Inr call r1 ti assms have "p' = p1" "r = Inl e"
          by (auto simp: handle_attribute_def)
        with call raises show ?thesis by blast
      next
        case h: (Inr handling)
        with False Inr call r1 ti assms have
          "p' = append_related_indicator (i1\<lparr>indicator_handling := Some handling\<rparr>)
                  (Some (attr_category a)) p1" "r = Inr ()"
          by (auto simp: handle_attribute_def)
        with call r1 ti returns [of ?i0 tags i1 p1 "i1\<lparr>indicator_handling := Some handling\<rparr>"]
        show ?thesis by simp
      qed
    qed
  qed
qed

lemma caches_wf_append_related_indicator [simp]:
  "caches_wf (append_related_indicator i c p) = caches_wf p"
  by (simp add: append_related_indicator_def)

lemma caches_wf_append_related_observable [simp]:
  "caches_wf (append_related_observable i c p) = caches_wf p"
  by (simp add: append_related_observable_def)

lemma handle_attribute_wf:
  assumes "handle_attribute M a obs p = (r, p')" and "caches_wf p"
  shows "caches_wf p' \<and>
         (\<forall>u t. dict_get (ttps p) u = Some t \<longrightarrow> dict_get (ttps p') u = Some t) \<and>
         (\<forall>u c. dict_get (courses_of_action p) u = Some c \<longrightarrow>
                dict_get (courses_of_action p') u = Some c)"
proof (cases "attr_to_ids a")
  case False
  with assms show ?thesis
    by (auto simp: handle_attribute_def append_related_observable_def)
next
  case True
  from assms(1) True show ?thesis
  proof (cases rule: handle_attribute_to_ids_cases)
    case no_indicator
    with assms(2) show ?thesis by simp
  next
    case (raises i0 r1)
    from handle_attribute_tags_and_galaxies_wf [OF raises(1) assms(2)] show ?thesis .
  next
    case (returns i0 tags i1 p1 ind)
    from handle_attribute_tags_and_galaxies_wf [OF returns(1) assms(2)] returns(2)
    show ?thesis by (simp add: append_related_indicator_def)
  qed
qed

lemma unique_descriptor:
  assumes "distinct (map fst d)" and "\<forall>(u, t) \<in> set d. ident t = pre @ u"
    and "k \<in> fst ` set d"
  shows "length (filter (\<lambda>t. ident t = pre @ k) (dict_values d)) = 1"
  using assms
proof (induction d)
  case Nil
  then show ?case by simp
next
  case (Cons ut d)
  obtain u t where ut: "ut = (u, t)" by (cases ut)
  show ?case
  proof (cases "u = k")
    case True
    have "filter (\<lambda>t. ident t = pre @ k) (dict_values d) = []"
    proof -
      have "ident t' \<noteq> pre @ k" if "t' \<in> set (dict_values d)" for t'
      proof -
        from that obtain u' where in_d: "(u', t') \<in> set d" by (auto simp: dict_values_def)
        with Cons.prems(1) ut True have "u' \<noteq> k" by force
        with Cons.prems(2) in_d show ?thesis by auto
      qed
      then show ?thesis by (simp add: filter_empty_conv)
    qed
    with Cons.prems(2) ut True show ?thesis by (simp add: dict_values_def)
  next
    case False
    with Cons.prems ut have "length (filter (\<lambda>t. ident t = pre @ k) (dict_values d)) = 1"
      by (intro Cons.IH) auto
    with Cons.prems(2) ut False show ?thesis by (simp add: dict_values_def)
  qed
qed

subsection \<open>One descriptor for a cluster\<close>

text \<open>
  Claim C8, as stated, at an event with two attributes that carry the same galaxy
  cluster and do not ask for detection: \<open>_handle_attribute\<close> reads the galaxies of an
  attribute in its \<open>to_ids\<close> branch only. The event is parsed without an error, the two
  attributes are two related observables, and the package holds no descriptor for the
  cluster, nor is there an indicator to carry a relationship.
\<close>

theorem cluster_descriptor_counterexample:
  "galaxy1 \<in> set (attr_Galaxy attribute3) \<and>
   galaxy1 \<in> set (attr_Galaxy (attribute3\<lparr>attr_uuid := ''a6''\<rparr>)) \<and>
   cluster1 \<in> set (GalaxyCluster galaxy1) \<and>
   fst (parse_misp_event mapping0
          (event0\<lparr>ev_Attribute := [attribute3, attribute3\<lparr>attr_uuid := ''a6''\<rparr>]\<rparr>) ''1.2''
          (init_stix1 ''ns'' ''ORG'')) = Inr () \<and>
   errors (snd (parse_misp_event mapping0
          (event0\<lparr>ev_Attribute := [attribute3, attribute3\<lparr>attr_uuid := ''a6''\<rparr>]\<rparr>) ''1.2''
          (init_stix1 ''ns'' ''ORG''))) = [] \<and>
   package_ttps (stix_package (snd (parse_misp_event mapping0
          (event0\<lparr>ev_Attribute := [attribute3, attribute3\<lparr>attr_uuid := ''a6''\<rparr>]\<rparr>) ''1.2''
          (init_stix1 ''ns'' ''ORG'')))) = [] \<and>
   related_indicators (the_incident (snd (parse_misp_event mapping0
          (event0\<lparr>ev_Attribute := [attribute3, attribute3\<lparr>attr_uuid := ''a6''\<rparr>]\<rparr>) ''1.2''
          (init_stix1 ''ns'' ''ORG'')))) = [] \<and>
   map (observable_id \<circ> fst) (related_observables (the_incident (snd (parse_misp_event mapping0
          (event0\<lparr>ev_Attribute := [attribute3, attribute3\<lparr>attr_uuid := ''a6''\<rparr>]\<rparr>) ''1.2''
          (init_stix1 ''ns'' ''ORG''))))) = [''ns:Observable-a3'', ''ns:Observable-a6'']"
  by code_simp

text \<open>
  Claim C8, amended. Let the caches be well formed (one entry for a UUID, identifiers
  made of namespace, kind and UUID; true of a new parser and kept by every method
  modelled here), and let \<open>_handle_attribute\<close> return for an attribute with \<open>to_ids\<close>
  that has a cluster in a galaxy of a mapped type. Then the caches are well formed
  again and every entry cached before is still cached, unchanged. One indicator has
  been appended to the related indicators of the incident. When the galaxy type maps to
  one of the four TTP methods, that indicator has an indicated TTP whose \<open>idref\<close> is
  \<open>NAMESPACE:TTP-UUID\<close> for the UUID of the cluster, and exactly one value of \<open>self.ttps\<close>
  has that identifier; when it maps to the course-of-action method, the same holds for
  the suggested courses of action, \<open>self.courses_of_action\<close> and
  \<open>NAMESPACE:CourseOfAction-UUID\<close>. The package is given the values of the two caches.
  So two such attributes reference one and the same descriptor, and the package holds
  it once. Attributes without \<open>to_ids\<close> carry no relationship, and no threat-actor
  method takes the arguments of attribute scope.
\<close>

theorem cluster_descriptor_dedup:
  assumes "caches_wf p"
    and "handle_attribute M attribute observable' p = (Inr (), p')"
    and "attr_to_ids attribute"
    and "galaxy' \<in> set (attr_Galaxy attribute)"
    and "cluster \<in> set (GalaxyCluster galaxy')"
    and "galaxy_types_mapping M (galaxy_type galaxy') = Some to_call'"
  shows "caches_wf p' \<and>
     (\<forall>u t. dict_get (ttps p) u = Some t \<longrightarrow> dict_get (ttps p') u = Some t) \<and>
     (\<forall>u c. dict_get (courses_of_action p) u = Some c \<longrightarrow>
            dict_get (courses_of_action p') u = Some c) \<and>
     (\<exists>ind. related_indicators (the_incident p') =
              related_indicators (the_incident p) @ [(ind, Some (attr_category attribute))] \<and>
        (format_to_call to_call' ''attribute'' \<in>
            {''_parse_attack_pattern_attribute_galaxy'', ''_parse_malware_attribute_galaxy'',
             ''_parse_tool_attribute_galaxy'', ''_parse_vulnerability_attribute_galaxy''} \<longrightarrow>
           (\<exists>r \<in> set (indicated_ttps ind).
              rttp_idref r = namespace p @ '':TTP-'' @ cluster_uuid cluster) \<and>
           length (filter (\<lambda>t. ttp_id t = namespace p @ '':TTP-'' @ cluster_uuid cluster)
                     (dict_values (ttps p'))) = 1) \<and>
        (format_to_call to_call' ''attribute'' = ''_parse_course_of_action_attribute_galaxy'' \<longrightarrow>
           (\<exists>r \<in> set (suggested_coas ind).
              rcoa_idref r = namespace p @ '':CourseOfAction-'' @ cluster_uuid cluster) \<and>
           length (filter (\<lambda>c. coa_id c =
                       namespace p @ '':CourseOfAction-'' @ cluster_uuid cluster)
                     (dict_values (courses_of_action p'))) = 1)) \<and>
     package_ttps (stix_package (assemble_package p')) =
       package_ttps (stix_package p') @ dict_values (ttps p') \<and>
     package_courses_of_action (stix_package (assemble_package p')) =
       package_courses_of_action (stix_package p') @ dict_values (courses_of_action p')"
proof -
  note wf = handle_attribute_wf [OF assms(2,1)]
  then have wf': "caches_wf p'" by simp
  from assms(2,3) obtain i0 tags i1 p1 ind where
    call: "handle_attribute_tags_and_galaxies M attribute i0 p = (Inr (tags, i1), p1)"
    and p': "p' = append_related_indicator ind (Some (attr_category attribute)) p1"
    and ind: "indicated_ttps ind = indicated_ttps i1" "suggested_coas ind = suggested_coas i1"
    by (cases rule: handle_attribute_to_ids_cases) auto
  from handle_attribute_tags_and_galaxies_frame [OF call] obtain W C T where
    p1: "p1 = p\<lparr>warnings := W, courses_of_action := C, ttps := T\<rparr>" by blast
  from assms(4) have "attr_Galaxy attribute \<noteq> []" by auto
  with call obtain tn where
    loop: "attribute_galaxies_loop M attribute (attr_Galaxy attribute) i0 [] p = (Inr (i1, tn), p1)"
    by (auto simp: handle_attribute_tags_and_galaxies_def split: sum.splits prod.splits)
  note rel = attribute_galaxies_loop_related [OF loop assms(1,4,6)]
  from p' p1 have inc: "related_indicators (the_incident p') =
      related_indicators (the_incident p) @ [(ind, Some (attr_category attribute))]"
    by (simp add: append_related_indicator_def)
  from p' have caches: "ttps p' = ttps p1" "courses_of_action p' = courses_of_action p1"
    by (simp_all add: append_related_indicator_def)
  from p' p1 have ns: "namespace p' = namespace p" by (simp add: append_related_indicator_def)
  from wf' ns have d: "distinct (map fst (ttps p'))"
    "\<forall>(u, t) \<in> set (ttps p'). ttp_id t = (namespace p @ '':TTP-'') @ u"
    "distinct (map fst (courses_of_action p'))"
    "\<forall>(u, c) \<in> set (courses_of_action p'). coa_id c = (namespace p @ '':CourseOfAction-'') @ u"
    by (auto simp: caches_wf_def)
  have ttp: "(\<exists>r \<in> set (indicated_ttps ind).
              rttp_idref r = namespace p @ '':TTP-'' @ cluster_uuid cluster) \<and>
           length (filter (\<lambda>t. ttp_id t = namespace p @ '':TTP-'' @ cluster_uuid cluster)
                     (dict_values (ttps p'))) = 1"
    if "format_to_call to_call' ''attribute'' \<in>
            {''_parse_attack_pattern_attribute_galaxy'', ''_parse_malware_attribute_galaxy'',
             ''_parse_tool_attribute_galaxy'', ''_parse_vulnerability_attribute_galaxy''}"
  proof -
    from that rel assms(5) have
      r: "\<exists>r \<in> set (indicated_ttps i1). rttp_idref r = namespace p @ '':TTP-'' @ cluster_uuid cluster"
      and k: "cluster_uuid cluster \<in> fst ` set (ttps p1)" by blast+
    from unique_descriptor [OF d(1,2), of "cluster_uuid cluster"] k caches
    have "length (filter (\<lambda>t. ttp_id t = namespace p @ '':TTP-'' @ cluster_uuid cluster)
                     (dict_values (ttps p'))) = 1" by simp
    with r ind show ?thesis by simp
  qed
  have coa: "(\<exists>r \<in> set (suggested_coas ind).
              rcoa_idref r = namespace p @ '':CourseOfAction-'' @ cluster_uuid cluster) \<and>
           length (filter (\<lambda>c. coa_id c =
                       namespace p @ '':CourseOfAction-'' @ cluster_uuid cluster)
                     (dict_values (courses_of_action p'))) = 1"
    if "format_to_call to_call' ''attribute'' = ''_parse_course_of_action_attribute_galaxy''"
  proof -
    from that rel assms(5) have
      r: "\<exists>r \<in> set (suggested_coas i1).
            rcoa_idref r = namespace p @ '':CourseOfAction-'' @ cluster_uuid cluster"
      and k: "cluster_uuid cluster \<in> fst ` set (courses_of_action p1)" by blast+
    from unique_descriptor [OF d(3,4), of "cluster_uuid cluster"] k caches
    have "length (filter (\<lambda>c. coa_id c =
                       namespace p @ '':CourseOfAction-'' @ cluster_uuid cluster)
                     (dict_values (courses_of_action p'))) = 1" by simp
    with r ind show ?thesis by simp
  qed
  have pkg: "package_ttps (stix_package (assemble_package p')) =
       package_ttps (stix_package p') @ dict_values (ttps p')"
    "package_courses_of_action (stix_package (assemble_package p')) =
       package_courses_of_action (stix_package p') @ dict_values (courses_of_action p')"
    by (simp_all add: assemble_package_def stix_package_def Let_def)
  from wf inc ttp coa pkg show ?thesis by blast
qed

theorem cluster_descriptor_dedup_witness:
  "caches_wf parser0 \<and>
   fst (handle_attribute mapping0 attribute4
          (create_observable parser0
             (Custom \<lparr>custom_name = None, custom_description = None,
                      custom_properties = [(''x-type'', ''v4'')]\<rparr>) ''a4'' ''Custom'')
          parser0) = Inr () \<and>
   attr_to_ids attribute4 \<and>
   galaxy1 \<in> set (attr_Galaxy attribute4) \<and>
   cluster1 \<in> set (GalaxyCluster galaxy1) \<and>
   galaxy_types_mapping mapping0 (galaxy_type galaxy1) =
     Some (Placeholder ''_parse_attack_pattern_'' ''_galaxy'') \<and>
   caches_wf (snd (handle_attribute mapping0 attribute4
          (create_observable parser0
             (Custom \<lparr>custom_name = None, custom_description = None,
                      custom_properties = [(''x-type'', ''v4'')]\<rparr>) ''a4'' ''Custom'')
          parser0)) \<and>
   length (filter (\<lambda>t. ttp_id t = ''ns:TTP-c1'')
             (dict_values (ttps (snd (handle_attribute mapping0 attribute4
                (create_observable parser0
                   (Custom \<lparr>custom_name = None, custom_description = None,
                            custom_properties = [(''x-type'', ''v4'')]\<rparr>) ''a4'' ''Custom'')
                parser0))))) = 1 \<and>
   map ttp_id (package_ttps (stix_package (snd (parse_misp_event mapping0
     (event0\<lparr>ev_Attribute := [attribute4, attribute5]\<rparr>) ''1.2'' (init_stix1 ''ns'' ''ORG''))))) =
     [''ns:TTP-c1''] \<and>
   map (map rttp_idref \<circ> indicated_ttps \<circ> fst) (related_indicators (the_incident
     (snd (parse_misp_event mapping0
        (event0\<lparr>ev_Attribute := [attribute4, attribute5]\<rparr>) ''1.2'' (init_stix1 ''ns'' ''ORG''))))) =
     [[''ns:TTP-c1''], [''ns:TTP-c1'']]"
proof -
  let ?obs = "create_observable parser0
             (Custom \<lparr>custom_name = None, custom_description = None,
                      custom_properties = [(''x-type'', ''v4'')]\<rparr>) ''a4'' ''Custom''"
  let ?p' = "snd (handle_attribute mapping0 attribute4 ?obs parser0)"
  have wf: "caches_wf parser0" by code_simp
  have returned: "fst (handle_attribute mapping0 attribute4 ?obs parser0) = Inr ()"
    by code_simp
  then have run: "handle_attribute mapping0 attribute4 ?obs parser0 = (Inr (), ?p')"
    by (metis prod.collapse)
  have ids: "attr_to_ids attribute4" by (simp add: attribute4_def)
  have g: "galaxy1 \<in> set (attr_Galaxy attribute4)" by (simp add: attribute4_def)
  have c: "cluster1 \<in> set (GalaxyCluster galaxy1)" by (simp add: galaxy1_def)
  have m: "galaxy_types_mapping mapping0 (galaxy_type galaxy1) =
     Some (Placeholder ''_parse_attack_pattern_'' ''_galaxy'')"
    by (simp add: mapping0_def galaxy1_def)
  have name: "format_to_call (Placeholder ''_parse_attack_pattern_'' ''_galaxy'') ''attribute'' \<in>
            {''_parse_attack_pattern_attribute_galaxy'', ''_parse_malware_attribute_galaxy'',
             ''_parse_tool_attribute_galaxy'', ''_parse_vulnerability_attribute_galaxy''}"
    by simp
  have ns: "namespace parser0 @ '':TTP-'' @ cluster_uuid cluster1 = ''ns:TTP-c1''"
    by code_simp
  note inst = cluster_descriptor_dedup [OF wf run ids g c m]
  from inst have wf': "caches_wf ?p'" by blast
  from inst name ns have one:
    "length (filter (\<lambda>t. ttp_id t = ''ns:TTP-c1'') (dict_values (ttps ?p'))) = 1"
    by auto
  have pkg: "map ttp_id (package_ttps (stix_package (snd (parse_misp_event mapping0
     (event0\<lparr>ev_Attribute := [attribute4, attribute5]\<rparr>) ''1.2'' (init_stix1 ''ns'' ''ORG''))))) =
     [''ns:TTP-c1'']"
    by code_simp
  have refs: "map (map rttp_idref \<circ> indicated_ttps \<circ> fst) (related_indicators (the_incident
     (snd (parse_misp_event mapping0
        (event0\<lparr>ev_Attribute := [attribute4, attribute5]\<rparr>) ''1.2'' (init_stix1 ''ns'' ''ORG''))))) =
     [[''ns:TTP-c1''], [''ns:TTP-c1'']]"
    by code_simp
  from wf returned ids g c m wf' one pkg refs show ?thesis by blast
qed

subsection \<open>A cluster cached by an earlier event\<close>

lemma get_related_ttps_loop_kept:
  "get_related_ttps_loop f g cs rel p = (r, p') \<Longrightarrow> dict_get (ttps p) u = Some t \<Longrightarrow>
     dict_get (ttps p') u = Some t"
proof (induction cs arbitrary: rel p)
  case Nil
  then show ?case by simp
next
  case (Cons c cs)
  show ?case
  proof (cases "dict_get (ttps p) (cluster_uuid c)")
    case (Some cached)
    with Cons show ?thesis by simp
  next
    case None
    with Cons.prems(2) have neq: "u \<noteq> cluster_uuid c" by auto
    show ?thesis
    proof (cases "parse_feature_galaxy f p c
                    (create_ttp_from_galaxy p (galaxy_name g) (cluster_uuid c))")
      case (Inl e)
      with None Cons.prems show ?thesis by simp
    next
      case (Inr t')
      with None Cons.prems(1) have run:
        "get_related_ttps_loop f g cs (dict_set (cluster_uuid c)
           (create_related_ttp (ttp_id t') (galaxy_name g)) rel)
           (p\<lparr>ttps := dict_set (cluster_uuid c) t' (ttps p)\<rparr>) = (r, p')" by simp
      from neq Cons.prems(2) have
        "dict_get (ttps (p\<lparr>ttps := dict_set (cluster_uuid c) t' (ttps p)\<rparr>)) u = Some t"
        by (simp add: dict_get_dict_set)
      from Cons.IH [OF run this] show ?thesis .
    qed
  qed
qed

lemma get_related_ttps_loop_cached:
  assumes "get_related_ttps_loop f g cs rel p = (Inr rel', p')"
    and "dict_get (ttps p) u = Some cached"
    and "u \<in> cluster_uuid ` set cs \<or>
         dict_get rel u = Some (create_related_ttp (ttp_id cached) (galaxy_name g))"
  shows "dict_get rel' u = Some (create_related_ttp (ttp_id cached) (galaxy_name g))"
  using assms
proof (induction cs arbitrary: rel p)
  case Nil
  then show ?case by simp
next
  case (Cons c cs)
  show ?case
  proof (cases "cluster_uuid c = u")
    case True
    with Cons.prems(1,2) have run:
      "get_related_ttps_loop f g cs
         (dict_set u (create_related_ttp (ttp_id cached) (galaxy_name g)) rel) p = (Inr rel', p')"
      by simp
    show ?thesis
      by (rule Cons.IH [OF run Cons.prems(2)]) (simp add: dict_get_dict_set)
  next
    case False
    with Cons.prems(3) have rest: "u \<in> cluster_uuid ` set cs \<or>
         dict_get rel u = Some (create_related_ttp (ttp_id cached) (galaxy_name g))" by auto
    show ?thesis
    proof (cases "dict_get (ttps p) (cluster_uuid c)")
      case (Some other)
      with Cons.prems(1) have run:
        "get_related_ttps_loop f g cs (dict_set (cluster_uuid c)
           (create_related_ttp (ttp_id other) (galaxy_name g)) rel) p = (Inr rel', p')" by simp
      show ?thesis
        by (rule Cons.IH [OF run Cons.prems(2)]) (use False rest in \<open>simp add: dict_get_dict_set\<close>)
    next
      case None
      with Cons.prems(1) obtain t' where
        t': "parse_feature_galaxy f p c
               (create_ttp_from_galaxy p (galaxy_name g) (cluster_uuid c)) = Inr t'"
        by (cases "parse_feature_galaxy f p c
               (create_ttp_from_galaxy p (galaxy_name g) (cluster_uuid c))") auto
      with None Cons.prems(1) have run:
        "get_related_ttps_loop f g cs (dict_set (cluster_uuid c)
           (create_related_ttp (ttp_id t') (galaxy_name g)) rel)
           (p\<lparr>ttps := dict_set (cluster_uuid c) t' (ttps p)\<rparr>) = (Inr rel', p')" by simp
      from False Cons.prems(2) have kept:
        "dict_get (ttps (p\<lparr>ttps := dict_set (cluster_uuid c) t' (ttps p)\<rparr>)) u = Some cached"
        by (simp add: dict_get_dict_set)
      show ?thesis
        by (rule Cons.IH [OF run kept]) (use False rest in \<open>simp add: dict_get_dict_set\<close>)
    qed
  qed
qed

lemma get_related_ttps_loop_all_cached:
  "\<forall>c \<in> set cs. cluster_uuid c \<in> fst ` set (ttps p) \<Longrightarrow>
     \<exists>rel'. get_related_ttps_loop f g cs rel p = (Inr rel', p)"
proof (induction cs arbitrary: rel)
  case Nil
  then show ?case by simp
next
  case (Cons c cs)
  then obtain cached where "dict_get (ttps p) (cluster_uuid c) = Some cached"
    by (cases "dict_get (ttps p) (cluster_uuid c)") (auto simp: dict_get_None_iff)
  with Cons show ?case by simp
qed

text \<open>
  Claim C2, as stated, at two events with the same event-level cluster, parsed in a row
  on one instance. Both calls return. The package of the second event (its identifier
  is made of the second event's UUID) contains the full TTP of the cluster, the entity
  cached while the first event was parsed, beside the relationship in the incident:
  \<open>parse_misp_event\<close> adds every value of \<open>self.ttps\<close> to the package it assembles.
\<close>

theorem cached_cluster_reuse_counterexample:
  "fst (parse_misp_event mapping0 eventA ''1.2'' (init_stix1 ''ns'' ''ORG'')) = Inr () \<and>
   fst (parse_misp_event mapping0 eventB ''1.2'' parserA) = Inr () \<and>
   cluster_uuid cluster1 \<in> fst ` set (ttps parserA) \<and>
   package_id (stix_package parserB) = ''ORG:STIXPackage-eB'' \<and>
   package_ttps (stix_package parserB) =
     [\<lparr>ttp_id = ''ns:TTP-c1'', ttp_timestamp = None,
       ttp_title = ''Attack Pattern (MISP Galaxy)'', ttp_handling = None,
       ttp_content = Some (Behavior_attack_pattern
         \<lparr>ap_id = ''ns:AttackPattern-c1'', ap_title = ''Spearphishing Link'',
          ap_description = ''Link in a message'', ap_capec_id = Some ''CAPEC-163''\<rparr>)\<rparr>] \<and>
   leveraged_ttps (the_incident parserB) =
     [\<lparr>rttp_idref = ''ns:TTP-c1'', rttp_relationship = ''Attack Pattern''\<rparr>]"
  by code_simp

text \<open>
  Claim C2, amended. When the UUID of a cluster of the galaxy is a key of \<open>self.ttps\<close>
  (cached by an earlier event of the same instance, for one), a call of
  \<open>_get_related_ttps\<close> that returns gives, for that UUID, the relationship whose \<open>idref\<close> is
  the identifier of the cached entity, and the cached entity is still the entry of the
  UUID: no second descriptor is built. The package assembled afterwards contains the
  cached entity itself. When every cluster of the galaxy is cached, the call returns and
  leaves the parser as it was.
\<close>

theorem cached_cluster_reuse:
  assumes "dict_get (ttps p) (cluster_uuid cluster) = Some cached"
    and "cluster \<in> set (GalaxyCluster galaxy')"
  shows "(get_related_ttps galaxy' feature' p = (Inr related_ttps, p') \<longrightarrow>
            dict_get related_ttps (cluster_uuid cluster) =
              Some (create_related_ttp (ttp_id cached) (galaxy_name galaxy')) \<and>
            dict_get (ttps p') (cluster_uuid cluster) = Some cached \<and>
            cached \<in> set (package_ttps (stix_package (assemble_package p')))) \<and>
         ((\<forall>c \<in> set (GalaxyCluster galaxy'). cluster_uuid c \<in> fst ` set (ttps p)) \<longrightarrow>
            (\<exists>related. get_related_ttps galaxy' feature' p = (Inr related, p)))"
proof (intro conjI impI)
  assume run: "get_related_ttps galaxy' feature' p = (Inr related_ttps, p')"
  then have loop: "get_related_ttps_loop feature' galaxy' (GalaxyCluster galaxy') [] p =
      (Inr related_ttps, p')" by (simp add: get_related_ttps_def)
  from assms(2) have "cluster_uuid cluster \<in> cluster_uuid ` set (GalaxyCluster galaxy') \<or>
      dict_get [] (cluster_uuid cluster) =
        Some (create_related_ttp (ttp_id cached) (galaxy_name galaxy'))" by blast
  from get_related_ttps_loop_cached [OF loop assms(1) this]
  show "dict_get related_ttps (cluster_uuid cluster) =
      Some (create_related_ttp (ttp_id cached) (galaxy_name galaxy'))" .
  from get_related_ttps_loop_kept [OF loop assms(1)]
  show kept: "dict_get (ttps p') (cluster_uuid cluster) = Some cached" .
  then have "cached \<in> set (dict_values (ttps p'))" by (rule dict_get_Some_values)
  then show "cached \<in> set (package_ttps (stix_package (assemble_package p')))"
    by (simp add: assemble_package_def stix_package_def Let_def)
next
  assume "\<forall>c \<in> set (GalaxyCluster galaxy'). cluster_uuid c \<in> fst ` set (ttps p)"
  from get_related_ttps_loop_all_cached [OF this]
  show "\<exists>related. get_related_ttps galaxy' feature' p = (Inr related, p)"
    by (simp add: get_related_ttps_def)
qed

theorem cached_cluster_reuse_witness:
  "dict_get (ttps parserA) (cluster_uuid cluster1) =
     Some \<lparr>ttp_id = ''ns:TTP-c1'', ttp_timestamp = None,
           ttp_title = ''Attack Pattern (MISP Galaxy)'', ttp_handling = None,
           ttp_content = Some (Behavior_attack_pattern
             \<lparr>ap_id = ''ns:AttackPattern-c1'', ap_title = ''Spearphishing Link'',
              ap_description = ''Link in a message'', ap_capec_id = Some ''CAPEC-163''\<rparr>)\<rparr> \<and>
   cluster1 \<in> set (GalaxyCluster galaxy1) \<and>
   cluster_uuid ` set (GalaxyCluster galaxy1) \<subseteq> fst ` set (ttps parserA) \<and>
   get_related_ttps galaxy1 F_attack_pattern parserA =
     (Inr [(''c1'', \<lparr>rttp_idref = ''ns:TTP-c1'', rttp_relationship = ''Attack Pattern''\<rparr>)],
      parserA)"
proof -
  let ?cached = "\<lparr>ttp_id = ''ns:TTP-c1'', ttp_timestamp = None,
           ttp_title = ''Attack Pattern (MISP Galaxy)'', ttp_handling = None,
           ttp_content = Some (Behavior_attack_pattern
             \<lparr>ap_id = ''ns:AttackPattern-c1'', ap_title = ''Spearphishing Link'',
              ap_description = ''Link in a message'', ap_capec_id = Some ''CAPEC-163''\<rparr>)\<rparr>"
  have cached: "dict_get (ttps parserA) (cluster_uuid cluster1) = Some ?cached"
    by code_simp
  have member: "cluster1 \<in> set (GalaxyCluster galaxy1)" by (simp add: galaxy1_def)
  have all: "\<forall>c \<in> set (GalaxyCluster galaxy1). cluster_uuid c \<in> fst ` set (ttps parserA)"
    by code_simp
  note inst = cached_cluster_reuse [OF cached member, where feature' = F_attack_pattern]
  from inst all obtain related where
    run: "get_related_ttps galaxy1 F_attack_pattern parserA = (Inr related, parserA)" by blast
  have "fst (get_related_ttps galaxy1 F_attack_pattern parserA) =
      Inr [(''c1'', \<lparr>rttp_idref = ''ns:TTP-c1'', rttp_relationship = ''Attack Pattern''\<rparr>)]"
    by code_simp
  with run have "get_related_ttps galaxy1 F_attack_pattern parserA =
     (Inr [(''c1'', \<lparr>rttp_idref = ''ns:TTP-c1'', rttp_relationship = ''Attack Pattern''\<rparr>)],
      parserA)" by simp
  moreover from all have
    "cluster_uuid ` set (GalaxyCluster galaxy1) \<subseteq> fst ` set (ttps parserA)" by blast
  ultimately show ?thesis using cached member by blast
qed

subsection \<open>STIX 2: markings\<close>

lemma handle_markings_loop_result:
  "handle_markings_loop markings marking_ids p =
     ((if \<forall>marking \<in> set markings. dict_get (s2_markings p) marking \<noteq> None
       then Inr (marking_ids @
                 map (\<lambda>marking. md_id (the (dict_get (s2_markings p) marking))) markings)
       else Inl (NameError ''stix2_mapping'')), p)"
proof (induction markings arbitrary: marking_ids)
  case Nil
  then show ?case by simp
next
  case (Cons marking markings)
  show ?case
  proof (cases "dict_get (s2_markings p) marking")
    case None
    then show ?thesis by (simp add: create_marking_def)
  next
    case (Some cached)
    then show ?thesis by (simp add: Cons.IH)
  qed
qed

text \<open>
  Claim C4. \<open>_handle_markings\<close> never writes to the parser. As soon as one tag is not a
  key of \<open>self._markings\<close> it raises the \<open>NameError\<close> of \<open>_create_marking\<close>, whatever the
  tag looks like and whatever tags follow; it returns, with the cached identifiers, only
  when every tag is a key already.
\<close>

theorem handle_markings_undefined_name:
  "snd (handle_markings markings p) = p \<and>
   ((\<exists>marking \<in> set markings. dict_get (s2_markings p) marking = None) \<longrightarrow>
      fst (handle_markings markings p) = Inl (NameError ''stix2_mapping'')) \<and>
   ((\<forall>marking \<in> set markings. dict_get (s2_markings p) marking \<noteq> None) \<longrightarrow>
      fst (handle_markings markings p) =
        Inr (map (\<lambda>marking. md_id (the (dict_get (s2_markings p) marking))) markings))"
  by (auto simp: handle_markings_def handle_markings_loop_result)

theorem handle_markings_undefined_name_witness:
  "dict_get (s2_markings parser2_0) ''no-colon'' = None \<and>
   handle_markings [''no-colon'', ''statement:ok''] parser2_0 =
     (Inl (NameError ''stix2_mapping''), parser2_0) \<and>
   handle_markings [''foo:bar'', ''statement:ok''] parser2_0 =
     (Inl (NameError ''stix2_mapping''), parser2_0) \<and>
   handle_markings [''statement:ok''] parser2_0 =
     (Inl (NameError ''stix2_mapping''), parser2_0)"
proof -
  have empty: "s2_markings parser2_0 = []" by code_simp
  then have none: "dict_get (s2_markings parser2_0) marking = None" for marking
    by (simp add: dict_get_def)
  have raises: "handle_markings (marking # markings) parser2_0 =
      (Inl (NameError ''stix2_mapping''), parser2_0)" for marking markings
  proof -
    note inst = handle_markings_undefined_name
      [where markings = "marking # markings" and p = parser2_0]
    have "\<exists>m \<in> set (marking # markings). dict_get (s2_markings parser2_0) m = None"
      using none by auto
    with inst have "fst (handle_markings (marking # markings) parser2_0) =
        Inl (NameError ''stix2_mapping'')" by blast
    moreover from inst have "snd (handle_markings (marking # markings) parser2_0) = parser2_0"
      by blast
    ultimately show ?thesis by (metis prod.collapse)
  qed
  from none raises show ?thesis by blast
qed

subsection \<open>STIX 2: the event\<close>

lemma keeps_identity_refl: "keeps_identity p p"
  by (simp add: keeps_identity_def)

lemma resolve_attributes2_errors:
  "resolve_attributes2 attributes p =
     p\<lparr>s2_errors := s2_errors p @
          map (\<lambda>attribute. ''Error with the '' @ attr_type attribute @ '' attribute: '' @
                            attr_value attribute @ ''.'') attributes\<rparr>"
  by (induction attributes arbitrary: p)
     (simp_all add: resolve_attribute2_def resolve_attribute2_body_def)

lemma generate_event_report_raises:
  "\<exists>e. fst (generate_event_report env ev p) = Inl e"
  by (auto simp: generate_event_report_def Report_call_def
      split: sum.splits option.splits prod.splits)

lemma generate_event_report_keeps:
  assumes "event_tags_keep_identity env"
  shows "keeps_identity p (snd (generate_event_report env ev p))"
proof -
  from assms have "keeps_identity p (snd (env_handle_event_tags_and_galaxies env ev p))"
    by (simp add: event_tags_keep_identity_def)
  then show ?thesis
    by (cases "env_handle_event_tags_and_galaxies env ev p")
       (auto simp: generate_event_report_def keeps_identity_refl Report_call_def
          handle_markings_def handle_markings_loop_result
        split: sum.splits option.splits)
qed

lemma parse_misp_event2_raises:
  "\<exists>e. fst (parse_misp_event2 env ev ids include_bundle inst) = Inl e"
proof -
  have "\<exists>e. fst (case generate_event_report env ev q of
                   (Inl e, p4) \<Rightarrow> (Inl e, p4)
                 | (Inr report', p4) \<Rightarrow>
                     (Inr (), p4\<lparr>s2_objects :=
                        list_insert index (Report report') (s2_objects p4)\<rparr>)) = Inl e"
    for q index
    using generate_event_report_raises [of env ev q]
    by (cases "generate_event_report env ev q") auto
  then show ?thesis
    by (simp add: parse_misp_event2_def Let_def split: prod.splits)
qed

text \<open>The parser one event leaves: the identity, when it is new, then what the
  parameter appended; no report.\<close>

lemma parse_misp_event2_objects:
  assumes "event_tags_keep_identity env"
  shows "\<exists>added.
     (\<forall>x \<in> set added. \<exists>type' id'. x = SDO type' id') \<and>
     s2_identity_id (snd (parse_misp_event2 env ev ids include_bundle inst)) =
       Some (''identity--'' @ org_uuid (evd_Orgc ev)) \<and>
     (if org_uuid (evd_Orgc ev) \<notin> set (s2_orgs inst) \<and>
         ''identity--'' @ org_uuid (evd_Orgc ev) \<notin> set ids
      then s2_objects (snd (parse_misp_event2 env ev ids include_bundle inst)) =
             Identity (create_identity_object (''identity--'' @ org_uuid (evd_Orgc ev))
                         (org_name (evd_Orgc ev))) # added \<and>
           s2_orgs (snd (parse_misp_event2 env ev ids include_bundle inst)) =
             s2_orgs inst @ [org_uuid (evd_Orgc ev)]
      else s2_objects (snd (parse_misp_event2 env ev ids include_bundle inst)) = added \<and>
           s2_orgs (snd (parse_misp_event2 env ev ids include_bundle inst)) = s2_orgs inst)"
proof -
  define p0 :: stix2_parser where
    "p0 = \<lparr>s2_ids = ids, s2_markings = s2_markings inst, s2_orgs = s2_orgs inst,
           s2_errors = s2_errors inst, s2_warnings = s2_warnings inst,
           s2_include_bundle = include_bundle,
           s2_report_id = ''report--'' @ evd_uuid ev,
           s2_objects = [], s2_object_refs = [], s2_identity_id = None\<rparr>"
  define p1 where "p1 = snd (set_identity ev p0)"
  define p3 where "p3 = (if evd_Attribute ev \<noteq> [] then resolve_attributes2 (evd_Attribute ev) p1
                         else p1)"
  have run: "snd (parse_misp_event2 env ev ids include_bundle inst) =
      snd (generate_event_report env ev p3)"
    using generate_event_report_raises [of env ev p3]
    by (cases "generate_event_report env ev p3")
       (auto simp: parse_misp_event2_def Let_def p0_def p1_def p3_def resolve_objects2_def
        split: prod.splits)
  have same: "s2_objects p3 = s2_objects p1" "s2_orgs p3 = s2_orgs p1"
    "s2_identity_id p3 = s2_identity_id p1"
    by (simp_all add: p3_def resolve_attributes2_errors)
  from generate_event_report_keeps [OF assms, of p3 ev] obtain added where
    added: "\<forall>x \<in> set added. \<exists>type' id'. x = SDO type' id'"
      "s2_objects (snd (generate_event_report env ev p3)) = s2_objects p3 @ added"
      "s2_orgs (snd (generate_event_report env ev p3)) = s2_orgs p3"
      "s2_identity_id (snd (generate_event_report env ev p3)) = s2_identity_id p3"
    by (auto simp: keeps_identity_def)
  have p1: "s2_identity_id p1 = Some (''identity--'' @ org_uuid (evd_Orgc ev))"
    "if org_uuid (evd_Orgc ev) \<notin> set (s2_orgs inst) \<and>
        ''identity--'' @ org_uuid (evd_Orgc ev) \<notin> set ids
     then s2_objects p1 =
            [Identity (create_identity_object (''identity--'' @ org_uuid (evd_Orgc ev))
                         (org_name (evd_Orgc ev)))] \<and>
          s2_orgs p1 = s2_orgs inst @ [org_uuid (evd_Orgc ev)]
     else s2_objects p1 = [] \<and> s2_orgs p1 = s2_orgs inst"
    by (auto simp: p1_def p0_def set_identity_def Let_def)
  from added same p1 run show ?thesis
    by (intro exI [of _ added]) (auto split: if_splits)
qed

text \<open>
  Claim C5. \<open>parse_misp_event\<close> never returns: \<open>_generate_event_report\<close> raises on every
  call, at the latest when it reads the unbound name \<open>Report\<close>, so the statement that
  inserts the report is not reached. For an event whose organization is new and whose
  \<open>_handle_event_tags_and_galaxies\<close> appends neither identity nor report, the sequence
  \<open>self._objects\<close> the call leaves is led by the identity and holds no report.
\<close>

theorem report_never_inserted:
  "(\<exists>e. fst (parse_misp_event2 env ev ids include_bundle inst) = Inl e) \<and>
   (event_tags_keep_identity env \<and> org_uuid (evd_Orgc ev) \<notin> set (s2_orgs inst) \<and>
    ''identity--'' @ org_uuid (evd_Orgc ev) \<notin> set ids \<longrightarrow>
      hd (s2_objects (snd (parse_misp_event2 env ev ids include_bundle inst))) =
        Identity (create_identity_object (''identity--'' @ org_uuid (evd_Orgc ev))
                    (org_name (evd_Orgc ev))) \<and>
      (\<forall>report'. Report report' \<notin>
         set (s2_objects (snd (parse_misp_event2 env ev ids include_bundle inst)))))"
proof (intro conjI impI)
  show "\<exists>e. fst (parse_misp_event2 env ev ids include_bundle inst) = Inl e"
    by (rule parse_misp_event2_raises)
next
  assume a: "event_tags_keep_identity env \<and> org_uuid (evd_Orgc ev) \<notin> set (s2_orgs inst) \<and>
    ''identity--'' @ org_uuid (evd_Orgc ev) \<notin> set ids"
  with parse_misp_event2_objects [of env ev ids include_bundle inst] obtain added where
    "\<forall>x \<in> set added. \<exists>type' id'. x = SDO type' id'"
    "s2_objects (snd (parse_misp_event2 env ev ids include_bundle inst)) =
       Identity (create_identity_object (''identity--'' @ org_uuid (evd_Orgc ev))
                   (org_name (evd_Orgc ev))) # added"
    by auto
  then show "hd (s2_objects (snd (parse_misp_event2 env ev ids include_bundle inst))) =
        Identity (create_identity_object (''identity--'' @ org_uuid (evd_Orgc ev))
                    (org_name (evd_Orgc ev)))"
    and "\<forall>report'. Report report' \<notin>
         set (s2_objects (snd (parse_misp_event2 env ev ids include_bundle inst)))"
    by auto
qed

lemma event_tags_keep_identity_env0: "event_tags_keep_identity (env0 tags)"
  by (simp add: event_tags_keep_identity_def env0_def keeps_identity_def)

theorem report_never_inserted_witness:
  "event_tags_keep_identity (env0 []) \<and>
   org_uuid (evd_Orgc event_dict1) \<notin> set (s2_orgs init_stix2) \<and>
   ''identity--'' @ org_uuid (evd_Orgc event_dict1) \<notin> set [] \<and>
   fst (parse_misp_event2 (env0 []) event_dict1 [] True init_stix2) =
     Inl (NameError ''Report'') \<and>
   stix_objects (snd (parse_misp_event2 (env0 []) event_dict1 [] True init_stix2)) =
     Bundle [Identity \<lparr>identity_id = ''identity--org-1'', identity_name = ''ORGC'',
                       identity_class = ''organization''\<rparr>] \<and>
   s2_errors (snd (parse_misp_event2 (env0 []) event_dict1 [] True init_stix2)) =
     [''Error with the AS attribute: AS174.'']"
proof -
  have fresh: "org_uuid (evd_Orgc event_dict1) \<notin> set (s2_orgs init_stix2)"
    by (simp add: init_stix2_def)
  have unseen: "''identity--'' @ org_uuid (evd_Orgc event_dict1) \<notin> set []" by simp
  note inst = report_never_inserted [where env = "env0 []" and ev = event_dict1
      and ids = "[]" and include_bundle = True and inst = init_stix2]
  from inst event_tags_keep_identity_env0 fresh unseen
  have "\<forall>report'. Report report' \<notin>
      set (s2_objects (snd (parse_misp_event2 (env0 []) event_dict1 [] True init_stix2)))"
    by blast
  moreover have "fst (parse_misp_event2 (env0 []) event_dict1 [] True init_stix2) =
      Inl (NameError ''Report'')"
    by code_simp
  moreover have
    "stix_objects (snd (parse_misp_event2 (env0 []) event_dict1 [] True init_stix2)) =
     Bundle [Identity \<lparr>identity_id = ''identity--org-1'', identity_name = ''ORGC'',
                       identity_class = ''organization''\<rparr>]"
    by code_simp
  moreover have
    "s2_errors (snd (parse_misp_event2 (env0 []) event_dict1 [] True init_stix2)) =
     [''Error with the AS attribute: AS174.'']"
    by code_simp
  ultimately show ?thesis
    using event_tags_keep_identity_env0 fresh unseen by blast
qed

text \<open>
  Claim C9. Two events of the same organization are parsed one after the other on one
  instance that has not met the organization, with a \<open>_handle_event_tags_and_galaxies\<close>
  that appends neither identity nor report. Both calls raise, so neither produces a
  report. What they leave in \<open>self._objects\<close> holds, together, exactly one identity, and
  none when the identifier is in the \<open>ids\<close> of both calls; every identity there has the
  identifier \<open>identity--\<close> followed by the UUID of the organization, which is also the
  value of \<open>self._identity_id\<close> after each call.
\<close>

theorem identity_singleton_without_report:
  assumes "event_tags_keep_identity env"
    and "org_uuid (evd_Orgc evB) = org_uuid (evd_Orgc evA)"
    and "org_uuid (evd_Orgc evA) \<notin> set (s2_orgs inst)"
    and "pA = snd (parse_misp_event2 env evA idsA bundleA inst)"
    and "pB = snd (parse_misp_event2 env evB idsB bundleB pA)"
  shows "(\<exists>e. fst (parse_misp_event2 env evA idsA bundleA inst) = Inl e) \<and>
         (\<exists>e. fst (parse_misp_event2 env evB idsB bundleB pA) = Inl e) \<and>
         (\<forall>report'. Report report' \<notin> set (s2_objects pA @ s2_objects pB)) \<and>
         length (filter (\<lambda>x. \<exists>i. x = Identity i) (s2_objects pA @ s2_objects pB)) =
           (if ''identity--'' @ org_uuid (evd_Orgc evA) \<in> set idsA \<and>
               ''identity--'' @ org_uuid (evd_Orgc evA) \<in> set idsB
            then 0 else 1) \<and>
         (\<forall>i. Identity i \<in> set (s2_objects pA @ s2_objects pB) \<longrightarrow>
              identity_id i = ''identity--'' @ org_uuid (evd_Orgc evA)) \<and>
         s2_identity_id pA = Some (''identity--'' @ org_uuid (evd_Orgc evA)) \<and>
         s2_identity_id pB = Some (''identity--'' @ org_uuid (evd_Orgc evA))"
proof -
  let ?u = "org_uuid (evd_Orgc evA)"
  let ?id = "''identity--'' @ ?u"
  let ?I = "\<lambda>ev. Identity (create_identity_object ?id (org_name (evd_Orgc ev)))"
  have none: "filter (\<lambda>x. \<exists>i. x = Identity i) added = []"
    if "\<forall>x \<in> set added. \<exists>type' id'. x = SDO type' id'" for added
    using that by (auto simp: filter_empty_conv)
  have norep: "\<forall>report'. Report report' \<notin> set added"
    if "\<forall>x \<in> set added. \<exists>type' id'. x = SDO type' id'" for added
    using that by auto
  have noid: "\<forall>i. Identity i \<notin> set added"
    if "\<forall>x \<in> set added. \<exists>type' id'. x = SDO type' id'" for added
    using that by auto
  from parse_misp_event2_objects [OF assms(1), of evA idsA bundleA inst] assms(3,4)
  obtain addedA where
    A: "\<forall>x \<in> set addedA. \<exists>type' id'. x = SDO type' id'"
      "s2_identity_id pA = Some ?id"
      "if ?id \<notin> set idsA
       then s2_objects pA = ?I evA # addedA \<and> s2_orgs pA = s2_orgs inst @ [?u]
       else s2_objects pA = addedA \<and> s2_orgs pA = s2_orgs inst"
    by auto
  from parse_misp_event2_objects [OF assms(1), of evB idsB bundleB pA] assms(2,5)
  obtain addedB where
    B: "\<forall>x \<in> set addedB. \<exists>type' id'. x = SDO type' id'"
      "s2_identity_id pB = Some ?id"
      "if ?u \<notin> set (s2_orgs pA) \<and> ?id \<notin> set idsB
       then s2_objects pB = ?I evB # addedB
       else s2_objects pB = addedB"
    by (auto split: if_splits)
  note nA = none [OF A(1)] and nB = none [OF B(1)]
  note rA = norep [OF A(1)] and rB = norep [OF B(1)]
  note iA = noid [OF A(1)] and iB = noid [OF B(1)]
  have idI: "identity_id (create_identity_object ?id n) = ?id" for n
    by (simp add: create_identity_object_def)
  have raises: "\<exists>e. fst (parse_misp_event2 env evA idsA bundleA inst) = Inl e"
    "\<exists>e. fst (parse_misp_event2 env evB idsB bundleB pA) = Inl e"
    by (rule parse_misp_event2_raises)+
  have rest: "(\<forall>report'. Report report' \<notin> set (s2_objects pA @ s2_objects pB)) \<and>
         length (filter (\<lambda>x. \<exists>i. x = Identity i) (s2_objects pA @ s2_objects pB)) =
           (if ?id \<in> set idsA \<and> ?id \<in> set idsB then 0 else 1) \<and>
         (\<forall>i. Identity i \<in> set (s2_objects pA @ s2_objects pB) \<longrightarrow> identity_id i = ?id)"
  proof (cases "?id \<in> set idsA")
    case False
    with A(3) have oA: "s2_objects pA = ?I evA # addedA"
      and "?u \<in> set (s2_orgs pA)" by auto
    with B(3) have oB: "s2_objects pB = addedB" by auto
    from oA oB nA nB rA rB iA iB False idI show ?thesis by auto
  next
    case True
    with A(3) assms(3) have oA: "s2_objects pA = addedA"
      and orgs: "?u \<notin> set (s2_orgs pA)" by auto
    show ?thesis
    proof (cases "?id \<in> set idsB")
      case inB: True
      with B(3) have oB: "s2_objects pB = addedB" by auto
      from oA oB nA nB rA rB iA iB True inB show ?thesis by auto
    next
      case notB: False
      with B(3) orgs have oB: "s2_objects pB = ?I evB # addedB" by auto
      from oA oB nA nB rA rB iA iB True notB idI show ?thesis by auto
    qed
  qed
  from raises rest A(2) B(2) show ?thesis by blast
qed

theorem identity_singleton_without_report_witness:
  "event_tags_keep_identity (env0 []) \<and>
   org_uuid (evd_Orgc event_dict1) = org_uuid (evd_Orgc event_dict0) \<and>
   org_uuid (evd_Orgc event_dict0) \<notin> set (s2_orgs init_stix2) \<and>
   fst (parse_misp_event2 (env0 []) event_dict0 [] True init_stix2) =
     Inl (NameError ''Report'') \<and>
   fst (parse_misp_event2 (env0 []) event_dict1 [] True parser2_0) =
     Inl (NameError ''Report'') \<and>
   length (filter (\<lambda>x. \<exists>i. x = Identity i) (s2_objects parser2_0 @ s2_objects parser2_1)) = 1 \<and>
   s2_objects parser2_0 =
     [Identity \<lparr>identity_id = ''identity--org-1'', identity_name = ''ORGC'',
                identity_class = ''organization''\<rparr>] \<and>
   s2_objects parser2_1 = []"
proof -
  have same: "org_uuid (evd_Orgc event_dict1) = org_uuid (evd_Orgc event_dict0)"
    by (simp add: event_dict1_def)
  have fresh: "org_uuid (evd_Orgc event_dict0) \<notin> set (s2_orgs init_stix2)"
    by (simp add: init_stix2_def)
  from identity_singleton_without_report
    [OF event_tags_keep_identity_env0 same fresh parser2_0_def parser2_1_def]
  have one: "length (filter (\<lambda>x. \<exists>i. x = Identity i)
                (s2_objects parser2_0 @ s2_objects parser2_1)) = 1"
    by simp
  have rA: "fst (parse_misp_event2 (env0 []) event_dict0 [] True init_stix2) =
      Inl (NameError ''Report'')"
    by code_simp
  have rB: "fst (parse_misp_event2 (env0 []) event_dict1 [] True parser2_0) =
      Inl (NameError ''Report'')"
    by code_simp
  have oA: "s2_objects parser2_0 =
     [Identity \<lparr>identity_id = ''identity--org-1'', identity_name = ''ORGC'',
                identity_class = ''organization''\<rparr>]"
    by code_simp
  have oB: "s2_objects parser2_1 = []" by code_simp
  from event_tags_keep_identity_env0 same fresh one rA rB oA oB show ?thesis by blast
qed

subsection \<open>Identifiers: the constructors\<close>

declare same_frame_def [simp]


lemma made_id_mono: "set U \<subseteq> set V \<Longrightarrow> made_id ns U s \<Longrightarrow> made_id ns V s"
  unfolding made_id_def by blast









subsection \<open>Identifiers: the parser\<close>

lemma ids_from_log [simp]:
  "ids_from U (p\<lparr>warnings := w\<rparr>) = ids_from U p"
  "ids_from U (p\<lparr>errors := e\<rparr>) = ids_from U p"
  "ids_from U (p\<lparr>orgc_name := n\<rparr>) = ids_from U p"
  by (simp_all add: ids_from_def)




lemma dict_values_simps [simp]:
  "dict_values [] = []"
  "dict_values (kv # d) = snd kv # dict_values d"
  by (simp_all add: dict_values_def)










lemma same_frame_append_related:
  "same_frame p (append_related_indicator i rel p)"
  "same_frame p (append_related_observable ob rel p)"
  by (simp_all add: append_related_indicator_def append_related_observable_def)

lemmas frame_append_related [simp] = same_frame_append_related [simplified]

lemma ids_from_mono: "set U \<subseteq> set V \<Longrightarrow> ids_from U p \<Longrightarrow> ids_from V p"
  unfolding ids_from_def by (meson made_id_mono)

subsection \<open>Identifiers: the galaxies\<close>








subsection \<open>Identifiers: the attributes\<close>


lemma galaxy_uuids_Nil [simp]: "galaxy_uuids [] = []"
  by (simp add: galaxy_uuids_def)



lemma indicator_ids_fields [simp]:
  "indicator_ids (i\<lparr>indicator_handling := h\<rparr>) = indicator_ids i"
  "indicator_ids (i\<lparr>indicator_types := ts\<rparr>) = indicator_ids i"
  by (simp_all add: indicator_ids_def)









subsection \<open>Identifiers: the objects\<close>






subsection \<open>Identifiers: the event\<close>





lemma incident_ids_fields [simp]:
  "incident_ids (inc\<lparr>history := h\<rparr>) = incident_ids inc"
  "incident_ids (inc\<lparr>incident_handling := ha\<rparr>) = incident_ids inc"
  "incident_ids (inc\<lparr>external_ids := x\<rparr>) = incident_ids inc"
  "incident_ids (inc\<lparr>incident_status := st\<rparr>) = incident_ids inc"
  "incident_ids (inc\<lparr>information_source := src\<rparr>) = incident_ids inc"
  "incident_ids (inc\<lparr>reporter := rep\<rparr>) = incident_ids inc"
  by (simp_all add: incident_ids_def)








subsection \<open>The log is never read: galaxies\<close>
















subsection \<open>The log is never read: attributes and objects\<close>















subsection \<open>The log is never read: the event\<close>






subsection \<open>Identifiers and repeated conversion\<close>





end
